theory Spec2Isabelle
  imports Complex_Main "HOL-Library.AList" "HOL-Library.Sublist"
begin

section \<open>The simulation core of the side-scrolling game (src/components/GameCanvas.tsx)\<close>

text \<open>
  The component keeps its simulation state in mutable references and advances it once per
  animation frame by \<open>update\<close>. The embedding passes that state explicitly: one record
  \<open>game\<close> holds every reference, the React state the tick writes, and the traces of the
  effects the tick performs (host callbacks, audio cues, timers, the random source).

  JavaScript numbers are modelled as exact reals (no rounding); \<open>Date.now()\<close> and the
  gamepad snapshot are inputs of a tick; \<open>Math.random()\<close> reads an oracle stream carried
  in the state.
\<close>

subsection \<open>Data model (src/types.ts)\<close>

record Vector2D =
  vec_x :: real
  vec_y :: real

datatype GameState = START | PLAYING | GAMEOVER

datatype PowerUpType = SHIELD | BOOST | MULTIPLIER

record Environment =
  name :: string
  primaryColor :: string
  secondaryColor :: string
  description :: string
  atmosphere :: string

datatype StompStage = waiting | dropping | rising

text \<open>
  An obstacle's \<open>type\<close> tag and its loosely typed \<open>state\<close> payload are created together by
  \<open>spawnObstacle\<close> and never separated, so the two fields are one datatype here: the
  constructor is the tag, its arguments are the payload that tag carries
  (mine: phase; laser: timer, active; saw: rotation; stomp: stage, timer,
  impactSoundPlayed; missile: speed; spike, wall and drone carry \<open>null\<close>).
\<close>

datatype ObstacleKind =
    spike
  | wall
  | drone
  | mine real
  | laser real bool
  | saw real
  | stomp StompStage real bool
  | missile real

record Obstacle =
  obs_id :: string
  obs_x :: real
  obs_y :: real
  baseY :: real
  width :: real
  height :: real
  kind :: ObstacleKind
  speedMultiplier :: real

record Collectible =
  col_id :: string
  col_x :: real
  col_y :: real
  col_size :: real
  col_collected :: bool

record PowerUp =
  pup_id :: string
  pup_x :: real
  pup_y :: real
  pup_size :: real
  pup_type :: PowerUpType
  pup_collected :: bool

datatype ParticleType = spark | heart

record Particle =
  par_x :: real
  par_y :: real
  par_vx :: real
  par_vy :: real
  life :: real
  color :: string
  par_type :: "ParticleType option"

datatype SocialEvent = NEAR_MISS | COLLECT | POWERUP | BIOME_SHIFT | LEVEL_UP

subsection \<open>Component-local types and constants\<close>

record ActivePowerUpState =
  hud_type :: PowerUpType
  timeLeft :: real
  percent :: real

text \<open>The banner written by \<open>setLastSocialMsg\<close>: its text, its time and its optional colour.\<close>

datatype SocialText = LevelUpText int | NearMissText

record SocialMsg =
  msg_text :: SocialText
  msg_time :: real
  msg_color :: "string option"

text \<open>The named cues of the audio service; the core fires them and never reads a result.\<close>

datatype AudioCue =
    JumpSound | MissileLaunchSound | GameOverSound | LevelUpSound | LaserOnSound
  | StompSound | ShieldActivateSound | BoostActivateSound | MultiplierActivateSound
  | CollectSound | ShieldBreakSound

text \<open>One entry of \<open>navigator.getGamepads()\<close>: the first axis, if the pad has one, and for
  each button index whether it is present and pressed.\<close>

record Gamepad =
  axis0 :: "real option"
  pressed :: "nat \<Rightarrow> bool"

record TickInput =
  now :: real
  gamepads :: "Gamepad option list"

definition CANVAS_WIDTH :: real where "CANVAS_WIDTH = 800"
definition CANVAS_HEIGHT :: real where "CANVAS_HEIGHT = 400"
definition GROUND_Y :: real where "GROUND_Y = 320"
definition GRAVITY :: real where "GRAVITY = 0.8"
definition JUMP_FORCE :: real where "JUMP_FORCE = -15"
definition PLAYER_X :: real where "PLAYER_X = 100"
definition PLAYER_SIZE :: real where "PLAYER_SIZE = 30"
definition PLAYER_SPEED :: real where "PLAYER_SPEED = 5"
definition POWERUP_DURATION :: real where "POWERUP_DURATION = 8000"
definition NEAR_MISS_THRESHOLD :: real where "NEAR_MISS_THRESHOLD = 25"
definition INVINCIBILITY_DURATION :: real where "INVINCIBILITY_DURATION = 2000"

subsection \<open>The state of the component\<close>

record game =
  keysPressed :: "string \<Rightarrow> bool"
  playerPos :: Vector2D
  playerVel :: Vector2D
  isJumping :: bool
  scoreRef :: real
  lastLevelRef :: int
  lastXDir :: real
  isDying :: bool
  invincibleUntil :: real
  timeScale :: real
  dashTrails :: "Vector2D list"
  activePowerUps :: "(PowerUpType \<times> real) list"
  obstacles :: "Obstacle list"
  collectibles :: "Collectible list"
  powerUps :: "PowerUp list"
  particles :: "Particle list"
  backgroundOffset :: real
  nearMissedObstacles :: "string set"
  shakeTime :: real
  shakeOffset :: Vector2D
  deathTimeoutRef :: "nat option"
  activeHudPowerUps :: "ActivePowerUpState list"
  hasMultiplier :: bool
  lastSocialMsg :: "SocialMsg option"
  rng :: "nat \<Rightarrow> real"
  rngPos :: nat
  pendingTimers :: "nat list"
  nextTimerId :: nat
  socialEvents :: "SocialEvent list"
  audioCues :: "AudioCue list"
  scoreUpdates :: "int list"
  gameOverReports :: "int list"

text \<open>
  \<^item> \<open>activePowerUps\<close> is the \<open>Map<PowerUpType, number>\<close>, as an association list in
    insertion order (\<open>Map.set\<close> on a present key keeps its place, as \<open>AList.update\<close> does).
  \<^item> \<open>rng\<close>, \<open>rngPos\<close>: the stream \<open>Math.random()\<close> reads and how far it has been read.
  \<^item> \<open>pendingTimers\<close>, \<open>nextTimerId\<close>: the timeouts set by \<open>window.setTimeout\<close> that have
    neither fired nor been cleared.
  \<^item> \<open>socialEvents\<close>, \<open>audioCues\<close>, \<open>scoreUpdates\<close>, \<open>gameOverReports\<close>: every call made so
    far to \<open>onSocialEvent\<close>, the audio service, \<open>onScoreUpdate\<close> and \<open>onGameOver\<close>, oldest
    first.
\<close>

subsection \<open>Effects\<close>

text \<open>\<open>Math.random()\<close> returns a number in \<open>[0, 1)\<close>: the next element of the stream, reduced
  to its fractional part (the identity on \<open>[0, 1)\<close>).\<close>

definition Math_random :: "game \<Rightarrow> real \<times> game" where
  "Math_random s = (frac (rng s (rngPos s)), s\<lparr>rngPos := Suc (rngPos s)\<rparr>)"

definition playSound :: "AudioCue \<Rightarrow> game \<Rightarrow> game" where
  "playSound c s = s\<lparr>audioCues := audioCues s @ [c]\<rparr>"

definition onSocialEvent :: "SocialEvent \<Rightarrow> game \<Rightarrow> game" where
  "onSocialEvent e s = s\<lparr>socialEvents := socialEvents s @ [e]\<rparr>"

definition onScoreUpdate :: "int \<Rightarrow> game \<Rightarrow> game" where
  "onScoreUpdate n s = s\<lparr>scoreUpdates := scoreUpdates s @ [n]\<rparr>"

definition onGameOver :: "int \<Rightarrow> game \<Rightarrow> game" where
  "onGameOver n s = s\<lparr>gameOverReports := gameOverReports s @ [n]\<rparr>"

text \<open>\<open>xs[Math.floor(r * xs.length)]\<close>, for \<open>r\<close> in \<open>[0, 1)\<close> and \<open>xs\<close> not empty.\<close>

definition pick :: "'a list \<Rightarrow> real \<Rightarrow> 'a" where
  "pick xs r = xs ! nat \<lfloor>r * real (length xs)\<rfloor>"

text \<open>\<open>Math.random().toString(36).substr(2, 9)\<close>: the rendering is \<open>0.\<close> followed by the
  base-36 digits of the fraction, as many as it has, and \<open>substr\<close> keeps the first nine of
  them. A fraction with more than nine digits gives its first nine digits, zeros
  included; a fraction that ends within nine digits gives just its digits, which end
  with a non-zero one.\<close>

definition digit36 :: "nat \<Rightarrow> char" where
  "digit36 d = ''0123456789abcdefghijklmnopqrstuvwxyz'' ! d"

definition digits36 :: "real \<Rightarrow> string" where
  "digits36 r = map (\<lambda>k. digit36 (nat (\<lfloor>r * 36 ^ k\<rfloor> mod 36))) [1..<10]"

definition random_id :: "real \<Rightarrow> string" where
  "random_id r =
     (if frac (r * 36 ^ 9) = 0
      then rev (dropWhile (\<lambda>c. c = CHR ''0'') (rev (digits36 r)))
      else digits36 r)"

text \<open>The registry \<open>Map\<close>: \<open>has\<close>, \<open>set\<close> and \<open>delete\<close>.\<close>

definition has :: "(PowerUpType \<times> real) list \<Rightarrow> PowerUpType \<Rightarrow> bool" where
  "has m t = (map_of m t \<noteq> None)"


subsection \<open>Session reset (\<open>resetGame\<close>, lines 98-123) and the game-state effect (lines 125-132)\<close>

definition clearTimeout :: "nat \<Rightarrow> game \<Rightarrow> game" where
  "clearTimeout tid s = s\<lparr>pendingTimers := removeAll tid (pendingTimers s)\<rparr>"

definition resetGame :: "game \<Rightarrow> game" where
  "resetGame s0 =
     (let s1 = (case deathTimeoutRef s0 of
                  None \<Rightarrow> s0
                | Some tid \<Rightarrow> (clearTimeout tid s0)\<lparr>deathTimeoutRef := None\<rparr>)
      in s1\<lparr>scoreRef := 0,
            lastLevelRef := 1,
            obstacles := [],
            collectibles := [],
            powerUps := [],
            particles := [],
            dashTrails := [],
            nearMissedObstacles := {},
            activePowerUps := [],
            activeHudPowerUps := [],
            playerPos := \<lparr>vec_x = PLAYER_X, vec_y = GROUND_Y - PLAYER_SIZE\<rparr>,
            playerVel := \<lparr>vec_x = 0, vec_y = 0\<rparr>,
            lastXDir := 0,
            isDying := False,
            invincibleUntil := 0,
            timeScale := 1.0,
            hasMultiplier := False,
            lastSocialMsg := None,
            shakeTime := 0,
            shakeOffset := \<lparr>vec_x = 0, vec_y = 0\<rparr>\<rparr>)"

text \<open>The effect that runs when the host changes \<open>gameState\<close>.\<close>

definition onGameState :: "GameState \<Rightarrow> game \<Rightarrow> game" where
  "onGameState gameState s =
     (if gameState = START then resetGame s
      else if gameState = PLAYING then
        (if isDying s \<or> (scoreRef s = 0 \<and> length (obstacles s) > 0) then resetGame s else s)
      else s)"

subsection \<open>Particles (lines 154-190)\<close>

definition pushParticle :: "Particle \<Rightarrow> game \<Rightarrow> game" where
  "pushParticle p s = s\<lparr>particles := particles s @ [p]\<rparr>"

definition jumpParticle :: "Environment \<Rightarrow> game \<Rightarrow> game" where
  "jumpParticle env s0 =
     (let (r1, s1) = Math_random s0;
          (r2, s2) = Math_random s1;
          (r3, s3) = Math_random s2
      in pushParticle
           \<lparr>par_x = vec_x (playerPos s3) + PLAYER_SIZE / 2,
            par_y = vec_y (playerPos s3) + PLAYER_SIZE,
            par_vx = (r1 - 0.5) * 8,
            par_vy = (r2 * 4) + 1,
            life = 0.5 + r3 * 0.5,
            color = secondaryColor env,
            par_type = None\<rparr> s3)"

definition createJumpParticles :: "Environment \<Rightarrow> game \<Rightarrow> game" where
  "createJumpParticles env s = (jumpParticle env ^^ 20) s"

definition likeParticle :: "real \<Rightarrow> real \<Rightarrow> game \<Rightarrow> game" where
  "likeParticle px py s0 =
     (let (r1, s1) = Math_random s0;
          (r2, s2) = Math_random s1
      in pushParticle
           \<lparr>par_x = px, par_y = py,
            par_vx = (r1 - 0.5) * 4,
            par_vy = - r2 * 6 - 2,
            life = 1.0,
            color = ''#ff0055'',
            par_type = Some heart\<rparr> s2)"

definition createLikeParticles :: "real \<Rightarrow> real \<Rightarrow> game \<Rightarrow> game" where
  "createLikeParticles px py s = (likeParticle px py ^^ 5) s"

definition burstParticle :: "real \<Rightarrow> real \<Rightarrow> string list \<Rightarrow> real \<Rightarrow> game \<Rightarrow> game" where
  "burstParticle px py colors force s0 =
     (let (r1, s1) = Math_random s0;
          (r2, s2) = Math_random s1;
          (r3, s3) = Math_random s2;
          (r4, s4) = Math_random s3
      in pushParticle
           \<lparr>par_x = px, par_y = py,
            par_vx = (r1 - 0.5) * force,
            par_vy = (r2 - 0.5) * force,
            life = 0.8 + r3 * 1.5,
            color = pick colors r4,
            par_type = None\<rparr> s4)"

text \<open>\<open>createCollisionBurst(x, y, colors, count, force = 25)\<close>; the callers that omit
  \<open>force\<close> pass 25 here.\<close>

definition createCollisionBurst ::
    "real \<Rightarrow> real \<Rightarrow> string list \<Rightarrow> nat \<Rightarrow> real \<Rightarrow> game \<Rightarrow> game" where
  "createCollisionBurst px py colors count force s = (burstParticle px py colors force ^^ count) s"

subsection \<open>Spawning (lines 192-242)\<close>

definition spawnCollectible :: "game \<Rightarrow> game" where
  "spawnCollectible s0 =
     (let (r1, s1) = Math_random s0;
          (r2, s2) = Math_random s1
      in s2\<lparr>collectibles := collectibles s2 @
              [\<lparr>col_id = random_id r1,
                col_x = CANVAS_WIDTH + 200,
                col_y = GROUND_Y - 50 - r2 * 150,
                col_size = 20,
                col_collected = False\<rparr>]\<rparr>)"

definition spawnPowerUp :: "game \<Rightarrow> game" where
  "spawnPowerUp s0 =
     (let (r0, s1) = Math_random s0;
          type = pick [SHIELD, BOOST, MULTIPLIER] r0;
          (r1, s2) = Math_random s1;
          (r2, s3) = Math_random s2
      in s3\<lparr>powerUps := powerUps s3 @
              [\<lparr>pup_id = random_id r1,
                pup_x = CANVAS_WIDTH + 200,
                pup_y = GROUND_Y - 100 - r2 * 100,
                pup_size = 30,
                pup_type = type,
                pup_collected = False\<rparr>]\<rparr>)"

text \<open>The eight type tags, in the order of the source's array.\<close>

datatype ObstacleType =
  T_spike | T_wall | T_drone | T_mine | T_laser | T_saw | T_stomp | T_missile

definition obstacleTypes :: "ObstacleType list" where
  "obstacleTypes = [T_spike, T_wall, T_drone, T_mine, T_laser, T_saw, T_stomp, T_missile]"

text \<open>The type-specific geometry and payload: \<open>(width, height, y, kind)\<close> and the state
  after the random draws and the launch cue of that branch.\<close>

definition spawnShape :: "ObstacleType \<Rightarrow> game \<Rightarrow> (real \<times> real \<times> real \<times> ObstacleKind) \<times> game" where
  "spawnShape type s0 =
     (case type of
        T_spike \<Rightarrow> ((30, 30, GROUND_Y - 30, spike), s0)
      | T_wall \<Rightarrow> ((30, 60, GROUND_Y - 60, wall), s0)
      | T_drone \<Rightarrow>
          (let (r, s1) = Math_random s0 in ((30, 30, GROUND_Y - 80 - r * 50, drone), s1))
      | T_mine \<Rightarrow>
          (let (r1, s1) = Math_random s0;
               (r2, s2) = Math_random s1
           in ((25, 25, GROUND_Y - 100 - r1 * 100, mine (r2 * pi * 2)), s2))
      | T_laser \<Rightarrow> ((20, GROUND_Y, 0, laser 0 False), s0)
      | T_saw \<Rightarrow> ((40, 40, GROUND_Y - 40, saw 0), s0)
      | T_stomp \<Rightarrow>
          (let (r, s1) = Math_random s0
           in ((60, 80, - 80, stomp waiting (1000 + r * 1000) False), s1))
      | T_missile \<Rightarrow>
          (let (r, s1) = Math_random s0
           in ((40, 20, vec_y (playerPos s1), missile (8 + r * 5)),
               playSound MissileLaunchSound s1)))"

definition spawnObstacle :: "game \<Rightarrow> game" where
  "spawnObstacle s0 =
     (let (r0, s1) = Math_random s0;
          type = pick obstacleTypes r0;
          ((w, h, y, k), s2) = spawnShape type s1;
          (rid, s3) = Math_random s2;
          s4 = s3\<lparr>obstacles := obstacles s3 @
                 [\<lparr>obs_id = random_id rid,
                   obs_x = CANVAS_WIDTH + 150, obs_y = y, baseY = y,
                   width = w, height = h, kind = k,
                   speedMultiplier = 1 + (scoreRef s3 / 1000)\<rparr>]\<rparr>;
          (rand, s5) = Math_random s4
      in if rand > 0.85 then spawnPowerUp s5
         else if rand > 0.7 then spawnCollectible s5
         else s5)"

subsection \<open>The death sequence (lines 244-262)\<close>

text \<open>\<open>window.setTimeout\<close> registers the callback under a fresh positive id.\<close>

definition setTimeout :: "game \<Rightarrow> nat \<times> game" where
  "setTimeout s =
     (Suc (nextTimerId s),
      s\<lparr>pendingTimers := pendingTimers s @ [Suc (nextTimerId s)],
        nextTimerId := Suc (nextTimerId s)\<rparr>)"

definition triggerDeathSequence :: "Environment \<Rightarrow> real \<Rightarrow> real \<Rightarrow> game \<Rightarrow> game" where
  "triggerDeathSequence env impactX impactY s0 =
     (if isDying s0 then s0
      else
        let s1 = s0\<lparr>isDying := True, timeScale := 0.15\<rparr>;
            s2 = playSound GameOverSound s1;
            s3 = createCollisionBurst impactX impactY
                   [primaryColor env, secondaryColor env, ''#ffffff'', ''#ff0000'', ''#ff8800'']
                   100 40 s2;
            s4 = s3\<lparr>shakeTime := 200\<rparr>;
            (tid, s5) = setTimeout s4
        in s5\<lparr>deathTimeoutRef := Some tid\<rparr>)"

text \<open>The callback of that timeout, run by the host 1500 ms later unless it was cleared.\<close>

definition deathTimeout :: "nat \<Rightarrow> game \<Rightarrow> game" where
  "deathTimeout tid s0 =
     (if tid \<in> set (pendingTimers s0) then
        let s1 = s0\<lparr>pendingTimers := removeAll tid (pendingTimers s0)\<rparr>
        in if isDying s1 then onGameOver \<lfloor>scoreRef s1\<rfloor> s1 else s1
      else s0)"


subsection \<open>Keyboard handlers (lines 134-152)\<close>

definition jump :: "Environment \<Rightarrow> game \<Rightarrow> game" where
  "jump env s =
     createJumpParticles env
       (playSound JumpSound
          (s\<lparr>playerVel := (playerVel s)\<lparr>vec_y := JUMP_FORCE\<rparr>, isJumping := True\<rparr>))"

definition handleKeyDown :: "GameState \<Rightarrow> Environment \<Rightarrow> string \<Rightarrow> game \<Rightarrow> game" where
  "handleKeyDown gameState env code s0 =
     (let s1 = s0\<lparr>keysPressed := (keysPressed s0)(code := True)\<rparr>
      in if gameState \<noteq> PLAYING \<or> isDying s1 then s1
         else if (code = ''Space'' \<or> code = ''ArrowUp'' \<or> code = ''KeyW'') \<and> \<not> isJumping s1
         then jump env s1
         else s1)"

definition handleKeyUp :: "string \<Rightarrow> game \<Rightarrow> game" where
  "handleKeyUp code s = s\<lparr>keysPressed := (keysPressed s)(code := False)\<rparr>"

subsection \<open>The tick (\<open>update\<close>, lines 264-472), phase by phase\<close>

text \<open>Lines 269-277: screen shake.\<close>

definition shakePhase :: "real \<Rightarrow> game \<Rightarrow> game" where
  "shakePhase dt s0 =
     (if shakeTime s0 > 0 then
        let s1 = s0\<lparr>shakeTime := shakeTime s0 - 16 * dt\<rparr>;
            (r1, s2) = Math_random s1;
            (r2, s3) = Math_random s2
        in s3\<lparr>shakeOffset := \<lparr>vec_x = (r1 - 0.5) * 15, vec_y = (r2 - 0.5) * 15\<rparr>\<rparr>
      else s0\<lparr>shakeOffset := \<lparr>vec_x = 0, vec_y = 0\<rparr>\<rparr>)"

text \<open>Lines 279-290: \<open>isMultActive\<close> is read by the caller before this phase; the phase
  publishes it, deletes the entries whose expiry has passed and projects the rest for
  the HUD.\<close>

definition registryPhase :: "real \<Rightarrow> bool \<Rightarrow> game \<Rightarrow> game" where
  "registryPhase now' isMultActive s =
     s\<lparr>hasMultiplier := isMultActive,
       activePowerUps := filter (\<lambda>(type, expiry). \<not> now' > expiry) (activePowerUps s),
       activeHudPowerUps :=
         map (\<lambda>(type, expiry).
                \<lparr>hud_type = type, timeLeft = expiry - now',
                 percent = ((expiry - now') / POWERUP_DURATION) * 100\<rparr>)
             (filter (\<lambda>(type, expiry). \<not> now' > expiry) (activePowerUps s))\<rparr>"

text \<open>Lines 301-314: one gamepad of the polling loop; \<open>null\<close> entries are skipped.\<close>

definition padStep :: "Environment \<Rightarrow> Gamepad option \<Rightarrow> real \<times> game \<Rightarrow> real \<times> game" where
  "padStep env gpo ds =
     (case gpo of
        None \<Rightarrow> ds
      | Some gp \<Rightarrow>
          (let (currentDir, s) = ds;
               d1 = (case axis0 gp of
                       None \<Rightarrow> currentDir
                     | Some a \<Rightarrow> if a < - 0.3 then - 1 else if a > 0.3 then 1 else currentDir);
               d2 = (if pressed gp 14 then - 1 else d1);
               d3 = (if pressed gp 15 then 1 else d2)
           in if \<not> isJumping s \<and> (pressed gp 0 \<or> pressed gp 1 \<or> pressed gp 2)
              then (d3, jump env s)
              else (d3, s)))"

text \<open>Lines 292-318: horizontal input, skipped while dying.\<close>

definition inputPhase :: "Environment \<Rightarrow> TickInput \<Rightarrow> real \<Rightarrow> game \<Rightarrow> game" where
  "inputPhase env inp dt s0 =
     (let currentSpeed = (if has (activePowerUps s0) BOOST then PLAYER_SPEED * 1.6 else PLAYER_SPEED)
      in if \<not> isDying s0 then
           let k = keysPressed s0;
               d0 = (if k ''ArrowLeft'' \<or> k ''KeyA'' then - 1 else 0);
               d1 = (if k ''ArrowRight'' \<or> k ''KeyD'' then 1 else d0);
               (currentDir, s1) = foldl (\<lambda>ds gpo. padStep env gpo ds) (d1, s0) (gamepads inp)
           in s1\<lparr>playerPos := (playerPos s1)\<lparr>vec_x := vec_x (playerPos s1) + currentDir * currentSpeed * dt\<rparr>,
                 lastXDir := currentDir\<rparr>
         else s0)"

text \<open>Lines 320-323: the dash trail.\<close>

definition dashPhase :: "game \<Rightarrow> game" where
  "dashPhase s =
     (if has (activePowerUps s) BOOST then
        let t = playerPos s # dashTrails s
        in s\<lparr>dashTrails := (if length t > 12 then butlast t else t)\<rparr>
      else if length (dashTrails s) > 0 then s\<lparr>dashTrails := butlast (dashTrails s)\<rparr>
      else s)"

text \<open>Lines 325-333: clamping, gravity and landing.\<close>

definition physicsPhase :: "real \<Rightarrow> game \<Rightarrow> game" where
  "physicsPhase dt s =
     (let px = max 0 (min (vec_x (playerPos s)) (CANVAS_WIDTH - PLAYER_SIZE));
          vy = vec_y (playerVel s) + GRAVITY * dt;
          py = vec_y (playerPos s) + vy * dt
      in if py > GROUND_Y - PLAYER_SIZE
         then s\<lparr>playerPos := \<lparr>vec_x = px, vec_y = GROUND_Y - PLAYER_SIZE\<rparr>,
                playerVel := (playerVel s)\<lparr>vec_y := 0\<rparr>,
                isJumping := False\<rparr>
         else s\<lparr>playerPos := \<lparr>vec_x = px, vec_y = py\<rparr>,
                playerVel := (playerVel s)\<lparr>vec_y := vy\<rparr>\<rparr>)"

text \<open>Lines 336-347: passive accrual and the level check, skipped while dying.\<close>

definition scorePhase :: "real \<Rightarrow> real \<Rightarrow> bool \<Rightarrow> game \<Rightarrow> game" where
  "scorePhase now' gameSpeed isMultActive s0 =
     (if \<not> isDying s0 then
        let s1 = s0\<lparr>scoreRef := scoreRef s0 + (gameSpeed / 8) * (if isMultActive then 2.5 else 1)\<rparr>;
            currentLevel = \<lfloor>scoreRef s1 / 1000\<rfloor> + 1
        in if currentLevel > lastLevelRef s1 then
             playSound LevelUpSound
               ((onSocialEvent LEVEL_UP (s1\<lparr>lastLevelRef := currentLevel\<rparr>))
                  \<lparr>lastSocialMsg := Some \<lparr>msg_text = LevelUpText currentLevel, msg_time = now',
                                          msg_color = Some ''#00ff00''\<rparr>,
                   invincibleUntil := now' + INVINCIBILITY_DURATION\<rparr>)
           else s1
      else s0)"


text \<open>A loop over an array whose body mutates the element in place and the rest of the
  state: the elements are visited in order, each seeing the state its predecessors left.\<close>

fun forEach :: "('a \<Rightarrow> game \<Rightarrow> 'a \<times> game) \<Rightarrow> 'a list \<Rightarrow> game \<Rightarrow> 'a list \<times> game" where
  "forEach f [] s = ([], s)"
| "forEach f (a # as) s =
     (let (a', s') = f a s;
          (as', s'') = forEach f as s'
      in (a' # as', s''))"

text \<open>Lines 366-395: the stomp cycle of one obstacle whose payload is
  \<open>(stage, timer, impactSoundPlayed)\<close>.\<close>

definition stompStep ::
    "Environment \<Rightarrow> real \<Rightarrow> Obstacle \<Rightarrow> StompStage \<Rightarrow> real \<Rightarrow> bool \<Rightarrow> game \<Rightarrow> Obstacle \<times> game" where
  "stompStep env dt obs stage timer played s =
     (case stage of
        waiting \<Rightarrow>
          (let t1 = timer - 16 * dt
           in (obs\<lparr>kind := stomp (if t1 \<le> 0 then dropping else waiting) t1 played\<rparr>, s))
      | dropping \<Rightarrow>
          (let y1 = obs_y obs + 20 * dt
           in if y1 \<ge> GROUND_Y - height obs then
                (obs\<lparr>obs_y := GROUND_Y - height obs, kind := stomp rising 500 True\<rparr>,
                 if \<not> played then
                   createCollisionBurst (obs_x obs + width obs / 2) GROUND_Y
                     [secondaryColor env, ''#ffffff''] 15 25 (playSound StompSound s)
                 else s)
              else (obs\<lparr>obs_y := y1\<rparr>, s))
      | rising \<Rightarrow>
          (let t1 = timer - 16 * dt
           in if t1 \<le> 0 then
                let y1 = obs_y obs - 3 * dt
                in if y1 \<le> - height obs then
                     let (r, s1) = Math_random s
                     in (obs\<lparr>obs_y := - height obs,
                             kind := stomp waiting (1500 + r * 2000) False\<rparr>, s1)
                   else (obs\<lparr>obs_y := y1, kind := stomp rising t1 played\<rparr>, s)
              else (obs\<lparr>kind := stomp rising t1 played\<rparr>, s)))"

text \<open>Lines 350-395: scrolling and the per-type behaviour of one obstacle.\<close>

definition behave ::
    "Environment \<Rightarrow> real \<Rightarrow> real \<Rightarrow> real \<Rightarrow> Obstacle \<Rightarrow> game \<Rightarrow> Obstacle \<times> game" where
  "behave env now' dt gameSpeed obs0 s =
     (let obs = obs0\<lparr>obs_x := (case kind obs0 of
                                  missile speed \<Rightarrow> obs_x obs0 - (gameSpeed + speed * dt)
                                | _ \<Rightarrow> obs_x obs0 - gameSpeed)\<rparr>
      in case kind obs of
           drone \<Rightarrow> (obs\<lparr>obs_y := baseY obs + sin (now' / 300 + obs_x obs / 100) * 12\<rparr>, s)
         | mine phase \<Rightarrow>
             (let time = now' / 400 + phase
              in (obs\<lparr>obs_y := baseY obs + sin time * 40,
                      obs_x := obs_x obs + cos (time * 1.5) * 2\<rparr>, s))
         | laser timer active \<Rightarrow>
             (let t1 = timer + 16 * dt
              in if t1 > 2000 then
                   (obs\<lparr>kind := laser 0 (\<not> active)\<rparr>,
                    if \<not> active then playSound LaserOnSound s else s)
                 else (obs\<lparr>kind := laser t1 active\<rparr>, s))
         | saw rotation \<Rightarrow> (obs\<lparr>kind := saw (rotation + 0.2 * dt)\<rparr>, s)
         | stomp stage timer played \<Rightarrow> stompStep env dt obs stage timer played s
         | _ \<Rightarrow> (obs, s))"

text \<open>Lines 397-407: the near-miss check of one obstacle, after it has moved.\<close>

definition nearMissDist :: "Vector2D \<Rightarrow> Obstacle \<Rightarrow> real" where
  "nearMissDist p obs =
     (let dx = (vec_x p + PLAYER_SIZE / 2) - (obs_x obs + width obs / 2);
          dy = (vec_y p + PLAYER_SIZE / 2) - (obs_y obs + height obs / 2)
      in sqrt (dx * dx + dy * dy))"

definition nearMissCheck :: "real \<Rightarrow> Obstacle \<Rightarrow> game \<Rightarrow> game" where
  "nearMissCheck now' obs s =
     (if \<not> isDying s \<and> obs_id obs \<notin> nearMissedObstacles s then
        if nearMissDist (playerPos s) obs < PLAYER_SIZE + NEAR_MISS_THRESHOLD then
          (let s1 = s\<lparr>nearMissedObstacles := insert (obs_id obs) (nearMissedObstacles s)\<rparr>;
               s2 = onSocialEvent NEAR_MISS s1;
               s3 = s2\<lparr>lastSocialMsg := Some \<lparr>msg_text = NearMissText, msg_time = now',
                                               msg_color = None\<rparr>\<rparr>
           in s3\<lparr>scoreRef := scoreRef s3 + 500\<rparr>)
        else s
      else s)"

definition obstacleStep ::
    "Environment \<Rightarrow> real \<Rightarrow> real \<Rightarrow> real \<Rightarrow> Obstacle \<Rightarrow> game \<Rightarrow> Obstacle \<times> game" where
  "obstacleStep env now' dt gameSpeed obs s =
     (let (obs1, s1) = behave env now' dt gameSpeed obs s
      in (obs1, nearMissCheck now' obs1 s1))"

text \<open>Lines 349-408: \<open>obstacles.current.forEach\<close>.\<close>

definition obstaclesPhase :: "Environment \<Rightarrow> real \<Rightarrow> real \<Rightarrow> real \<Rightarrow> game \<Rightarrow> game" where
  "obstaclesPhase env now' dt gameSpeed s =
     (let (os, s1) = forEach (obstacleStep env now' dt gameSpeed) (obstacles s) s
      in s1\<lparr>obstacles := os\<rparr>)"

text \<open>Lines 410-415: pickups scroll, off-stage entities are dropped, the host is told the
  truncated score.\<close>

definition scrollPhase :: "real \<Rightarrow> game \<Rightarrow> game" where
  "scrollPhase gameSpeed s0 =
     (let s1 = s0\<lparr>collectibles := map (\<lambda>col. col\<lparr>col_x := col_x col - gameSpeed\<rparr>) (collectibles s0),
                  powerUps := map (\<lambda>pup. pup\<lparr>pup_x := pup_x pup - gameSpeed\<rparr>) (powerUps s0),
                  obstacles := filter (\<lambda>obs. obs_x obs + width obs > - 50) (obstacles s0)\<rparr>;
          s2 = onScoreUpdate \<lfloor>scoreRef s1\<rfloor> s1
      in s2\<lparr>collectibles := filter (\<lambda>col. col_x col + col_size col > - 50 \<and> \<not> col_collected col)
                               (collectibles s2),
            powerUps := filter (\<lambda>pup. pup_x pup + pup_size pup > - 50 \<and> \<not> pup_collected pup)
                          (powerUps s2)\<rparr>)"

text \<open>Lines 417-418: a new obstacle is spawned when none is left or the last one has come
  far enough.\<close>

definition spawnPhase :: "game \<Rightarrow> game" where
  "spawnPhase s =
     (if \<not> isDying s \<and>
         (length (obstacles s) = 0 \<or>
          obs_x (last (obstacles s)) < CANVAS_WIDTH - (250 - min (scoreRef s / 30) 150))
      then spawnObstacle s else s)"

text \<open>Lines 420-425: particles age and die.\<close>

definition particlesPhase :: "real \<Rightarrow> game \<Rightarrow> game" where
  "particlesPhase dt s =
     s\<lparr>particles :=
         filter (\<lambda>p. life p > 0)
           (map (\<lambda>p. p\<lparr>par_x := par_x p + par_vx p * dt,
                       par_y := par_y p + par_vy p * dt,
                       life := life p - 0.02 * dt\<rparr>) (particles s))\<rparr>"

text \<open>The axis-aligned overlap of the player box with a square pickup (lines 429, 444).\<close>

definition overlaps :: "Vector2D \<Rightarrow> real \<Rightarrow> real \<Rightarrow> real \<Rightarrow> bool" where
  "overlaps p ex ey esize \<longleftrightarrow>
     vec_x p < ex + esize \<and> vec_x p + PLAYER_SIZE > ex \<and>
     vec_y p < ey + esize \<and> vec_y p + PLAYER_SIZE > ey"

text \<open>Lines 428-442: one power-up of the pickup loop.\<close>

definition activateSound :: "PowerUpType \<Rightarrow> AudioCue" where
  "activateSound t =
     (case t of SHIELD \<Rightarrow> ShieldActivateSound
              | BOOST \<Rightarrow> BoostActivateSound
              | MULTIPLIER \<Rightarrow> MultiplierActivateSound)"

definition pickupPowerUp :: "real \<Rightarrow> PowerUp \<Rightarrow> game \<Rightarrow> PowerUp \<times> game" where
  "pickupPowerUp now' pup s0 =
     (if \<not> pup_collected pup \<and> overlaps (playerPos s0) (pup_x pup) (pup_y pup) (pup_size pup) then
        let s1 = s0\<lparr>activePowerUps :=
                      AList.update (pup_type pup) (now' + POWERUP_DURATION) (activePowerUps s0)\<rparr>;
            s2 = playSound (activateSound (pup_type pup)) s1;
            s3 = onSocialEvent POWERUP s2
        in (pup\<lparr>pup_collected := True\<rparr>,
            createCollisionBurst (pup_x pup + pup_size pup / 2) (pup_y pup + pup_size pup / 2)
              [''#ffffff''] 15 25 s3)
      else (pup, s0))"

text \<open>Lines 443-451: one collectible of the pickup loop.\<close>

definition pickupCollectible :: "bool \<Rightarrow> Collectible \<Rightarrow> game \<Rightarrow> Collectible \<times> game" where
  "pickupCollectible isMultActive col s0 =
     (if \<not> col_collected col \<and> overlaps (playerPos s0) (col_x col) (col_y col) (col_size col) then
        let s1 = s0\<lparr>scoreRef := scoreRef s0 + (if isMultActive then 300 else 100)\<rparr>;
            s2 = playSound CollectSound s1;
            s3 = onSocialEvent COLLECT s2
        in (col\<lparr>col_collected := True\<rparr>,
            createLikeParticles (col_x col + col_size col / 2) (col_y col + col_size col / 2) s3)
      else (col, s0))"

text \<open>Lines 456-458: the hazard test, with the inward margin \<open>m = 5\<close> for every type but the
  laser and the band test for an active laser.\<close>

definition isLaser :: "Obstacle \<Rightarrow> bool" where
  "isLaser obs = (case kind obs of laser timer active \<Rightarrow> True | _ \<Rightarrow> False)"

definition laserActive :: "Obstacle \<Rightarrow> bool" where
  "laserActive obs = (case kind obs of laser timer active \<Rightarrow> active | _ \<Rightarrow> False)"

definition hit :: "Vector2D \<Rightarrow> Obstacle \<Rightarrow> bool" where
  "hit p obs \<longleftrightarrow>
     (let m = 5 in
        (\<not> isLaser obs \<and> vec_x p + m < obs_x obs + width obs - m
           \<and> vec_x p + PLAYER_SIZE - m > obs_x obs + m
           \<and> vec_y p + m < obs_y obs + height obs - m
           \<and> vec_y p + PLAYER_SIZE - m > obs_y obs + m)
        \<or> (isLaser obs \<and> laserActive obs \<and> vec_x p + PLAYER_SIZE > obs_x obs + 5
           \<and> vec_x p < obs_x obs + width obs - 5))"

text \<open>Lines 455-467: one obstacle of the hazard loop.\<close>

definition hazardStep :: "Environment \<Rightarrow> real \<Rightarrow> Obstacle \<Rightarrow> game \<Rightarrow> Obstacle \<times> game" where
  "hazardStep env now' obs s0 =
     (if hit (playerPos s0) obs then
        if has (activePowerUps s0) SHIELD then
          let s1 = s0\<lparr>activePowerUps := AList.delete SHIELD (activePowerUps s0)\<rparr>;
              s2 = playSound ShieldBreakSound s1;
              s3 = s2\<lparr>invincibleUntil := now' + 1000\<rparr>;
              obs1 = (if \<not> isLaser obs then obs\<lparr>obs_x := - 1000\<rparr> else obs)
          in (obs1,
              createCollisionBurst (vec_x (playerPos s3)) (vec_y (playerPos s3)) [''#00ffff''] 30 25 s3)
        else (obs, triggerDeathSequence env (vec_x (playerPos s0)) (vec_y (playerPos s0)) s0)
      else (obs, s0))"

text \<open>Lines 455-468: the hazard loop over all obstacles.\<close>

definition hazardLoop :: "Environment \<Rightarrow> real \<Rightarrow> game \<Rightarrow> game" where
  "hazardLoop env now' s =
     (let (os, s1) = forEach (hazardStep env now') (obstacles s) s
      in s1\<lparr>obstacles := os\<rparr>)"

text \<open>Lines 428-451: the two pickup loops.\<close>

definition pickupLoops :: "real \<Rightarrow> bool \<Rightarrow> game \<Rightarrow> game" where
  "pickupLoops now' isMultActive s0 =
     (let (pups, s1) = forEach (pickupPowerUp now') (powerUps s0) s0;
          s2 = s1\<lparr>powerUps := pups\<rparr>;
          (cols, s3) = forEach (pickupCollectible isMultActive) (collectibles s2) s2
      in s3\<lparr>collectibles := cols\<rparr>)"

text \<open>Lines 427-470: pickups and hazards, skipped while dying at the start of the phase;
  \<open>isInvincible\<close> is read once, before the hazard loop.\<close>

definition collisionPhase :: "Environment \<Rightarrow> real \<Rightarrow> bool \<Rightarrow> game \<Rightarrow> game" where
  "collisionPhase env now' isMultActive s0 =
     (if \<not> isDying s0 then
        let s4 = pickupLoops now' isMultActive s0;
            isInvincible = now' < invincibleUntil s4
        in if \<not> isInvincible then hazardLoop env now' s4 else s4
      else s0)"

text \<open>The tick. \<open>gameState\<close> and \<open>environment\<close> are the component's props.\<close>

definition update :: "GameState \<Rightarrow> Environment \<Rightarrow> TickInput \<Rightarrow> game \<Rightarrow> game" where
  "update gameState env inp s0 =
     (if gameState \<noteq> PLAYING then s0
      else
        let dt = timeScale s0;
            now' = now inp;
            s1 = shakePhase dt s0;
            isMultActive = has (activePowerUps s1) MULTIPLIER;
            s2 = registryPhase now' isMultActive s1;
            s3 = inputPhase env inp dt s2;
            s4 = dashPhase s3;
            s5 = physicsPhase dt s4;
            gameSpeed = (6 + (scoreRef s5 / 1200)) * dt;
            s6 = scorePhase now' gameSpeed isMultActive s5;
            s7 = obstaclesPhase env now' dt gameSpeed s6;
            s8 = scrollPhase gameSpeed s7;
            s9 = spawnPhase s8;
            s10 = particlesPhase dt s9;
            s11 = collisionPhase env now' isMultActive s10
        in s11\<lparr>backgroundOffset := backgroundOffset s11 - gameSpeed * 0.5\<rparr>)"


subsection \<open>Sessions\<close>

text \<open>The references as the component creates them (lines 55-80), over a given random
  stream.\<close>

definition initialGame :: "(nat \<Rightarrow> real) \<Rightarrow> game" where
  "initialGame r =
     \<lparr>keysPressed = (\<lambda>code. False),
      playerPos = \<lparr>vec_x = PLAYER_X, vec_y = GROUND_Y - PLAYER_SIZE\<rparr>,
      playerVel = \<lparr>vec_x = 0, vec_y = 0\<rparr>,
      isJumping = False,
      scoreRef = 0,
      lastLevelRef = 1,
      lastXDir = 0,
      isDying = False,
      invincibleUntil = 0,
      timeScale = 1.0,
      dashTrails = [],
      activePowerUps = [],
      obstacles = [],
      collectibles = [],
      powerUps = [],
      particles = [],
      backgroundOffset = 0,
      nearMissedObstacles = {},
      shakeTime = 0,
      shakeOffset = \<lparr>vec_x = 0, vec_y = 0\<rparr>,
      deathTimeoutRef = None,
      activeHudPowerUps = [],
      hasMultiplier = False,
      lastSocialMsg = None,
      rng = r,
      rngPos = 0,
      pendingTimers = [],
      nextTimerId = 0,
      socialEvents = [],
      audioCues = [],
      scoreUpdates = [],
      gameOverReports = []\<rparr>"

text \<open>Everything the host and the browser can do to the component: run a frame, deliver
  a key event, change the game state, fire a pending timeout.\<close>

inductive reachable :: "game \<Rightarrow> bool" where
  mount: "reachable (initialGame r)"
| frame: "reachable s \<Longrightarrow> reachable (update gameState env inp s)"
| keyDown: "reachable s \<Longrightarrow> reachable (handleKeyDown gameState env code s)"
| keyUp: "reachable s \<Longrightarrow> reachable (handleKeyUp code s)"
| gameStateChange: "reachable s \<Longrightarrow> reachable (onGameState gameState s)"
| timeout: "reachable s \<Longrightarrow> reachable (deathTimeout tid s)"

text \<open>
  The stages of a PLAYING tick: the state the tick has built when it reaches a given
  line, with \<open>isMultActive\<close> (line 279) and \<open>gameSpeed\<close> (line 335) as the tick computes
  them.
\<close>

definition tickMult :: "game \<Rightarrow> bool" where
  "tickMult s0 = has (activePowerUps (shakePhase (timeScale s0) s0)) MULTIPLIER"

text \<open>Line 335: the player has moved, the score has not been touched yet.\<close>

definition beforeScore :: "Environment \<Rightarrow> TickInput \<Rightarrow> game \<Rightarrow> game" where
  "beforeScore env inp s0 =
     (let dt = timeScale s0;
          s1 = shakePhase dt s0;
          s2 = registryPhase (now inp) (tickMult s0) s1;
          s3 = inputPhase env inp dt s2;
          s4 = dashPhase s3
      in physicsPhase dt s4)"

definition tickSpeed :: "Environment \<Rightarrow> TickInput \<Rightarrow> game \<Rightarrow> real" where
  "tickSpeed env inp s0 = (6 + (scoreRef (beforeScore env inp s0) / 1200)) * timeScale s0"

text \<open>Line 409: the obstacles have moved and their near-miss checks are done.\<close>

definition afterObstacles :: "Environment \<Rightarrow> TickInput \<Rightarrow> game \<Rightarrow> game" where
  "afterObstacles env inp s0 =
     obstaclesPhase env (now inp) (timeScale s0) (tickSpeed env inp s0)
       (scorePhase (now inp) (tickSpeed env inp s0) (tickMult s0) (beforeScore env inp s0))"

text \<open>Line 417: off-stage entities are gone, the spawn decision is next.\<close>

definition beforeSpawn :: "Environment \<Rightarrow> TickInput \<Rightarrow> game \<Rightarrow> game" where
  "beforeSpawn env inp s0 = scrollPhase (tickSpeed env inp s0) (afterObstacles env inp s0)"

text \<open>Line 427: pickups and hazards are next.\<close>

definition beforeCollision :: "Environment \<Rightarrow> TickInput \<Rightarrow> game \<Rightarrow> game" where
  "beforeCollision env inp s0 = particlesPhase (timeScale s0) (spawnPhase (beforeSpawn env inp s0))"

text \<open>Line 453: the pickup loops are done, \<open>isInvincible\<close> is read and the hazard loop is
  next.\<close>

definition beforeHazards :: "Environment \<Rightarrow> TickInput \<Rightarrow> game \<Rightarrow> game" where
  "beforeHazards env inp s0 = pickupLoops (now inp) (tickMult s0) (beforeCollision env inp s0)"

text \<open>A run of consecutive frames, each with its own props and inputs.\<close>

fun frames :: "(GameState \<times> Environment \<times> TickInput) list \<Rightarrow> game \<Rightarrow> game" where
  "frames [] s = s"
| "frames ((gameState, env, inp) # rest) s = frames rest (update gameState env inp s)"


text \<open>How often the component has sent a given social event to the host so far.\<close>

definition emitted :: "SocialEvent \<Rightarrow> game \<Rightarrow> nat" where
  "emitted e s = count_list (socialEvents s) e"

text \<open>The part of the score that is neither a near-miss bonus (500 each) nor a collectible
  award (\<open>c\<close> each): what passive accrual has contributed.\<close>

definition passiveScore :: "real \<Rightarrow> game \<Rightarrow> real" where
  "passiveScore c s = scoreRef s - 500 * real (emitted NEAR_MISS s) - c * real (emitted COLLECT s)"

text \<open>The environment the host starts every session with (src/App.tsx, lines 7-13).\<close>

definition DEFAULT_ENVIRONMENT :: Environment where
  "DEFAULT_ENVIRONMENT =
     \<lparr>name = ''Neon Gutter'',
      primaryColor = ''#00f2ff'',
      secondaryColor = ''#ff00ea'',
      description = ''The baseline of the rift. High voltage, low mercy.'',
      atmosphere = ''electric''\<rparr>"


subsection \<open>Concrete scenes\<close>

text \<open>A spike as \<open>spawnObstacle\<close> builds it at score 0 (30 by 30, standing on the ground),
  placed at a given \<open>x\<close>; the scenes below put such spikes and pickups in front of the
  player, who stands at \<open>(100, 290)\<close> in \<open>initialGame\<close>.\<close>

definition groundSpike :: "string \<Rightarrow> real \<Rightarrow> Obstacle" where
  "groundSpike i x =
     \<lparr>obs_id = i, obs_x = x, obs_y = GROUND_Y - 30, baseY = GROUND_Y - 30,
      width = 30, height = 30, kind = spike, speedMultiplier = 1\<rparr>"

text \<open>A laser as \<open>spawnObstacle\<close> builds it at score 0 (20 wide, from the top of the stage to
  the ground), placed at a given \<open>x\<close>, with a given timer and activity.\<close>

definition beam :: "string \<Rightarrow> real \<Rightarrow> real \<Rightarrow> bool \<Rightarrow> Obstacle" where
  "beam i x timer active =
     \<lparr>obs_id = i, obs_x = x, obs_y = 0, baseY = 0,
      width = 20, height = GROUND_Y, kind = laser timer active, speedMultiplier = 1\<rparr>"

text \<open>A missile as \<open>spawnObstacle\<close> builds it at score 0 (40 by 20, at the height the
  player had when it was launched), placed at a given \<open>x\<close>, with a given extra speed.\<close>

definition cruise :: "string \<Rightarrow> real \<Rightarrow> real \<Rightarrow> real \<Rightarrow> Obstacle" where
  "cruise i x y speed =
     \<lparr>obs_id = i, obs_x = x, obs_y = y, baseY = y,
      width = 40, height = 20, kind = missile speed, speedMultiplier = 1\<rparr>"

text \<open>A collectible as \<open>spawnCollectible\<close> builds it (20 by 20), placed at a given position.\<close>

definition coin :: "string \<Rightarrow> real \<Rightarrow> real \<Rightarrow> Collectible" where
  "coin i x y = \<lparr>col_id = i, col_x = x, col_y = y, col_size = 20, col_collected = False\<rparr>"

definition zeroStream :: "nat \<Rightarrow> real" where
  "zeroStream n = 0"

definition idle :: "real \<Rightarrow> TickInput" where
  "idle t = \<lparr>now = t, gamepads = []\<rparr>"

text \<open>The shield scene: SHIELD is active; a spike and a missile that has caught up with
  it are about to scroll onto the standing player.\<close>

definition shieldScene :: game where
  "shieldScene =
     (initialGame zeroStream)
       \<lparr>activePowerUps := [(SHIELD, 8000)],
        obstacles := [groundSpike ''a'' 106, cruise ''b'' 130 290 8]\<rparr>"

text \<open>The crash scene: the shield scene without the shield.\<close>

definition crashScene :: game where
  "crashScene =
     (initialGame zeroStream)
       \<lparr>obstacles := [groundSpike ''a'' 106, cruise ''b'' 130 290 8]\<rparr>"

text \<open>The leap scene: at score 950 and level 1 the player is in the air at \<open>(100, 250)\<close>,
  above a spike and a missile passing underneath, with a collectible in reach.\<close>

definition leapScene :: game where
  "leapScene =
     (initialGame zeroStream)
       \<lparr>scoreRef := 950,
        playerPos := \<lparr>vec_x = 100, vec_y = 250\<rparr>,
        isJumping := True,
        obstacles := [groundSpike ''a'' 107, cruise ''b'' 120 290 8],
        collectibles := [coin ''c'' 115 265]\<rparr>"

text \<open>The bonus scene: the leap scene with MULTIPLIER active.\<close>

definition bonusScene :: game where
  "bonusScene = leapScene\<lparr>activePowerUps := [(MULTIPLIER, 8000)]\<rparr>"

lemmas consts_defs =
  CANVAS_WIDTH_def CANVAS_HEIGHT_def GROUND_Y_def GRAVITY_def JUMP_FORCE_def PLAYER_X_def
  PLAYER_SIZE_def PLAYER_SPEED_def POWERUP_DURATION_def NEAR_MISS_THRESHOLD_def
  INVINCIBILITY_DURATION_def

subsection \<open>What each helper leaves alone\<close>

lemma funpow_keeps: "(\<And>s. F (f s) = F s) \<Longrightarrow> F ((f ^^ n) s) = F s"
  by (induction n) simp_all

lemma forEach_keeps:
  assumes "\<And>a s. F (snd (f a s)) = F s"
  shows "F (snd (forEach f as s)) = F s"
proof (induction as arbitrary: s)
  case Nil
  show ?case by simp
next
  case (Cons a as)
  have "F (snd (forEach f (a # as) s)) = F (snd (forEach f as (snd (f a s))))"
    by (simp add: split_def Let_def)
  also have "\<dots> = F (snd (f a s))" by (rule Cons.IH)
  also have "\<dots> = F s" by (rule assms)
  finally show ?case .
qed

lemma forEach_map:
  assumes "\<And>a s. P (fst (f a s)) = P a"
  shows "map P (fst (forEach f as s)) = map P as"
  by (induction as arbitrary: s) (simp_all add: split_def Let_def assms)

lemma forEach_length [simp]: "length (fst (forEach f as s)) = length as"
  by (induction as arbitrary: s) (simp_all add: split_def Let_def)

lemma forEach_inv:
  assumes "\<And>a s. P s \<Longrightarrow> P (snd (f a s))" and "P s"
  shows "P (snd (forEach f as s))"
  using assms(2)
proof (induction as arbitrary: s)
  case Nil
  then show ?case by simp
next
  case (Cons a as)
  have "snd (forEach f (a # as) s) = snd (forEach f as (snd (f a s)))"
    by (simp add: split_def Let_def)
  with Cons.IH [OF assms(1) [OF Cons.prems]] show ?case by simp
qed

lemma forEach_mono:
  fixes F :: "game \<Rightarrow> real"
  assumes "\<And>a s. F s \<le> F (snd (f a s))"
  shows "F s \<le> F (snd (forEach f as s))"
proof (rule forEach_inv [where P = "\<lambda>u. F s \<le> F u"])
  fix a u assume "F s \<le> F u"
  with assms [of u a] show "F s \<le> F (snd (f a u))" by simp
qed simp

lemma forEach_id:
  assumes "\<And>a. a \<in> set as \<Longrightarrow> f a s = (a, s)"
  shows "forEach f as s = (as, s)"
  using assms by (induction as) (simp_all add: Let_def)

lemma forEach_append:
  "forEach f (xs @ ys) s =
     (fst (forEach f xs s) @ fst (forEach f ys (snd (forEach f xs s))),
      snd (forEach f ys (snd (forEach f xs s))))"
  by (induction xs arbitrary: s) (simp_all add: split_def Let_def)

lemma foldl_keeps:
  assumes "\<And>a ds. F (snd (f ds a)) = F (snd ds)"
  shows "F (snd (foldl f ds as)) = F (snd ds)"
  by (induction as arbitrary: ds) (simp_all add: assms)

lemma Math_random_keeps [simp]:
  "scoreRef (snd (Math_random s)) = scoreRef s"
  "lastLevelRef (snd (Math_random s)) = lastLevelRef s"
  "isDying (snd (Math_random s)) = isDying s"
  "invincibleUntil (snd (Math_random s)) = invincibleUntil s"
  "timeScale (snd (Math_random s)) = timeScale s"
  "activePowerUps (snd (Math_random s)) = activePowerUps s"
  "obstacles (snd (Math_random s)) = obstacles s"
  "collectibles (snd (Math_random s)) = collectibles s"
  "powerUps (snd (Math_random s)) = powerUps s"
  "particles (snd (Math_random s)) = particles s"
  "nearMissedObstacles (snd (Math_random s)) = nearMissedObstacles s"
  "playerPos (snd (Math_random s)) = playerPos s"
  "socialEvents (snd (Math_random s)) = socialEvents s"
  "audioCues (snd (Math_random s)) = audioCues s"
  "pendingTimers (snd (Math_random s)) = pendingTimers s"
  "nextTimerId (snd (Math_random s)) = nextTimerId s"
  "deathTimeoutRef (snd (Math_random s)) = deathTimeoutRef s"
  "gameOverReports (snd (Math_random s)) = gameOverReports s"
  "isJumping (snd (Math_random s)) = isJumping s"
  "shakeTime (snd (Math_random s)) = shakeTime s"
  "keysPressed (snd (Math_random s)) = keysPressed s"
  "playerVel (snd (Math_random s)) = playerVel s"
  "rng (snd (Math_random s)) = rng s"
  "lastXDir (snd (Math_random s)) = lastXDir s"
  "dashTrails (snd (Math_random s)) = dashTrails s"
  by (simp_all add: Math_random_def)

lemma playSound_keeps [simp]:
  "scoreRef (playSound c s) = scoreRef s"
  "lastLevelRef (playSound c s) = lastLevelRef s"
  "isDying (playSound c s) = isDying s"
  "invincibleUntil (playSound c s) = invincibleUntil s"
  "timeScale (playSound c s) = timeScale s"
  "activePowerUps (playSound c s) = activePowerUps s"
  "obstacles (playSound c s) = obstacles s"
  "collectibles (playSound c s) = collectibles s"
  "powerUps (playSound c s) = powerUps s"
  "particles (playSound c s) = particles s"
  "nearMissedObstacles (playSound c s) = nearMissedObstacles s"
  "playerPos (playSound c s) = playerPos s"
  "socialEvents (playSound c s) = socialEvents s"
  "pendingTimers (playSound c s) = pendingTimers s"
  "nextTimerId (playSound c s) = nextTimerId s"
  "deathTimeoutRef (playSound c s) = deathTimeoutRef s"
  "gameOverReports (playSound c s) = gameOverReports s"
  "isJumping (playSound c s) = isJumping s"
  "rngPos (playSound c s) = rngPos s"
  "shakeTime (playSound c s) = shakeTime s"
  "keysPressed (playSound c s) = keysPressed s"
  "playerVel (playSound c s) = playerVel s"
  "rng (playSound c s) = rng s"
  "lastXDir (playSound c s) = lastXDir s"
  "dashTrails (playSound c s) = dashTrails s"
  by (simp_all add: playSound_def)

lemma onSocialEvent_keeps [simp]:
  "scoreRef (onSocialEvent e s) = scoreRef s"
  "lastLevelRef (onSocialEvent e s) = lastLevelRef s"
  "isDying (onSocialEvent e s) = isDying s"
  "invincibleUntil (onSocialEvent e s) = invincibleUntil s"
  "timeScale (onSocialEvent e s) = timeScale s"
  "activePowerUps (onSocialEvent e s) = activePowerUps s"
  "obstacles (onSocialEvent e s) = obstacles s"
  "collectibles (onSocialEvent e s) = collectibles s"
  "powerUps (onSocialEvent e s) = powerUps s"
  "particles (onSocialEvent e s) = particles s"
  "nearMissedObstacles (onSocialEvent e s) = nearMissedObstacles s"
  "playerPos (onSocialEvent e s) = playerPos s"
  "audioCues (onSocialEvent e s) = audioCues s"
  "pendingTimers (onSocialEvent e s) = pendingTimers s"
  "nextTimerId (onSocialEvent e s) = nextTimerId s"
  "deathTimeoutRef (onSocialEvent e s) = deathTimeoutRef s"
  "gameOverReports (onSocialEvent e s) = gameOverReports s"
  "isJumping (onSocialEvent e s) = isJumping s"
  "rngPos (onSocialEvent e s) = rngPos s"
  "shakeTime (onSocialEvent e s) = shakeTime s"
  "keysPressed (onSocialEvent e s) = keysPressed s"
  "playerVel (onSocialEvent e s) = playerVel s"
  "rng (onSocialEvent e s) = rng s"
  "lastXDir (onSocialEvent e s) = lastXDir s"
  "dashTrails (onSocialEvent e s) = dashTrails s"
  by (simp_all add: onSocialEvent_def)

lemma jumpParticle_keeps:
  "scoreRef (jumpParticle env s) = scoreRef s"
  "lastLevelRef (jumpParticle env s) = lastLevelRef s"
  "isDying (jumpParticle env s) = isDying s"
  "invincibleUntil (jumpParticle env s) = invincibleUntil s"
  "timeScale (jumpParticle env s) = timeScale s"
  "activePowerUps (jumpParticle env s) = activePowerUps s"
  "obstacles (jumpParticle env s) = obstacles s"
  "collectibles (jumpParticle env s) = collectibles s"
  "powerUps (jumpParticle env s) = powerUps s"
  "nearMissedObstacles (jumpParticle env s) = nearMissedObstacles s"
  "playerPos (jumpParticle env s) = playerPos s"
  "socialEvents (jumpParticle env s) = socialEvents s"
  "audioCues (jumpParticle env s) = audioCues s"
  "pendingTimers (jumpParticle env s) = pendingTimers s"
  "nextTimerId (jumpParticle env s) = nextTimerId s"
  "deathTimeoutRef (jumpParticle env s) = deathTimeoutRef s"
  "gameOverReports (jumpParticle env s) = gameOverReports s"
  "isJumping (jumpParticle env s) = isJumping s"
  "shakeTime (jumpParticle env s) = shakeTime s"
  "keysPressed (jumpParticle env s) = keysPressed s"
  "playerVel (jumpParticle env s) = playerVel s"
  "rng (jumpParticle env s) = rng s"
  "lastXDir (jumpParticle env s) = lastXDir s"
  "dashTrails (jumpParticle env s) = dashTrails s"
  by (simp_all add: jumpParticle_def pushParticle_def split_def Let_def)

lemma likeParticle_keeps:
  "scoreRef (likeParticle px py s) = scoreRef s"
  "lastLevelRef (likeParticle px py s) = lastLevelRef s"
  "isDying (likeParticle px py s) = isDying s"
  "invincibleUntil (likeParticle px py s) = invincibleUntil s"
  "timeScale (likeParticle px py s) = timeScale s"
  "activePowerUps (likeParticle px py s) = activePowerUps s"
  "obstacles (likeParticle px py s) = obstacles s"
  "collectibles (likeParticle px py s) = collectibles s"
  "powerUps (likeParticle px py s) = powerUps s"
  "nearMissedObstacles (likeParticle px py s) = nearMissedObstacles s"
  "playerPos (likeParticle px py s) = playerPos s"
  "socialEvents (likeParticle px py s) = socialEvents s"
  "audioCues (likeParticle px py s) = audioCues s"
  "pendingTimers (likeParticle px py s) = pendingTimers s"
  "nextTimerId (likeParticle px py s) = nextTimerId s"
  "deathTimeoutRef (likeParticle px py s) = deathTimeoutRef s"
  "gameOverReports (likeParticle px py s) = gameOverReports s"
  "isJumping (likeParticle px py s) = isJumping s"
  "shakeTime (likeParticle px py s) = shakeTime s"
  "keysPressed (likeParticle px py s) = keysPressed s"
  "playerVel (likeParticle px py s) = playerVel s"
  "rng (likeParticle px py s) = rng s"
  "lastXDir (likeParticle px py s) = lastXDir s"
  "dashTrails (likeParticle px py s) = dashTrails s"
  by (simp_all add: likeParticle_def pushParticle_def split_def Let_def)

lemma burstParticle_keeps:
  "scoreRef (burstParticle px py cs f s) = scoreRef s"
  "lastLevelRef (burstParticle px py cs f s) = lastLevelRef s"
  "isDying (burstParticle px py cs f s) = isDying s"
  "invincibleUntil (burstParticle px py cs f s) = invincibleUntil s"
  "timeScale (burstParticle px py cs f s) = timeScale s"
  "activePowerUps (burstParticle px py cs f s) = activePowerUps s"
  "obstacles (burstParticle px py cs f s) = obstacles s"
  "collectibles (burstParticle px py cs f s) = collectibles s"
  "powerUps (burstParticle px py cs f s) = powerUps s"
  "nearMissedObstacles (burstParticle px py cs f s) = nearMissedObstacles s"
  "playerPos (burstParticle px py cs f s) = playerPos s"
  "socialEvents (burstParticle px py cs f s) = socialEvents s"
  "audioCues (burstParticle px py cs f s) = audioCues s"
  "pendingTimers (burstParticle px py cs f s) = pendingTimers s"
  "nextTimerId (burstParticle px py cs f s) = nextTimerId s"
  "deathTimeoutRef (burstParticle px py cs f s) = deathTimeoutRef s"
  "gameOverReports (burstParticle px py cs f s) = gameOverReports s"
  "isJumping (burstParticle px py cs f s) = isJumping s"
  "shakeTime (burstParticle px py cs f s) = shakeTime s"
  "keysPressed (burstParticle px py cs f s) = keysPressed s"
  "playerVel (burstParticle px py cs f s) = playerVel s"
  "rng (burstParticle px py cs f s) = rng s"
  "lastXDir (burstParticle px py cs f s) = lastXDir s"
  "dashTrails (burstParticle px py cs f s) = dashTrails s"
  by (simp_all add: burstParticle_def pushParticle_def split_def Let_def)

lemma createJumpParticles_keeps [simp]:
  "scoreRef (createJumpParticles env s) = scoreRef s"
  "lastLevelRef (createJumpParticles env s) = lastLevelRef s"
  "isDying (createJumpParticles env s) = isDying s"
  "invincibleUntil (createJumpParticles env s) = invincibleUntil s"
  "timeScale (createJumpParticles env s) = timeScale s"
  "activePowerUps (createJumpParticles env s) = activePowerUps s"
  "obstacles (createJumpParticles env s) = obstacles s"
  "collectibles (createJumpParticles env s) = collectibles s"
  "powerUps (createJumpParticles env s) = powerUps s"
  "nearMissedObstacles (createJumpParticles env s) = nearMissedObstacles s"
  "playerPos (createJumpParticles env s) = playerPos s"
  "socialEvents (createJumpParticles env s) = socialEvents s"
  "audioCues (createJumpParticles env s) = audioCues s"
  "pendingTimers (createJumpParticles env s) = pendingTimers s"
  "nextTimerId (createJumpParticles env s) = nextTimerId s"
  "deathTimeoutRef (createJumpParticles env s) = deathTimeoutRef s"
  "gameOverReports (createJumpParticles env s) = gameOverReports s"
  "isJumping (createJumpParticles env s) = isJumping s"
  "shakeTime (createJumpParticles env s) = shakeTime s"
  "keysPressed (createJumpParticles env s) = keysPressed s"
  "playerVel (createJumpParticles env s) = playerVel s"
  "rng (createJumpParticles env s) = rng s"
  "lastXDir (createJumpParticles env s) = lastXDir s"
  "dashTrails (createJumpParticles env s) = dashTrails s"
  unfolding createJumpParticles_def
  apply (rule funpow_keeps [where F = scoreRef], simp add: jumpParticle_keeps)
  apply (rule funpow_keeps [where F = lastLevelRef], simp add: jumpParticle_keeps)
  apply (rule funpow_keeps [where F = isDying], simp add: jumpParticle_keeps)
  apply (rule funpow_keeps [where F = invincibleUntil], simp add: jumpParticle_keeps)
  apply (rule funpow_keeps [where F = timeScale], simp add: jumpParticle_keeps)
  apply (rule funpow_keeps [where F = activePowerUps], simp add: jumpParticle_keeps)
  apply (rule funpow_keeps [where F = obstacles], simp add: jumpParticle_keeps)
  apply (rule funpow_keeps [where F = collectibles], simp add: jumpParticle_keeps)
  apply (rule funpow_keeps [where F = powerUps], simp add: jumpParticle_keeps)
  apply (rule funpow_keeps [where F = nearMissedObstacles], simp add: jumpParticle_keeps)
  apply (rule funpow_keeps [where F = playerPos], simp add: jumpParticle_keeps)
  apply (rule funpow_keeps [where F = socialEvents], simp add: jumpParticle_keeps)
  apply (rule funpow_keeps [where F = audioCues], simp add: jumpParticle_keeps)
  apply (rule funpow_keeps [where F = pendingTimers], simp add: jumpParticle_keeps)
  apply (rule funpow_keeps [where F = nextTimerId], simp add: jumpParticle_keeps)
  apply (rule funpow_keeps [where F = deathTimeoutRef], simp add: jumpParticle_keeps)
  apply (rule funpow_keeps [where F = gameOverReports], simp add: jumpParticle_keeps)
  apply (rule funpow_keeps [where F = isJumping], simp add: jumpParticle_keeps)
  apply (rule funpow_keeps [where F = shakeTime], simp add: jumpParticle_keeps)
  apply (rule funpow_keeps [where F = keysPressed], simp add: jumpParticle_keeps)
  apply (rule funpow_keeps [where F = playerVel], simp add: jumpParticle_keeps)
  apply (rule funpow_keeps [where F = rng], simp add: jumpParticle_keeps)
  apply (rule funpow_keeps [where F = lastXDir], simp add: jumpParticle_keeps)
  by (rule funpow_keeps [where F = dashTrails], simp add: jumpParticle_keeps)

lemma createLikeParticles_keeps [simp]:
  "scoreRef (createLikeParticles px py s) = scoreRef s"
  "lastLevelRef (createLikeParticles px py s) = lastLevelRef s"
  "isDying (createLikeParticles px py s) = isDying s"
  "invincibleUntil (createLikeParticles px py s) = invincibleUntil s"
  "timeScale (createLikeParticles px py s) = timeScale s"
  "activePowerUps (createLikeParticles px py s) = activePowerUps s"
  "obstacles (createLikeParticles px py s) = obstacles s"
  "collectibles (createLikeParticles px py s) = collectibles s"
  "powerUps (createLikeParticles px py s) = powerUps s"
  "nearMissedObstacles (createLikeParticles px py s) = nearMissedObstacles s"
  "playerPos (createLikeParticles px py s) = playerPos s"
  "socialEvents (createLikeParticles px py s) = socialEvents s"
  "audioCues (createLikeParticles px py s) = audioCues s"
  "pendingTimers (createLikeParticles px py s) = pendingTimers s"
  "nextTimerId (createLikeParticles px py s) = nextTimerId s"
  "deathTimeoutRef (createLikeParticles px py s) = deathTimeoutRef s"
  "gameOverReports (createLikeParticles px py s) = gameOverReports s"
  "isJumping (createLikeParticles px py s) = isJumping s"
  "shakeTime (createLikeParticles px py s) = shakeTime s"
  "keysPressed (createLikeParticles px py s) = keysPressed s"
  "playerVel (createLikeParticles px py s) = playerVel s"
  "rng (createLikeParticles px py s) = rng s"
  "lastXDir (createLikeParticles px py s) = lastXDir s"
  "dashTrails (createLikeParticles px py s) = dashTrails s"
  unfolding createLikeParticles_def
  apply (rule funpow_keeps [where F = scoreRef], simp add: likeParticle_keeps)
  apply (rule funpow_keeps [where F = lastLevelRef], simp add: likeParticle_keeps)
  apply (rule funpow_keeps [where F = isDying], simp add: likeParticle_keeps)
  apply (rule funpow_keeps [where F = invincibleUntil], simp add: likeParticle_keeps)
  apply (rule funpow_keeps [where F = timeScale], simp add: likeParticle_keeps)
  apply (rule funpow_keeps [where F = activePowerUps], simp add: likeParticle_keeps)
  apply (rule funpow_keeps [where F = obstacles], simp add: likeParticle_keeps)
  apply (rule funpow_keeps [where F = collectibles], simp add: likeParticle_keeps)
  apply (rule funpow_keeps [where F = powerUps], simp add: likeParticle_keeps)
  apply (rule funpow_keeps [where F = nearMissedObstacles], simp add: likeParticle_keeps)
  apply (rule funpow_keeps [where F = playerPos], simp add: likeParticle_keeps)
  apply (rule funpow_keeps [where F = socialEvents], simp add: likeParticle_keeps)
  apply (rule funpow_keeps [where F = audioCues], simp add: likeParticle_keeps)
  apply (rule funpow_keeps [where F = pendingTimers], simp add: likeParticle_keeps)
  apply (rule funpow_keeps [where F = nextTimerId], simp add: likeParticle_keeps)
  apply (rule funpow_keeps [where F = deathTimeoutRef], simp add: likeParticle_keeps)
  apply (rule funpow_keeps [where F = gameOverReports], simp add: likeParticle_keeps)
  apply (rule funpow_keeps [where F = isJumping], simp add: likeParticle_keeps)
  apply (rule funpow_keeps [where F = shakeTime], simp add: likeParticle_keeps)
  apply (rule funpow_keeps [where F = keysPressed], simp add: likeParticle_keeps)
  apply (rule funpow_keeps [where F = playerVel], simp add: likeParticle_keeps)
  apply (rule funpow_keeps [where F = rng], simp add: likeParticle_keeps)
  apply (rule funpow_keeps [where F = lastXDir], simp add: likeParticle_keeps)
  by (rule funpow_keeps [where F = dashTrails], simp add: likeParticle_keeps)

lemma createCollisionBurst_keeps [simp]:
  "scoreRef (createCollisionBurst px py cs n f s) = scoreRef s"
  "lastLevelRef (createCollisionBurst px py cs n f s) = lastLevelRef s"
  "isDying (createCollisionBurst px py cs n f s) = isDying s"
  "invincibleUntil (createCollisionBurst px py cs n f s) = invincibleUntil s"
  "timeScale (createCollisionBurst px py cs n f s) = timeScale s"
  "activePowerUps (createCollisionBurst px py cs n f s) = activePowerUps s"
  "obstacles (createCollisionBurst px py cs n f s) = obstacles s"
  "collectibles (createCollisionBurst px py cs n f s) = collectibles s"
  "powerUps (createCollisionBurst px py cs n f s) = powerUps s"
  "nearMissedObstacles (createCollisionBurst px py cs n f s) = nearMissedObstacles s"
  "playerPos (createCollisionBurst px py cs n f s) = playerPos s"
  "socialEvents (createCollisionBurst px py cs n f s) = socialEvents s"
  "audioCues (createCollisionBurst px py cs n f s) = audioCues s"
  "pendingTimers (createCollisionBurst px py cs n f s) = pendingTimers s"
  "nextTimerId (createCollisionBurst px py cs n f s) = nextTimerId s"
  "deathTimeoutRef (createCollisionBurst px py cs n f s) = deathTimeoutRef s"
  "gameOverReports (createCollisionBurst px py cs n f s) = gameOverReports s"
  "isJumping (createCollisionBurst px py cs n f s) = isJumping s"
  "shakeTime (createCollisionBurst px py cs n f s) = shakeTime s"
  "keysPressed (createCollisionBurst px py cs n f s) = keysPressed s"
  "playerVel (createCollisionBurst px py cs n f s) = playerVel s"
  "rng (createCollisionBurst px py cs n f s) = rng s"
  "lastXDir (createCollisionBurst px py cs n f s) = lastXDir s"
  "dashTrails (createCollisionBurst px py cs n f s) = dashTrails s"
  unfolding createCollisionBurst_def
  apply (rule funpow_keeps [where F = scoreRef], simp add: burstParticle_keeps)
  apply (rule funpow_keeps [where F = lastLevelRef], simp add: burstParticle_keeps)
  apply (rule funpow_keeps [where F = isDying], simp add: burstParticle_keeps)
  apply (rule funpow_keeps [where F = invincibleUntil], simp add: burstParticle_keeps)
  apply (rule funpow_keeps [where F = timeScale], simp add: burstParticle_keeps)
  apply (rule funpow_keeps [where F = activePowerUps], simp add: burstParticle_keeps)
  apply (rule funpow_keeps [where F = obstacles], simp add: burstParticle_keeps)
  apply (rule funpow_keeps [where F = collectibles], simp add: burstParticle_keeps)
  apply (rule funpow_keeps [where F = powerUps], simp add: burstParticle_keeps)
  apply (rule funpow_keeps [where F = nearMissedObstacles], simp add: burstParticle_keeps)
  apply (rule funpow_keeps [where F = playerPos], simp add: burstParticle_keeps)
  apply (rule funpow_keeps [where F = socialEvents], simp add: burstParticle_keeps)
  apply (rule funpow_keeps [where F = audioCues], simp add: burstParticle_keeps)
  apply (rule funpow_keeps [where F = pendingTimers], simp add: burstParticle_keeps)
  apply (rule funpow_keeps [where F = nextTimerId], simp add: burstParticle_keeps)
  apply (rule funpow_keeps [where F = deathTimeoutRef], simp add: burstParticle_keeps)
  apply (rule funpow_keeps [where F = gameOverReports], simp add: burstParticle_keeps)
  apply (rule funpow_keeps [where F = isJumping], simp add: burstParticle_keeps)
  apply (rule funpow_keeps [where F = shakeTime], simp add: burstParticle_keeps)
  apply (rule funpow_keeps [where F = keysPressed], simp add: burstParticle_keeps)
  apply (rule funpow_keeps [where F = playerVel], simp add: burstParticle_keeps)
  apply (rule funpow_keeps [where F = rng], simp add: burstParticle_keeps)
  apply (rule funpow_keeps [where F = lastXDir], simp add: burstParticle_keeps)
  by (rule funpow_keeps [where F = dashTrails], simp add: burstParticle_keeps)

lemma triggerDeathSequence_keeps [simp]:
  "scoreRef (triggerDeathSequence env ix iy s) = scoreRef s"
  "lastLevelRef (triggerDeathSequence env ix iy s) = lastLevelRef s"
  "invincibleUntil (triggerDeathSequence env ix iy s) = invincibleUntil s"
  "activePowerUps (triggerDeathSequence env ix iy s) = activePowerUps s"
  "obstacles (triggerDeathSequence env ix iy s) = obstacles s"
  "collectibles (triggerDeathSequence env ix iy s) = collectibles s"
  "powerUps (triggerDeathSequence env ix iy s) = powerUps s"
  "nearMissedObstacles (triggerDeathSequence env ix iy s) = nearMissedObstacles s"
  "playerPos (triggerDeathSequence env ix iy s) = playerPos s"
  "socialEvents (triggerDeathSequence env ix iy s) = socialEvents s"
  "gameOverReports (triggerDeathSequence env ix iy s) = gameOverReports s"
  "isJumping (triggerDeathSequence env ix iy s) = isJumping s"
  "keysPressed (triggerDeathSequence env ix iy s) = keysPressed s"
  "playerVel (triggerDeathSequence env ix iy s) = playerVel s"
  "rng (triggerDeathSequence env ix iy s) = rng s"
  "lastXDir (triggerDeathSequence env ix iy s) = lastXDir s"
  "dashTrails (triggerDeathSequence env ix iy s) = dashTrails s"
  by (simp_all add: triggerDeathSequence_def setTimeout_def split_def Let_def)

lemma shakePhase_keeps [simp]:
  "scoreRef (shakePhase dt s) = scoreRef s"
  "lastLevelRef (shakePhase dt s) = lastLevelRef s"
  "isDying (shakePhase dt s) = isDying s"
  "invincibleUntil (shakePhase dt s) = invincibleUntil s"
  "timeScale (shakePhase dt s) = timeScale s"
  "activePowerUps (shakePhase dt s) = activePowerUps s"
  "obstacles (shakePhase dt s) = obstacles s"
  "collectibles (shakePhase dt s) = collectibles s"
  "powerUps (shakePhase dt s) = powerUps s"
  "particles (shakePhase dt s) = particles s"
  "nearMissedObstacles (shakePhase dt s) = nearMissedObstacles s"
  "playerPos (shakePhase dt s) = playerPos s"
  "socialEvents (shakePhase dt s) = socialEvents s"
  "audioCues (shakePhase dt s) = audioCues s"
  "pendingTimers (shakePhase dt s) = pendingTimers s"
  "nextTimerId (shakePhase dt s) = nextTimerId s"
  "deathTimeoutRef (shakePhase dt s) = deathTimeoutRef s"
  "gameOverReports (shakePhase dt s) = gameOverReports s"
  "isJumping (shakePhase dt s) = isJumping s"
  "keysPressed (shakePhase dt s) = keysPressed s"
  "playerVel (shakePhase dt s) = playerVel s"
  "rng (shakePhase dt s) = rng s"
  "lastXDir (shakePhase dt s) = lastXDir s"
  "dashTrails (shakePhase dt s) = dashTrails s"
  by (simp_all add: shakePhase_def split_def Let_def)

lemma registryPhase_keeps [simp]:
  "scoreRef (registryPhase t m s) = scoreRef s"
  "lastLevelRef (registryPhase t m s) = lastLevelRef s"
  "isDying (registryPhase t m s) = isDying s"
  "invincibleUntil (registryPhase t m s) = invincibleUntil s"
  "timeScale (registryPhase t m s) = timeScale s"
  "obstacles (registryPhase t m s) = obstacles s"
  "collectibles (registryPhase t m s) = collectibles s"
  "powerUps (registryPhase t m s) = powerUps s"
  "particles (registryPhase t m s) = particles s"
  "nearMissedObstacles (registryPhase t m s) = nearMissedObstacles s"
  "playerPos (registryPhase t m s) = playerPos s"
  "socialEvents (registryPhase t m s) = socialEvents s"
  "audioCues (registryPhase t m s) = audioCues s"
  "pendingTimers (registryPhase t m s) = pendingTimers s"
  "nextTimerId (registryPhase t m s) = nextTimerId s"
  "deathTimeoutRef (registryPhase t m s) = deathTimeoutRef s"
  "gameOverReports (registryPhase t m s) = gameOverReports s"
  "isJumping (registryPhase t m s) = isJumping s"
  "rngPos (registryPhase t m s) = rngPos s"
  "shakeTime (registryPhase t m s) = shakeTime s"
  "keysPressed (registryPhase t m s) = keysPressed s"
  "playerVel (registryPhase t m s) = playerVel s"
  "rng (registryPhase t m s) = rng s"
  "lastXDir (registryPhase t m s) = lastXDir s"
  "dashTrails (registryPhase t m s) = dashTrails s"
  by (simp_all add: registryPhase_def)

lemma jump_keeps [simp]:
  "scoreRef (jump env s) = scoreRef s"
  "lastLevelRef (jump env s) = lastLevelRef s"
  "isDying (jump env s) = isDying s"
  "invincibleUntil (jump env s) = invincibleUntil s"
  "timeScale (jump env s) = timeScale s"
  "activePowerUps (jump env s) = activePowerUps s"
  "obstacles (jump env s) = obstacles s"
  "collectibles (jump env s) = collectibles s"
  "powerUps (jump env s) = powerUps s"
  "nearMissedObstacles (jump env s) = nearMissedObstacles s"
  "playerPos (jump env s) = playerPos s"
  "socialEvents (jump env s) = socialEvents s"
  "pendingTimers (jump env s) = pendingTimers s"
  "nextTimerId (jump env s) = nextTimerId s"
  "deathTimeoutRef (jump env s) = deathTimeoutRef s"
  "gameOverReports (jump env s) = gameOverReports s"
  "shakeTime (jump env s) = shakeTime s"
  "keysPressed (jump env s) = keysPressed s"
  "rng (jump env s) = rng s"
  "lastXDir (jump env s) = lastXDir s"
  "dashTrails (jump env s) = dashTrails s"
  by (simp_all add: jump_def)

lemma padStep_keeps [simp]:
  "scoreRef (snd (padStep env gpo ds)) = scoreRef (snd ds)"
  "lastLevelRef (snd (padStep env gpo ds)) = lastLevelRef (snd ds)"
  "isDying (snd (padStep env gpo ds)) = isDying (snd ds)"
  "invincibleUntil (snd (padStep env gpo ds)) = invincibleUntil (snd ds)"
  "timeScale (snd (padStep env gpo ds)) = timeScale (snd ds)"
  "activePowerUps (snd (padStep env gpo ds)) = activePowerUps (snd ds)"
  "obstacles (snd (padStep env gpo ds)) = obstacles (snd ds)"
  "collectibles (snd (padStep env gpo ds)) = collectibles (snd ds)"
  "powerUps (snd (padStep env gpo ds)) = powerUps (snd ds)"
  "nearMissedObstacles (snd (padStep env gpo ds)) = nearMissedObstacles (snd ds)"
  "playerPos (snd (padStep env gpo ds)) = playerPos (snd ds)"
  "socialEvents (snd (padStep env gpo ds)) = socialEvents (snd ds)"
  "pendingTimers (snd (padStep env gpo ds)) = pendingTimers (snd ds)"
  "nextTimerId (snd (padStep env gpo ds)) = nextTimerId (snd ds)"
  "deathTimeoutRef (snd (padStep env gpo ds)) = deathTimeoutRef (snd ds)"
  "gameOverReports (snd (padStep env gpo ds)) = gameOverReports (snd ds)"
  "shakeTime (snd (padStep env gpo ds)) = shakeTime (snd ds)"
  "keysPressed (snd (padStep env gpo ds)) = keysPressed (snd ds)"
  "rng (snd (padStep env gpo ds)) = rng (snd ds)"
  "lastXDir (snd (padStep env gpo ds)) = lastXDir (snd ds)"
  "dashTrails (snd (padStep env gpo ds)) = dashTrails (snd ds)"
  by (simp_all add: padStep_def split_def Let_def split: option.splits)

lemma padLoop_keeps [simp]:
  "scoreRef (snd (foldl (\<lambda>ds gpo. padStep env gpo ds) ds gps)) = scoreRef (snd ds)"
  "lastLevelRef (snd (foldl (\<lambda>ds gpo. padStep env gpo ds) ds gps)) = lastLevelRef (snd ds)"
  "isDying (snd (foldl (\<lambda>ds gpo. padStep env gpo ds) ds gps)) = isDying (snd ds)"
  "invincibleUntil (snd (foldl (\<lambda>ds gpo. padStep env gpo ds) ds gps)) = invincibleUntil (snd ds)"
  "timeScale (snd (foldl (\<lambda>ds gpo. padStep env gpo ds) ds gps)) = timeScale (snd ds)"
  "activePowerUps (snd (foldl (\<lambda>ds gpo. padStep env gpo ds) ds gps)) = activePowerUps (snd ds)"
  "obstacles (snd (foldl (\<lambda>ds gpo. padStep env gpo ds) ds gps)) = obstacles (snd ds)"
  "collectibles (snd (foldl (\<lambda>ds gpo. padStep env gpo ds) ds gps)) = collectibles (snd ds)"
  "powerUps (snd (foldl (\<lambda>ds gpo. padStep env gpo ds) ds gps)) = powerUps (snd ds)"
  "nearMissedObstacles (snd (foldl (\<lambda>ds gpo. padStep env gpo ds) ds gps)) = nearMissedObstacles (snd ds)"
  "playerPos (snd (foldl (\<lambda>ds gpo. padStep env gpo ds) ds gps)) = playerPos (snd ds)"
  "socialEvents (snd (foldl (\<lambda>ds gpo. padStep env gpo ds) ds gps)) = socialEvents (snd ds)"
  "pendingTimers (snd (foldl (\<lambda>ds gpo. padStep env gpo ds) ds gps)) = pendingTimers (snd ds)"
  "nextTimerId (snd (foldl (\<lambda>ds gpo. padStep env gpo ds) ds gps)) = nextTimerId (snd ds)"
  "deathTimeoutRef (snd (foldl (\<lambda>ds gpo. padStep env gpo ds) ds gps)) = deathTimeoutRef (snd ds)"
  "gameOverReports (snd (foldl (\<lambda>ds gpo. padStep env gpo ds) ds gps)) = gameOverReports (snd ds)"
  "shakeTime (snd (foldl (\<lambda>ds gpo. padStep env gpo ds) ds gps)) = shakeTime (snd ds)"
  "keysPressed (snd (foldl (\<lambda>ds gpo. padStep env gpo ds) ds gps)) = keysPressed (snd ds)"
  "rng (snd (foldl (\<lambda>ds gpo. padStep env gpo ds) ds gps)) = rng (snd ds)"
  "lastXDir (snd (foldl (\<lambda>ds gpo. padStep env gpo ds) ds gps)) = lastXDir (snd ds)"
  "dashTrails (snd (foldl (\<lambda>ds gpo. padStep env gpo ds) ds gps)) = dashTrails (snd ds)"
  apply (rule foldl_keeps [where F = scoreRef], simp add: padStep_keeps)
  apply (rule foldl_keeps [where F = lastLevelRef], simp add: padStep_keeps)
  apply (rule foldl_keeps [where F = isDying], simp add: padStep_keeps)
  apply (rule foldl_keeps [where F = invincibleUntil], simp add: padStep_keeps)
  apply (rule foldl_keeps [where F = timeScale], simp add: padStep_keeps)
  apply (rule foldl_keeps [where F = activePowerUps], simp add: padStep_keeps)
  apply (rule foldl_keeps [where F = obstacles], simp add: padStep_keeps)
  apply (rule foldl_keeps [where F = collectibles], simp add: padStep_keeps)
  apply (rule foldl_keeps [where F = powerUps], simp add: padStep_keeps)
  apply (rule foldl_keeps [where F = nearMissedObstacles], simp add: padStep_keeps)
  apply (rule foldl_keeps [where F = playerPos], simp add: padStep_keeps)
  apply (rule foldl_keeps [where F = socialEvents], simp add: padStep_keeps)
  apply (rule foldl_keeps [where F = pendingTimers], simp add: padStep_keeps)
  apply (rule foldl_keeps [where F = nextTimerId], simp add: padStep_keeps)
  apply (rule foldl_keeps [where F = deathTimeoutRef], simp add: padStep_keeps)
  apply (rule foldl_keeps [where F = gameOverReports], simp add: padStep_keeps)
  apply (rule foldl_keeps [where F = shakeTime], simp add: padStep_keeps)
  apply (rule foldl_keeps [where F = keysPressed], simp add: padStep_keeps)
  apply (rule foldl_keeps [where F = rng], simp add: padStep_keeps)
  apply (rule foldl_keeps [where F = lastXDir], simp add: padStep_keeps)
  by (rule foldl_keeps [where F = dashTrails], simp add: padStep_keeps)

lemma inputPhase_keeps [simp]:
  "scoreRef (inputPhase env inp dt s) = scoreRef s"
  "lastLevelRef (inputPhase env inp dt s) = lastLevelRef s"
  "isDying (inputPhase env inp dt s) = isDying s"
  "invincibleUntil (inputPhase env inp dt s) = invincibleUntil s"
  "timeScale (inputPhase env inp dt s) = timeScale s"
  "activePowerUps (inputPhase env inp dt s) = activePowerUps s"
  "obstacles (inputPhase env inp dt s) = obstacles s"
  "collectibles (inputPhase env inp dt s) = collectibles s"
  "powerUps (inputPhase env inp dt s) = powerUps s"
  "nearMissedObstacles (inputPhase env inp dt s) = nearMissedObstacles s"
  "socialEvents (inputPhase env inp dt s) = socialEvents s"
  "pendingTimers (inputPhase env inp dt s) = pendingTimers s"
  "nextTimerId (inputPhase env inp dt s) = nextTimerId s"
  "deathTimeoutRef (inputPhase env inp dt s) = deathTimeoutRef s"
  "gameOverReports (inputPhase env inp dt s) = gameOverReports s"
  "shakeTime (inputPhase env inp dt s) = shakeTime s"
  "keysPressed (inputPhase env inp dt s) = keysPressed s"
  "rng (inputPhase env inp dt s) = rng s"
  "dashTrails (inputPhase env inp dt s) = dashTrails s"
  by (simp_all add: inputPhase_def split_def Let_def)

lemma dashPhase_keeps [simp]:
  "scoreRef (dashPhase s) = scoreRef s"
  "lastLevelRef (dashPhase s) = lastLevelRef s"
  "isDying (dashPhase s) = isDying s"
  "invincibleUntil (dashPhase s) = invincibleUntil s"
  "timeScale (dashPhase s) = timeScale s"
  "activePowerUps (dashPhase s) = activePowerUps s"
  "obstacles (dashPhase s) = obstacles s"
  "collectibles (dashPhase s) = collectibles s"
  "powerUps (dashPhase s) = powerUps s"
  "particles (dashPhase s) = particles s"
  "nearMissedObstacles (dashPhase s) = nearMissedObstacles s"
  "playerPos (dashPhase s) = playerPos s"
  "socialEvents (dashPhase s) = socialEvents s"
  "audioCues (dashPhase s) = audioCues s"
  "pendingTimers (dashPhase s) = pendingTimers s"
  "nextTimerId (dashPhase s) = nextTimerId s"
  "deathTimeoutRef (dashPhase s) = deathTimeoutRef s"
  "gameOverReports (dashPhase s) = gameOverReports s"
  "isJumping (dashPhase s) = isJumping s"
  "rngPos (dashPhase s) = rngPos s"
  "shakeTime (dashPhase s) = shakeTime s"
  "keysPressed (dashPhase s) = keysPressed s"
  "playerVel (dashPhase s) = playerVel s"
  "rng (dashPhase s) = rng s"
  "lastXDir (dashPhase s) = lastXDir s"
  by (simp_all add: dashPhase_def Let_def)

lemma physicsPhase_keeps [simp]:
  "scoreRef (physicsPhase dt s) = scoreRef s"
  "lastLevelRef (physicsPhase dt s) = lastLevelRef s"
  "isDying (physicsPhase dt s) = isDying s"
  "invincibleUntil (physicsPhase dt s) = invincibleUntil s"
  "timeScale (physicsPhase dt s) = timeScale s"
  "activePowerUps (physicsPhase dt s) = activePowerUps s"
  "obstacles (physicsPhase dt s) = obstacles s"
  "collectibles (physicsPhase dt s) = collectibles s"
  "powerUps (physicsPhase dt s) = powerUps s"
  "particles (physicsPhase dt s) = particles s"
  "nearMissedObstacles (physicsPhase dt s) = nearMissedObstacles s"
  "socialEvents (physicsPhase dt s) = socialEvents s"
  "audioCues (physicsPhase dt s) = audioCues s"
  "pendingTimers (physicsPhase dt s) = pendingTimers s"
  "nextTimerId (physicsPhase dt s) = nextTimerId s"
  "deathTimeoutRef (physicsPhase dt s) = deathTimeoutRef s"
  "gameOverReports (physicsPhase dt s) = gameOverReports s"
  "rngPos (physicsPhase dt s) = rngPos s"
  "shakeTime (physicsPhase dt s) = shakeTime s"
  "keysPressed (physicsPhase dt s) = keysPressed s"
  "rng (physicsPhase dt s) = rng s"
  "lastXDir (physicsPhase dt s) = lastXDir s"
  "dashTrails (physicsPhase dt s) = dashTrails s"
  by (simp_all add: physicsPhase_def Let_def)

lemma scorePhase_keeps [simp]:
  "isDying (scorePhase t g m s) = isDying s"
  "timeScale (scorePhase t g m s) = timeScale s"
  "activePowerUps (scorePhase t g m s) = activePowerUps s"
  "obstacles (scorePhase t g m s) = obstacles s"
  "collectibles (scorePhase t g m s) = collectibles s"
  "powerUps (scorePhase t g m s) = powerUps s"
  "particles (scorePhase t g m s) = particles s"
  "nearMissedObstacles (scorePhase t g m s) = nearMissedObstacles s"
  "playerPos (scorePhase t g m s) = playerPos s"
  "pendingTimers (scorePhase t g m s) = pendingTimers s"
  "nextTimerId (scorePhase t g m s) = nextTimerId s"
  "deathTimeoutRef (scorePhase t g m s) = deathTimeoutRef s"
  "gameOverReports (scorePhase t g m s) = gameOverReports s"
  "isJumping (scorePhase t g m s) = isJumping s"
  "rngPos (scorePhase t g m s) = rngPos s"
  "shakeTime (scorePhase t g m s) = shakeTime s"
  "keysPressed (scorePhase t g m s) = keysPressed s"
  "playerVel (scorePhase t g m s) = playerVel s"
  "rng (scorePhase t g m s) = rng s"
  "lastXDir (scorePhase t g m s) = lastXDir s"
  "dashTrails (scorePhase t g m s) = dashTrails s"
  by (simp_all add: scorePhase_def Let_def)

lemma stompStep_keeps [simp]:
  "scoreRef (snd (stompStep env dt obs st tm pl s)) = scoreRef s"
  "lastLevelRef (snd (stompStep env dt obs st tm pl s)) = lastLevelRef s"
  "isDying (snd (stompStep env dt obs st tm pl s)) = isDying s"
  "invincibleUntil (snd (stompStep env dt obs st tm pl s)) = invincibleUntil s"
  "timeScale (snd (stompStep env dt obs st tm pl s)) = timeScale s"
  "activePowerUps (snd (stompStep env dt obs st tm pl s)) = activePowerUps s"
  "obstacles (snd (stompStep env dt obs st tm pl s)) = obstacles s"
  "collectibles (snd (stompStep env dt obs st tm pl s)) = collectibles s"
  "powerUps (snd (stompStep env dt obs st tm pl s)) = powerUps s"
  "nearMissedObstacles (snd (stompStep env dt obs st tm pl s)) = nearMissedObstacles s"
  "playerPos (snd (stompStep env dt obs st tm pl s)) = playerPos s"
  "socialEvents (snd (stompStep env dt obs st tm pl s)) = socialEvents s"
  "pendingTimers (snd (stompStep env dt obs st tm pl s)) = pendingTimers s"
  "nextTimerId (snd (stompStep env dt obs st tm pl s)) = nextTimerId s"
  "deathTimeoutRef (snd (stompStep env dt obs st tm pl s)) = deathTimeoutRef s"
  "gameOverReports (snd (stompStep env dt obs st tm pl s)) = gameOverReports s"
  "isJumping (snd (stompStep env dt obs st tm pl s)) = isJumping s"
  "shakeTime (snd (stompStep env dt obs st tm pl s)) = shakeTime s"
  "keysPressed (snd (stompStep env dt obs st tm pl s)) = keysPressed s"
  "playerVel (snd (stompStep env dt obs st tm pl s)) = playerVel s"
  "rng (snd (stompStep env dt obs st tm pl s)) = rng s"
  "lastXDir (snd (stompStep env dt obs st tm pl s)) = lastXDir s"
  "dashTrails (snd (stompStep env dt obs st tm pl s)) = dashTrails s"
  by (simp_all add: stompStep_def split_def Let_def split: StompStage.splits)

lemma behave_keeps [simp]:
  "scoreRef (snd (behave env t dt g obs s)) = scoreRef s"
  "lastLevelRef (snd (behave env t dt g obs s)) = lastLevelRef s"
  "isDying (snd (behave env t dt g obs s)) = isDying s"
  "invincibleUntil (snd (behave env t dt g obs s)) = invincibleUntil s"
  "timeScale (snd (behave env t dt g obs s)) = timeScale s"
  "activePowerUps (snd (behave env t dt g obs s)) = activePowerUps s"
  "obstacles (snd (behave env t dt g obs s)) = obstacles s"
  "collectibles (snd (behave env t dt g obs s)) = collectibles s"
  "powerUps (snd (behave env t dt g obs s)) = powerUps s"
  "nearMissedObstacles (snd (behave env t dt g obs s)) = nearMissedObstacles s"
  "playerPos (snd (behave env t dt g obs s)) = playerPos s"
  "socialEvents (snd (behave env t dt g obs s)) = socialEvents s"
  "pendingTimers (snd (behave env t dt g obs s)) = pendingTimers s"
  "nextTimerId (snd (behave env t dt g obs s)) = nextTimerId s"
  "deathTimeoutRef (snd (behave env t dt g obs s)) = deathTimeoutRef s"
  "gameOverReports (snd (behave env t dt g obs s)) = gameOverReports s"
  "isJumping (snd (behave env t dt g obs s)) = isJumping s"
  "shakeTime (snd (behave env t dt g obs s)) = shakeTime s"
  "keysPressed (snd (behave env t dt g obs s)) = keysPressed s"
  "playerVel (snd (behave env t dt g obs s)) = playerVel s"
  "rng (snd (behave env t dt g obs s)) = rng s"
  "lastXDir (snd (behave env t dt g obs s)) = lastXDir s"
  "dashTrails (snd (behave env t dt g obs s)) = dashTrails s"
  by (simp_all add: behave_def split_def Let_def split: ObstacleKind.splits)

lemma nearMissCheck_keeps [simp]:
  "lastLevelRef (nearMissCheck t obs s) = lastLevelRef s"
  "isDying (nearMissCheck t obs s) = isDying s"
  "invincibleUntil (nearMissCheck t obs s) = invincibleUntil s"
  "timeScale (nearMissCheck t obs s) = timeScale s"
  "activePowerUps (nearMissCheck t obs s) = activePowerUps s"
  "obstacles (nearMissCheck t obs s) = obstacles s"
  "collectibles (nearMissCheck t obs s) = collectibles s"
  "powerUps (nearMissCheck t obs s) = powerUps s"
  "particles (nearMissCheck t obs s) = particles s"
  "playerPos (nearMissCheck t obs s) = playerPos s"
  "audioCues (nearMissCheck t obs s) = audioCues s"
  "pendingTimers (nearMissCheck t obs s) = pendingTimers s"
  "nextTimerId (nearMissCheck t obs s) = nextTimerId s"
  "deathTimeoutRef (nearMissCheck t obs s) = deathTimeoutRef s"
  "gameOverReports (nearMissCheck t obs s) = gameOverReports s"
  "isJumping (nearMissCheck t obs s) = isJumping s"
  "rngPos (nearMissCheck t obs s) = rngPos s"
  "shakeTime (nearMissCheck t obs s) = shakeTime s"
  "keysPressed (nearMissCheck t obs s) = keysPressed s"
  "playerVel (nearMissCheck t obs s) = playerVel s"
  "rng (nearMissCheck t obs s) = rng s"
  "lastXDir (nearMissCheck t obs s) = lastXDir s"
  "dashTrails (nearMissCheck t obs s) = dashTrails s"
  by (simp_all add: nearMissCheck_def Let_def)

lemma obstacleStep_keeps [simp]:
  "lastLevelRef (snd (obstacleStep env t dt g obs s)) = lastLevelRef s"
  "isDying (snd (obstacleStep env t dt g obs s)) = isDying s"
  "invincibleUntil (snd (obstacleStep env t dt g obs s)) = invincibleUntil s"
  "timeScale (snd (obstacleStep env t dt g obs s)) = timeScale s"
  "activePowerUps (snd (obstacleStep env t dt g obs s)) = activePowerUps s"
  "obstacles (snd (obstacleStep env t dt g obs s)) = obstacles s"
  "collectibles (snd (obstacleStep env t dt g obs s)) = collectibles s"
  "powerUps (snd (obstacleStep env t dt g obs s)) = powerUps s"
  "playerPos (snd (obstacleStep env t dt g obs s)) = playerPos s"
  "pendingTimers (snd (obstacleStep env t dt g obs s)) = pendingTimers s"
  "nextTimerId (snd (obstacleStep env t dt g obs s)) = nextTimerId s"
  "deathTimeoutRef (snd (obstacleStep env t dt g obs s)) = deathTimeoutRef s"
  "gameOverReports (snd (obstacleStep env t dt g obs s)) = gameOverReports s"
  "isJumping (snd (obstacleStep env t dt g obs s)) = isJumping s"
  "shakeTime (snd (obstacleStep env t dt g obs s)) = shakeTime s"
  "keysPressed (snd (obstacleStep env t dt g obs s)) = keysPressed s"
  "playerVel (snd (obstacleStep env t dt g obs s)) = playerVel s"
  "rng (snd (obstacleStep env t dt g obs s)) = rng s"
  "lastXDir (snd (obstacleStep env t dt g obs s)) = lastXDir s"
  "dashTrails (snd (obstacleStep env t dt g obs s)) = dashTrails s"
  by (simp_all add: obstacleStep_def split_def Let_def)

lemma obstacleLoop_keeps [simp]:
  "lastLevelRef (snd (forEach (obstacleStep env t dt g) os s)) = lastLevelRef s"
  "isDying (snd (forEach (obstacleStep env t dt g) os s)) = isDying s"
  "invincibleUntil (snd (forEach (obstacleStep env t dt g) os s)) = invincibleUntil s"
  "timeScale (snd (forEach (obstacleStep env t dt g) os s)) = timeScale s"
  "activePowerUps (snd (forEach (obstacleStep env t dt g) os s)) = activePowerUps s"
  "obstacles (snd (forEach (obstacleStep env t dt g) os s)) = obstacles s"
  "collectibles (snd (forEach (obstacleStep env t dt g) os s)) = collectibles s"
  "powerUps (snd (forEach (obstacleStep env t dt g) os s)) = powerUps s"
  "playerPos (snd (forEach (obstacleStep env t dt g) os s)) = playerPos s"
  "pendingTimers (snd (forEach (obstacleStep env t dt g) os s)) = pendingTimers s"
  "nextTimerId (snd (forEach (obstacleStep env t dt g) os s)) = nextTimerId s"
  "deathTimeoutRef (snd (forEach (obstacleStep env t dt g) os s)) = deathTimeoutRef s"
  "gameOverReports (snd (forEach (obstacleStep env t dt g) os s)) = gameOverReports s"
  "isJumping (snd (forEach (obstacleStep env t dt g) os s)) = isJumping s"
  "shakeTime (snd (forEach (obstacleStep env t dt g) os s)) = shakeTime s"
  "keysPressed (snd (forEach (obstacleStep env t dt g) os s)) = keysPressed s"
  "playerVel (snd (forEach (obstacleStep env t dt g) os s)) = playerVel s"
  "rng (snd (forEach (obstacleStep env t dt g) os s)) = rng s"
  "lastXDir (snd (forEach (obstacleStep env t dt g) os s)) = lastXDir s"
  "dashTrails (snd (forEach (obstacleStep env t dt g) os s)) = dashTrails s"
  apply (rule forEach_keeps [where F = lastLevelRef], simp add: obstacleStep_keeps)
  apply (rule forEach_keeps [where F = isDying], simp add: obstacleStep_keeps)
  apply (rule forEach_keeps [where F = invincibleUntil], simp add: obstacleStep_keeps)
  apply (rule forEach_keeps [where F = timeScale], simp add: obstacleStep_keeps)
  apply (rule forEach_keeps [where F = activePowerUps], simp add: obstacleStep_keeps)
  apply (rule forEach_keeps [where F = obstacles], simp add: obstacleStep_keeps)
  apply (rule forEach_keeps [where F = collectibles], simp add: obstacleStep_keeps)
  apply (rule forEach_keeps [where F = powerUps], simp add: obstacleStep_keeps)
  apply (rule forEach_keeps [where F = playerPos], simp add: obstacleStep_keeps)
  apply (rule forEach_keeps [where F = pendingTimers], simp add: obstacleStep_keeps)
  apply (rule forEach_keeps [where F = nextTimerId], simp add: obstacleStep_keeps)
  apply (rule forEach_keeps [where F = deathTimeoutRef], simp add: obstacleStep_keeps)
  apply (rule forEach_keeps [where F = gameOverReports], simp add: obstacleStep_keeps)
  apply (rule forEach_keeps [where F = isJumping], simp add: obstacleStep_keeps)
  apply (rule forEach_keeps [where F = shakeTime], simp add: obstacleStep_keeps)
  apply (rule forEach_keeps [where F = keysPressed], simp add: obstacleStep_keeps)
  apply (rule forEach_keeps [where F = playerVel], simp add: obstacleStep_keeps)
  apply (rule forEach_keeps [where F = rng], simp add: obstacleStep_keeps)
  apply (rule forEach_keeps [where F = lastXDir], simp add: obstacleStep_keeps)
  by (rule forEach_keeps [where F = dashTrails], simp add: obstacleStep_keeps)

lemma obstaclesPhase_keeps [simp]:
  "lastLevelRef (obstaclesPhase env t dt g s) = lastLevelRef s"
  "isDying (obstaclesPhase env t dt g s) = isDying s"
  "invincibleUntil (obstaclesPhase env t dt g s) = invincibleUntil s"
  "timeScale (obstaclesPhase env t dt g s) = timeScale s"
  "activePowerUps (obstaclesPhase env t dt g s) = activePowerUps s"
  "collectibles (obstaclesPhase env t dt g s) = collectibles s"
  "powerUps (obstaclesPhase env t dt g s) = powerUps s"
  "playerPos (obstaclesPhase env t dt g s) = playerPos s"
  "pendingTimers (obstaclesPhase env t dt g s) = pendingTimers s"
  "nextTimerId (obstaclesPhase env t dt g s) = nextTimerId s"
  "deathTimeoutRef (obstaclesPhase env t dt g s) = deathTimeoutRef s"
  "gameOverReports (obstaclesPhase env t dt g s) = gameOverReports s"
  "isJumping (obstaclesPhase env t dt g s) = isJumping s"
  "shakeTime (obstaclesPhase env t dt g s) = shakeTime s"
  "keysPressed (obstaclesPhase env t dt g s) = keysPressed s"
  "playerVel (obstaclesPhase env t dt g s) = playerVel s"
  "rng (obstaclesPhase env t dt g s) = rng s"
  "lastXDir (obstaclesPhase env t dt g s) = lastXDir s"
  "dashTrails (obstaclesPhase env t dt g s) = dashTrails s"
  by (simp_all add: obstaclesPhase_def split_def Let_def)

lemma scrollPhase_keeps [simp]:
  "scoreRef (scrollPhase g s) = scoreRef s"
  "lastLevelRef (scrollPhase g s) = lastLevelRef s"
  "isDying (scrollPhase g s) = isDying s"
  "invincibleUntil (scrollPhase g s) = invincibleUntil s"
  "timeScale (scrollPhase g s) = timeScale s"
  "activePowerUps (scrollPhase g s) = activePowerUps s"
  "particles (scrollPhase g s) = particles s"
  "nearMissedObstacles (scrollPhase g s) = nearMissedObstacles s"
  "playerPos (scrollPhase g s) = playerPos s"
  "socialEvents (scrollPhase g s) = socialEvents s"
  "audioCues (scrollPhase g s) = audioCues s"
  "pendingTimers (scrollPhase g s) = pendingTimers s"
  "nextTimerId (scrollPhase g s) = nextTimerId s"
  "deathTimeoutRef (scrollPhase g s) = deathTimeoutRef s"
  "gameOverReports (scrollPhase g s) = gameOverReports s"
  "isJumping (scrollPhase g s) = isJumping s"
  "rngPos (scrollPhase g s) = rngPos s"
  "shakeTime (scrollPhase g s) = shakeTime s"
  "keysPressed (scrollPhase g s) = keysPressed s"
  "playerVel (scrollPhase g s) = playerVel s"
  "rng (scrollPhase g s) = rng s"
  "lastXDir (scrollPhase g s) = lastXDir s"
  "dashTrails (scrollPhase g s) = dashTrails s"
  by (simp_all add: scrollPhase_def onScoreUpdate_def Let_def)

lemma spawnCollectible_keeps [simp]:
  "scoreRef (spawnCollectible s) = scoreRef s"
  "lastLevelRef (spawnCollectible s) = lastLevelRef s"
  "isDying (spawnCollectible s) = isDying s"
  "invincibleUntil (spawnCollectible s) = invincibleUntil s"
  "timeScale (spawnCollectible s) = timeScale s"
  "activePowerUps (spawnCollectible s) = activePowerUps s"
  "obstacles (spawnCollectible s) = obstacles s"
  "powerUps (spawnCollectible s) = powerUps s"
  "particles (spawnCollectible s) = particles s"
  "nearMissedObstacles (spawnCollectible s) = nearMissedObstacles s"
  "playerPos (spawnCollectible s) = playerPos s"
  "socialEvents (spawnCollectible s) = socialEvents s"
  "audioCues (spawnCollectible s) = audioCues s"
  "pendingTimers (spawnCollectible s) = pendingTimers s"
  "nextTimerId (spawnCollectible s) = nextTimerId s"
  "deathTimeoutRef (spawnCollectible s) = deathTimeoutRef s"
  "gameOverReports (spawnCollectible s) = gameOverReports s"
  "isJumping (spawnCollectible s) = isJumping s"
  "shakeTime (spawnCollectible s) = shakeTime s"
  "keysPressed (spawnCollectible s) = keysPressed s"
  "playerVel (spawnCollectible s) = playerVel s"
  "rng (spawnCollectible s) = rng s"
  "lastXDir (spawnCollectible s) = lastXDir s"
  "dashTrails (spawnCollectible s) = dashTrails s"
  by (simp_all add: spawnCollectible_def split_def Let_def)

lemma spawnPowerUp_keeps [simp]:
  "scoreRef (spawnPowerUp s) = scoreRef s"
  "lastLevelRef (spawnPowerUp s) = lastLevelRef s"
  "isDying (spawnPowerUp s) = isDying s"
  "invincibleUntil (spawnPowerUp s) = invincibleUntil s"
  "timeScale (spawnPowerUp s) = timeScale s"
  "activePowerUps (spawnPowerUp s) = activePowerUps s"
  "obstacles (spawnPowerUp s) = obstacles s"
  "collectibles (spawnPowerUp s) = collectibles s"
  "particles (spawnPowerUp s) = particles s"
  "nearMissedObstacles (spawnPowerUp s) = nearMissedObstacles s"
  "playerPos (spawnPowerUp s) = playerPos s"
  "socialEvents (spawnPowerUp s) = socialEvents s"
  "audioCues (spawnPowerUp s) = audioCues s"
  "pendingTimers (spawnPowerUp s) = pendingTimers s"
  "nextTimerId (spawnPowerUp s) = nextTimerId s"
  "deathTimeoutRef (spawnPowerUp s) = deathTimeoutRef s"
  "gameOverReports (spawnPowerUp s) = gameOverReports s"
  "isJumping (spawnPowerUp s) = isJumping s"
  "shakeTime (spawnPowerUp s) = shakeTime s"
  "keysPressed (spawnPowerUp s) = keysPressed s"
  "playerVel (spawnPowerUp s) = playerVel s"
  "rng (spawnPowerUp s) = rng s"
  "lastXDir (spawnPowerUp s) = lastXDir s"
  "dashTrails (spawnPowerUp s) = dashTrails s"
  by (simp_all add: spawnPowerUp_def split_def Let_def)

lemma spawnShape_keeps [simp]:
  "scoreRef (snd (spawnShape ty s)) = scoreRef s"
  "lastLevelRef (snd (spawnShape ty s)) = lastLevelRef s"
  "isDying (snd (spawnShape ty s)) = isDying s"
  "invincibleUntil (snd (spawnShape ty s)) = invincibleUntil s"
  "timeScale (snd (spawnShape ty s)) = timeScale s"
  "activePowerUps (snd (spawnShape ty s)) = activePowerUps s"
  "obstacles (snd (spawnShape ty s)) = obstacles s"
  "collectibles (snd (spawnShape ty s)) = collectibles s"
  "powerUps (snd (spawnShape ty s)) = powerUps s"
  "particles (snd (spawnShape ty s)) = particles s"
  "nearMissedObstacles (snd (spawnShape ty s)) = nearMissedObstacles s"
  "playerPos (snd (spawnShape ty s)) = playerPos s"
  "socialEvents (snd (spawnShape ty s)) = socialEvents s"
  "pendingTimers (snd (spawnShape ty s)) = pendingTimers s"
  "nextTimerId (snd (spawnShape ty s)) = nextTimerId s"
  "deathTimeoutRef (snd (spawnShape ty s)) = deathTimeoutRef s"
  "gameOverReports (snd (spawnShape ty s)) = gameOverReports s"
  "isJumping (snd (spawnShape ty s)) = isJumping s"
  "shakeTime (snd (spawnShape ty s)) = shakeTime s"
  "keysPressed (snd (spawnShape ty s)) = keysPressed s"
  "playerVel (snd (spawnShape ty s)) = playerVel s"
  "rng (snd (spawnShape ty s)) = rng s"
  "lastXDir (snd (spawnShape ty s)) = lastXDir s"
  "dashTrails (snd (spawnShape ty s)) = dashTrails s"
  by (simp_all add: spawnShape_def split_def Let_def split: ObstacleType.splits)

lemma spawnObstacle_keeps [simp]:
  "scoreRef (spawnObstacle s) = scoreRef s"
  "lastLevelRef (spawnObstacle s) = lastLevelRef s"
  "isDying (spawnObstacle s) = isDying s"
  "invincibleUntil (spawnObstacle s) = invincibleUntil s"
  "timeScale (spawnObstacle s) = timeScale s"
  "activePowerUps (spawnObstacle s) = activePowerUps s"
  "particles (spawnObstacle s) = particles s"
  "nearMissedObstacles (spawnObstacle s) = nearMissedObstacles s"
  "playerPos (spawnObstacle s) = playerPos s"
  "socialEvents (spawnObstacle s) = socialEvents s"
  "pendingTimers (spawnObstacle s) = pendingTimers s"
  "nextTimerId (spawnObstacle s) = nextTimerId s"
  "deathTimeoutRef (spawnObstacle s) = deathTimeoutRef s"
  "gameOverReports (spawnObstacle s) = gameOverReports s"
  "isJumping (spawnObstacle s) = isJumping s"
  "shakeTime (spawnObstacle s) = shakeTime s"
  "keysPressed (spawnObstacle s) = keysPressed s"
  "playerVel (spawnObstacle s) = playerVel s"
  "rng (spawnObstacle s) = rng s"
  "lastXDir (spawnObstacle s) = lastXDir s"
  "dashTrails (spawnObstacle s) = dashTrails s"
  by (simp_all add: spawnObstacle_def split_def Let_def)

lemma spawnPhase_keeps [simp]:
  "scoreRef (spawnPhase s) = scoreRef s"
  "lastLevelRef (spawnPhase s) = lastLevelRef s"
  "isDying (spawnPhase s) = isDying s"
  "invincibleUntil (spawnPhase s) = invincibleUntil s"
  "timeScale (spawnPhase s) = timeScale s"
  "activePowerUps (spawnPhase s) = activePowerUps s"
  "particles (spawnPhase s) = particles s"
  "nearMissedObstacles (spawnPhase s) = nearMissedObstacles s"
  "playerPos (spawnPhase s) = playerPos s"
  "socialEvents (spawnPhase s) = socialEvents s"
  "pendingTimers (spawnPhase s) = pendingTimers s"
  "nextTimerId (spawnPhase s) = nextTimerId s"
  "deathTimeoutRef (spawnPhase s) = deathTimeoutRef s"
  "gameOverReports (spawnPhase s) = gameOverReports s"
  "isJumping (spawnPhase s) = isJumping s"
  "shakeTime (spawnPhase s) = shakeTime s"
  "keysPressed (spawnPhase s) = keysPressed s"
  "playerVel (spawnPhase s) = playerVel s"
  "rng (spawnPhase s) = rng s"
  "lastXDir (spawnPhase s) = lastXDir s"
  "dashTrails (spawnPhase s) = dashTrails s"
  by (simp_all add: spawnPhase_def)

lemma particlesPhase_keeps [simp]:
  "scoreRef (particlesPhase dt s) = scoreRef s"
  "lastLevelRef (particlesPhase dt s) = lastLevelRef s"
  "isDying (particlesPhase dt s) = isDying s"
  "invincibleUntil (particlesPhase dt s) = invincibleUntil s"
  "timeScale (particlesPhase dt s) = timeScale s"
  "activePowerUps (particlesPhase dt s) = activePowerUps s"
  "obstacles (particlesPhase dt s) = obstacles s"
  "collectibles (particlesPhase dt s) = collectibles s"
  "powerUps (particlesPhase dt s) = powerUps s"
  "nearMissedObstacles (particlesPhase dt s) = nearMissedObstacles s"
  "playerPos (particlesPhase dt s) = playerPos s"
  "socialEvents (particlesPhase dt s) = socialEvents s"
  "audioCues (particlesPhase dt s) = audioCues s"
  "pendingTimers (particlesPhase dt s) = pendingTimers s"
  "nextTimerId (particlesPhase dt s) = nextTimerId s"
  "deathTimeoutRef (particlesPhase dt s) = deathTimeoutRef s"
  "gameOverReports (particlesPhase dt s) = gameOverReports s"
  "isJumping (particlesPhase dt s) = isJumping s"
  "rngPos (particlesPhase dt s) = rngPos s"
  "shakeTime (particlesPhase dt s) = shakeTime s"
  "keysPressed (particlesPhase dt s) = keysPressed s"
  "playerVel (particlesPhase dt s) = playerVel s"
  "rng (particlesPhase dt s) = rng s"
  "lastXDir (particlesPhase dt s) = lastXDir s"
  "dashTrails (particlesPhase dt s) = dashTrails s"
  by (simp_all add: particlesPhase_def)

lemma pickupPowerUp_keeps [simp]:
  "scoreRef (snd (pickupPowerUp t pup s)) = scoreRef s"
  "lastLevelRef (snd (pickupPowerUp t pup s)) = lastLevelRef s"
  "isDying (snd (pickupPowerUp t pup s)) = isDying s"
  "invincibleUntil (snd (pickupPowerUp t pup s)) = invincibleUntil s"
  "timeScale (snd (pickupPowerUp t pup s)) = timeScale s"
  "obstacles (snd (pickupPowerUp t pup s)) = obstacles s"
  "collectibles (snd (pickupPowerUp t pup s)) = collectibles s"
  "powerUps (snd (pickupPowerUp t pup s)) = powerUps s"
  "nearMissedObstacles (snd (pickupPowerUp t pup s)) = nearMissedObstacles s"
  "playerPos (snd (pickupPowerUp t pup s)) = playerPos s"
  "pendingTimers (snd (pickupPowerUp t pup s)) = pendingTimers s"
  "nextTimerId (snd (pickupPowerUp t pup s)) = nextTimerId s"
  "deathTimeoutRef (snd (pickupPowerUp t pup s)) = deathTimeoutRef s"
  "gameOverReports (snd (pickupPowerUp t pup s)) = gameOverReports s"
  "isJumping (snd (pickupPowerUp t pup s)) = isJumping s"
  "shakeTime (snd (pickupPowerUp t pup s)) = shakeTime s"
  "keysPressed (snd (pickupPowerUp t pup s)) = keysPressed s"
  "playerVel (snd (pickupPowerUp t pup s)) = playerVel s"
  "rng (snd (pickupPowerUp t pup s)) = rng s"
  "lastXDir (snd (pickupPowerUp t pup s)) = lastXDir s"
  "dashTrails (snd (pickupPowerUp t pup s)) = dashTrails s"
  by (simp_all add: pickupPowerUp_def Let_def)

lemma powerUpLoop_keeps [simp]:
  "scoreRef (snd (forEach (pickupPowerUp t) pups s)) = scoreRef s"
  "lastLevelRef (snd (forEach (pickupPowerUp t) pups s)) = lastLevelRef s"
  "isDying (snd (forEach (pickupPowerUp t) pups s)) = isDying s"
  "invincibleUntil (snd (forEach (pickupPowerUp t) pups s)) = invincibleUntil s"
  "timeScale (snd (forEach (pickupPowerUp t) pups s)) = timeScale s"
  "obstacles (snd (forEach (pickupPowerUp t) pups s)) = obstacles s"
  "collectibles (snd (forEach (pickupPowerUp t) pups s)) = collectibles s"
  "powerUps (snd (forEach (pickupPowerUp t) pups s)) = powerUps s"
  "nearMissedObstacles (snd (forEach (pickupPowerUp t) pups s)) = nearMissedObstacles s"
  "playerPos (snd (forEach (pickupPowerUp t) pups s)) = playerPos s"
  "pendingTimers (snd (forEach (pickupPowerUp t) pups s)) = pendingTimers s"
  "nextTimerId (snd (forEach (pickupPowerUp t) pups s)) = nextTimerId s"
  "deathTimeoutRef (snd (forEach (pickupPowerUp t) pups s)) = deathTimeoutRef s"
  "gameOverReports (snd (forEach (pickupPowerUp t) pups s)) = gameOverReports s"
  "isJumping (snd (forEach (pickupPowerUp t) pups s)) = isJumping s"
  "shakeTime (snd (forEach (pickupPowerUp t) pups s)) = shakeTime s"
  "keysPressed (snd (forEach (pickupPowerUp t) pups s)) = keysPressed s"
  "playerVel (snd (forEach (pickupPowerUp t) pups s)) = playerVel s"
  "rng (snd (forEach (pickupPowerUp t) pups s)) = rng s"
  "lastXDir (snd (forEach (pickupPowerUp t) pups s)) = lastXDir s"
  "dashTrails (snd (forEach (pickupPowerUp t) pups s)) = dashTrails s"
  apply (rule forEach_keeps [where F = scoreRef], simp add: pickupPowerUp_keeps)
  apply (rule forEach_keeps [where F = lastLevelRef], simp add: pickupPowerUp_keeps)
  apply (rule forEach_keeps [where F = isDying], simp add: pickupPowerUp_keeps)
  apply (rule forEach_keeps [where F = invincibleUntil], simp add: pickupPowerUp_keeps)
  apply (rule forEach_keeps [where F = timeScale], simp add: pickupPowerUp_keeps)
  apply (rule forEach_keeps [where F = obstacles], simp add: pickupPowerUp_keeps)
  apply (rule forEach_keeps [where F = collectibles], simp add: pickupPowerUp_keeps)
  apply (rule forEach_keeps [where F = powerUps], simp add: pickupPowerUp_keeps)
  apply (rule forEach_keeps [where F = nearMissedObstacles], simp add: pickupPowerUp_keeps)
  apply (rule forEach_keeps [where F = playerPos], simp add: pickupPowerUp_keeps)
  apply (rule forEach_keeps [where F = pendingTimers], simp add: pickupPowerUp_keeps)
  apply (rule forEach_keeps [where F = nextTimerId], simp add: pickupPowerUp_keeps)
  apply (rule forEach_keeps [where F = deathTimeoutRef], simp add: pickupPowerUp_keeps)
  apply (rule forEach_keeps [where F = gameOverReports], simp add: pickupPowerUp_keeps)
  apply (rule forEach_keeps [where F = isJumping], simp add: pickupPowerUp_keeps)
  apply (rule forEach_keeps [where F = shakeTime], simp add: pickupPowerUp_keeps)
  apply (rule forEach_keeps [where F = keysPressed], simp add: pickupPowerUp_keeps)
  apply (rule forEach_keeps [where F = playerVel], simp add: pickupPowerUp_keeps)
  apply (rule forEach_keeps [where F = rng], simp add: pickupPowerUp_keeps)
  apply (rule forEach_keeps [where F = lastXDir], simp add: pickupPowerUp_keeps)
  by (rule forEach_keeps [where F = dashTrails], simp add: pickupPowerUp_keeps)

lemma pickupCollectible_keeps [simp]:
  "lastLevelRef (snd (pickupCollectible m col s)) = lastLevelRef s"
  "isDying (snd (pickupCollectible m col s)) = isDying s"
  "invincibleUntil (snd (pickupCollectible m col s)) = invincibleUntil s"
  "timeScale (snd (pickupCollectible m col s)) = timeScale s"
  "activePowerUps (snd (pickupCollectible m col s)) = activePowerUps s"
  "obstacles (snd (pickupCollectible m col s)) = obstacles s"
  "collectibles (snd (pickupCollectible m col s)) = collectibles s"
  "powerUps (snd (pickupCollectible m col s)) = powerUps s"
  "nearMissedObstacles (snd (pickupCollectible m col s)) = nearMissedObstacles s"
  "playerPos (snd (pickupCollectible m col s)) = playerPos s"
  "pendingTimers (snd (pickupCollectible m col s)) = pendingTimers s"
  "nextTimerId (snd (pickupCollectible m col s)) = nextTimerId s"
  "deathTimeoutRef (snd (pickupCollectible m col s)) = deathTimeoutRef s"
  "gameOverReports (snd (pickupCollectible m col s)) = gameOverReports s"
  "isJumping (snd (pickupCollectible m col s)) = isJumping s"
  "shakeTime (snd (pickupCollectible m col s)) = shakeTime s"
  "keysPressed (snd (pickupCollectible m col s)) = keysPressed s"
  "playerVel (snd (pickupCollectible m col s)) = playerVel s"
  "rng (snd (pickupCollectible m col s)) = rng s"
  "lastXDir (snd (pickupCollectible m col s)) = lastXDir s"
  "dashTrails (snd (pickupCollectible m col s)) = dashTrails s"
  by (simp_all add: pickupCollectible_def Let_def)

lemma collectibleLoop_keeps [simp]:
  "lastLevelRef (snd (forEach (pickupCollectible m) cols s)) = lastLevelRef s"
  "isDying (snd (forEach (pickupCollectible m) cols s)) = isDying s"
  "invincibleUntil (snd (forEach (pickupCollectible m) cols s)) = invincibleUntil s"
  "timeScale (snd (forEach (pickupCollectible m) cols s)) = timeScale s"
  "activePowerUps (snd (forEach (pickupCollectible m) cols s)) = activePowerUps s"
  "obstacles (snd (forEach (pickupCollectible m) cols s)) = obstacles s"
  "collectibles (snd (forEach (pickupCollectible m) cols s)) = collectibles s"
  "powerUps (snd (forEach (pickupCollectible m) cols s)) = powerUps s"
  "nearMissedObstacles (snd (forEach (pickupCollectible m) cols s)) = nearMissedObstacles s"
  "playerPos (snd (forEach (pickupCollectible m) cols s)) = playerPos s"
  "pendingTimers (snd (forEach (pickupCollectible m) cols s)) = pendingTimers s"
  "nextTimerId (snd (forEach (pickupCollectible m) cols s)) = nextTimerId s"
  "deathTimeoutRef (snd (forEach (pickupCollectible m) cols s)) = deathTimeoutRef s"
  "gameOverReports (snd (forEach (pickupCollectible m) cols s)) = gameOverReports s"
  "isJumping (snd (forEach (pickupCollectible m) cols s)) = isJumping s"
  "shakeTime (snd (forEach (pickupCollectible m) cols s)) = shakeTime s"
  "keysPressed (snd (forEach (pickupCollectible m) cols s)) = keysPressed s"
  "playerVel (snd (forEach (pickupCollectible m) cols s)) = playerVel s"
  "rng (snd (forEach (pickupCollectible m) cols s)) = rng s"
  "lastXDir (snd (forEach (pickupCollectible m) cols s)) = lastXDir s"
  "dashTrails (snd (forEach (pickupCollectible m) cols s)) = dashTrails s"
  apply (rule forEach_keeps [where F = lastLevelRef], simp add: pickupCollectible_keeps)
  apply (rule forEach_keeps [where F = isDying], simp add: pickupCollectible_keeps)
  apply (rule forEach_keeps [where F = invincibleUntil], simp add: pickupCollectible_keeps)
  apply (rule forEach_keeps [where F = timeScale], simp add: pickupCollectible_keeps)
  apply (rule forEach_keeps [where F = activePowerUps], simp add: pickupCollectible_keeps)
  apply (rule forEach_keeps [where F = obstacles], simp add: pickupCollectible_keeps)
  apply (rule forEach_keeps [where F = collectibles], simp add: pickupCollectible_keeps)
  apply (rule forEach_keeps [where F = powerUps], simp add: pickupCollectible_keeps)
  apply (rule forEach_keeps [where F = nearMissedObstacles], simp add: pickupCollectible_keeps)
  apply (rule forEach_keeps [where F = playerPos], simp add: pickupCollectible_keeps)
  apply (rule forEach_keeps [where F = pendingTimers], simp add: pickupCollectible_keeps)
  apply (rule forEach_keeps [where F = nextTimerId], simp add: pickupCollectible_keeps)
  apply (rule forEach_keeps [where F = deathTimeoutRef], simp add: pickupCollectible_keeps)
  apply (rule forEach_keeps [where F = gameOverReports], simp add: pickupCollectible_keeps)
  apply (rule forEach_keeps [where F = isJumping], simp add: pickupCollectible_keeps)
  apply (rule forEach_keeps [where F = shakeTime], simp add: pickupCollectible_keeps)
  apply (rule forEach_keeps [where F = keysPressed], simp add: pickupCollectible_keeps)
  apply (rule forEach_keeps [where F = playerVel], simp add: pickupCollectible_keeps)
  apply (rule forEach_keeps [where F = rng], simp add: pickupCollectible_keeps)
  apply (rule forEach_keeps [where F = lastXDir], simp add: pickupCollectible_keeps)
  by (rule forEach_keeps [where F = dashTrails], simp add: pickupCollectible_keeps)

lemma pickupLoops_keeps [simp]:
  "lastLevelRef (pickupLoops t m s) = lastLevelRef s"
  "isDying (pickupLoops t m s) = isDying s"
  "invincibleUntil (pickupLoops t m s) = invincibleUntil s"
  "timeScale (pickupLoops t m s) = timeScale s"
  "obstacles (pickupLoops t m s) = obstacles s"
  "nearMissedObstacles (pickupLoops t m s) = nearMissedObstacles s"
  "playerPos (pickupLoops t m s) = playerPos s"
  "pendingTimers (pickupLoops t m s) = pendingTimers s"
  "nextTimerId (pickupLoops t m s) = nextTimerId s"
  "deathTimeoutRef (pickupLoops t m s) = deathTimeoutRef s"
  "gameOverReports (pickupLoops t m s) = gameOverReports s"
  "isJumping (pickupLoops t m s) = isJumping s"
  "shakeTime (pickupLoops t m s) = shakeTime s"
  "keysPressed (pickupLoops t m s) = keysPressed s"
  "playerVel (pickupLoops t m s) = playerVel s"
  "rng (pickupLoops t m s) = rng s"
  "lastXDir (pickupLoops t m s) = lastXDir s"
  "dashTrails (pickupLoops t m s) = dashTrails s"
  by (simp_all add: pickupLoops_def split_def Let_def)

lemma hazardStep_keeps [simp]:
  "scoreRef (snd (hazardStep env t obs s)) = scoreRef s"
  "lastLevelRef (snd (hazardStep env t obs s)) = lastLevelRef s"
  "obstacles (snd (hazardStep env t obs s)) = obstacles s"
  "collectibles (snd (hazardStep env t obs s)) = collectibles s"
  "powerUps (snd (hazardStep env t obs s)) = powerUps s"
  "nearMissedObstacles (snd (hazardStep env t obs s)) = nearMissedObstacles s"
  "playerPos (snd (hazardStep env t obs s)) = playerPos s"
  "socialEvents (snd (hazardStep env t obs s)) = socialEvents s"
  "gameOverReports (snd (hazardStep env t obs s)) = gameOverReports s"
  "isJumping (snd (hazardStep env t obs s)) = isJumping s"
  "keysPressed (snd (hazardStep env t obs s)) = keysPressed s"
  "playerVel (snd (hazardStep env t obs s)) = playerVel s"
  "rng (snd (hazardStep env t obs s)) = rng s"
  "lastXDir (snd (hazardStep env t obs s)) = lastXDir s"
  "dashTrails (snd (hazardStep env t obs s)) = dashTrails s"
  by (simp_all add: hazardStep_def Let_def)

lemma hazardSteps_keeps [simp]:
  "scoreRef (snd (forEach (hazardStep env t) os s)) = scoreRef s"
  "lastLevelRef (snd (forEach (hazardStep env t) os s)) = lastLevelRef s"
  "obstacles (snd (forEach (hazardStep env t) os s)) = obstacles s"
  "collectibles (snd (forEach (hazardStep env t) os s)) = collectibles s"
  "powerUps (snd (forEach (hazardStep env t) os s)) = powerUps s"
  "nearMissedObstacles (snd (forEach (hazardStep env t) os s)) = nearMissedObstacles s"
  "playerPos (snd (forEach (hazardStep env t) os s)) = playerPos s"
  "socialEvents (snd (forEach (hazardStep env t) os s)) = socialEvents s"
  "gameOverReports (snd (forEach (hazardStep env t) os s)) = gameOverReports s"
  "isJumping (snd (forEach (hazardStep env t) os s)) = isJumping s"
  "keysPressed (snd (forEach (hazardStep env t) os s)) = keysPressed s"
  "playerVel (snd (forEach (hazardStep env t) os s)) = playerVel s"
  "rng (snd (forEach (hazardStep env t) os s)) = rng s"
  "lastXDir (snd (forEach (hazardStep env t) os s)) = lastXDir s"
  "dashTrails (snd (forEach (hazardStep env t) os s)) = dashTrails s"
  apply (rule forEach_keeps [where F = scoreRef], simp add: hazardStep_keeps)
  apply (rule forEach_keeps [where F = lastLevelRef], simp add: hazardStep_keeps)
  apply (rule forEach_keeps [where F = obstacles], simp add: hazardStep_keeps)
  apply (rule forEach_keeps [where F = collectibles], simp add: hazardStep_keeps)
  apply (rule forEach_keeps [where F = powerUps], simp add: hazardStep_keeps)
  apply (rule forEach_keeps [where F = nearMissedObstacles], simp add: hazardStep_keeps)
  apply (rule forEach_keeps [where F = playerPos], simp add: hazardStep_keeps)
  apply (rule forEach_keeps [where F = socialEvents], simp add: hazardStep_keeps)
  apply (rule forEach_keeps [where F = gameOverReports], simp add: hazardStep_keeps)
  apply (rule forEach_keeps [where F = isJumping], simp add: hazardStep_keeps)
  apply (rule forEach_keeps [where F = keysPressed], simp add: hazardStep_keeps)
  apply (rule forEach_keeps [where F = playerVel], simp add: hazardStep_keeps)
  apply (rule forEach_keeps [where F = rng], simp add: hazardStep_keeps)
  apply (rule forEach_keeps [where F = lastXDir], simp add: hazardStep_keeps)
  by (rule forEach_keeps [where F = dashTrails], simp add: hazardStep_keeps)

lemma hazardLoop_keeps [simp]:
  "scoreRef (hazardLoop env t s) = scoreRef s"
  "lastLevelRef (hazardLoop env t s) = lastLevelRef s"
  "collectibles (hazardLoop env t s) = collectibles s"
  "powerUps (hazardLoop env t s) = powerUps s"
  "nearMissedObstacles (hazardLoop env t s) = nearMissedObstacles s"
  "playerPos (hazardLoop env t s) = playerPos s"
  "socialEvents (hazardLoop env t s) = socialEvents s"
  "gameOverReports (hazardLoop env t s) = gameOverReports s"
  "isJumping (hazardLoop env t s) = isJumping s"
  "keysPressed (hazardLoop env t s) = keysPressed s"
  "playerVel (hazardLoop env t s) = playerVel s"
  "rng (hazardLoop env t s) = rng s"
  "lastXDir (hazardLoop env t s) = lastXDir s"
  "dashTrails (hazardLoop env t s) = dashTrails s"
  by (simp_all add: hazardLoop_def split_def Let_def)

lemma collisionPhase_keeps [simp]:
  "lastLevelRef (collisionPhase env t m s) = lastLevelRef s"
  "nearMissedObstacles (collisionPhase env t m s) = nearMissedObstacles s"
  "playerPos (collisionPhase env t m s) = playerPos s"
  "gameOverReports (collisionPhase env t m s) = gameOverReports s"
  "isJumping (collisionPhase env t m s) = isJumping s"
  "keysPressed (collisionPhase env t m s) = keysPressed s"
  "playerVel (collisionPhase env t m s) = playerVel s"
  "rng (collisionPhase env t m s) = rng s"
  "lastXDir (collisionPhase env t m s) = lastXDir s"
  "dashTrails (collisionPhase env t m s) = dashTrails s"
  by (simp_all add: collisionPhase_def Let_def)


subsection \<open>Evaluating the scenes\<close>

lemma has_simps [simp]:
  "has [] t = False"
  "has ((t', e) # m) t = (t = t' \<or> has m t)"
  by (auto simp: has_def)

lemma initialGame_sel [simp]:
  "playerPos (initialGame r) = \<lparr>vec_x = 100, vec_y = 290\<rparr>"
  "playerVel (initialGame r) = \<lparr>vec_x = 0, vec_y = 0\<rparr>"
  "isJumping (initialGame r) = False"
  "scoreRef (initialGame r) = 0"
  "lastLevelRef (initialGame r) = 1"
  "isDying (initialGame r) = False"
  "invincibleUntil (initialGame r) = 0"
  "timeScale (initialGame r) = 1"
  "activePowerUps (initialGame r) = []"
  "obstacles (initialGame r) = []"
  "collectibles (initialGame r) = []"
  "powerUps (initialGame r) = []"
  "particles (initialGame r) = []"
  "nearMissedObstacles (initialGame r) = {}"
  "shakeTime (initialGame r) = 0"
  "deathTimeoutRef (initialGame r) = None"
  "rng (initialGame r) = r"
  "rngPos (initialGame r) = 0"
  "pendingTimers (initialGame r) = []"
  "nextTimerId (initialGame r) = 0"
  "socialEvents (initialGame r) = []"
  "audioCues (initialGame r) = []"
  "gameOverReports (initialGame r) = []"
  "keysPressed (initialGame r) = (\<lambda>code. False)"
  "dashTrails (initialGame r) = []"
  by (simp_all add: initialGame_def consts_defs)

lemma hit_groundSpike:
  "hit \<lparr>vec_x = px, vec_y = py\<rparr> (groundSpike i x) \<longleftrightarrow>
     px + 5 < x + 25 \<and> px + 25 > x + 5 \<and> py + 5 < 315 \<and> py + 25 > 295"
  by (simp add: hit_def isLaser_def groundSpike_def consts_defs)


lemma hit_cruise:
  "hit \<lparr>vec_x = px, vec_y = py\<rparr> (cruise i x y speed) \<longleftrightarrow>
     px + 5 < x + 35 \<and> px + 25 > x + 5 \<and> py + 5 < y + 15 \<and> py + 25 > y + 5"
  by (simp add: hit_def isLaser_def cruise_def consts_defs)

lemma shieldScene_sel [simp]:
  "playerPos shieldScene = \<lparr>vec_x = 100, vec_y = 290\<rparr>"
  "playerVel shieldScene = \<lparr>vec_x = 0, vec_y = 0\<rparr>"
  "isJumping shieldScene = False"
  "scoreRef shieldScene = 0"
  "lastLevelRef shieldScene = 1"
  "isDying shieldScene = False"
  "invincibleUntil shieldScene = 0"
  "timeScale shieldScene = 1"
  "activePowerUps shieldScene = [(SHIELD, 8000)]"
  "obstacles shieldScene = [groundSpike ''a'' 106, cruise ''b'' 130 290 8]"
  "collectibles shieldScene = []"
  "powerUps shieldScene = []"
  "particles shieldScene = []"
  "nearMissedObstacles shieldScene = {}"
  "shakeTime shieldScene = 0"
  "deathTimeoutRef shieldScene = None"
  "rng shieldScene = zeroStream"
  "pendingTimers shieldScene = []"
  "nextTimerId shieldScene = 0"
  "socialEvents shieldScene = []"
  "audioCues shieldScene = []"
  "gameOverReports shieldScene = []"
  "keysPressed shieldScene = (\<lambda>code. False)"
  "dashTrails shieldScene = []"
  by (simp_all add: shieldScene_def)

lemma leapScene_sel [simp]:
  "playerPos leapScene = \<lparr>vec_x = 100, vec_y = 250\<rparr>"
  "playerVel leapScene = \<lparr>vec_x = 0, vec_y = 0\<rparr>"
  "isJumping leapScene = True"
  "scoreRef leapScene = 950"
  "lastLevelRef leapScene = 1"
  "isDying leapScene = False"
  "invincibleUntil leapScene = 0"
  "timeScale leapScene = 1"
  "activePowerUps leapScene = []"
  "obstacles leapScene = [groundSpike ''a'' 107, cruise ''b'' 120 290 8]"
  "collectibles leapScene = [coin ''c'' 115 265]"
  "powerUps leapScene = []"
  "particles leapScene = []"
  "nearMissedObstacles leapScene = {}"
  "shakeTime leapScene = 0"
  "deathTimeoutRef leapScene = None"
  "rng leapScene = zeroStream"
  "pendingTimers leapScene = []"
  "nextTimerId leapScene = 0"
  "socialEvents leapScene = []"
  "audioCues leapScene = []"
  "gameOverReports leapScene = []"
  "keysPressed leapScene = (\<lambda>code. False)"
  "dashTrails leapScene = []"
  by (simp_all add: leapScene_def)

lemma crashScene_sel [simp]:
  "playerPos crashScene = \<lparr>vec_x = 100, vec_y = 290\<rparr>"
  "playerVel crashScene = \<lparr>vec_x = 0, vec_y = 0\<rparr>"
  "isJumping crashScene = False"
  "scoreRef crashScene = 0"
  "lastLevelRef crashScene = 1"
  "isDying crashScene = False"
  "invincibleUntil crashScene = 0"
  "timeScale crashScene = 1"
  "activePowerUps crashScene = []"
  "obstacles crashScene = [groundSpike ''a'' 106, cruise ''b'' 130 290 8]"
  "collectibles crashScene = []"
  "powerUps crashScene = []"
  "particles crashScene = []"
  "nearMissedObstacles crashScene = {}"
  "shakeTime crashScene = 0"
  "deathTimeoutRef crashScene = None"
  "rng crashScene = zeroStream"
  "pendingTimers crashScene = []"
  "nextTimerId crashScene = 0"
  "socialEvents crashScene = []"
  "audioCues crashScene = []"
  "gameOverReports crashScene = []"
  "keysPressed crashScene = (\<lambda>code. False)"
  "dashTrails crashScene = []"
  by (simp_all add: crashScene_def)

lemma bonusScene_sel [simp]:
  "playerPos bonusScene = \<lparr>vec_x = 100, vec_y = 250\<rparr>"
  "playerVel bonusScene = \<lparr>vec_x = 0, vec_y = 0\<rparr>"
  "isJumping bonusScene = True"
  "scoreRef bonusScene = 950"
  "lastLevelRef bonusScene = 1"
  "isDying bonusScene = False"
  "invincibleUntil bonusScene = 0"
  "timeScale bonusScene = 1"
  "activePowerUps bonusScene = [(MULTIPLIER, 8000)]"
  "obstacles bonusScene = [groundSpike ''a'' 107, cruise ''b'' 120 290 8]"
  "collectibles bonusScene = [coin ''c'' 115 265]"
  "powerUps bonusScene = []"
  "particles bonusScene = []"
  "nearMissedObstacles bonusScene = {}"
  "shakeTime bonusScene = 0"
  "deathTimeoutRef bonusScene = None"
  "rng bonusScene = zeroStream"
  "pendingTimers bonusScene = []"
  "nextTimerId bonusScene = 0"
  "socialEvents bonusScene = []"
  "audioCues bonusScene = []"
  "gameOverReports bonusScene = []"
  "keysPressed bonusScene = (\<lambda>code. False)"
  "dashTrails bonusScene = []"
  by (simp_all add: bonusScene_def leapScene_def)


subsection \<open>The stages of a tick\<close>

lemma tickMult_eq [simp]: "tickMult s = has (activePowerUps s) MULTIPLIER"
  by (simp add: tickMult_def)

lemma beforeScore_keeps [simp]:
  "scoreRef (beforeScore env inp s) = scoreRef s"
  "lastLevelRef (beforeScore env inp s) = lastLevelRef s"
  "isDying (beforeScore env inp s) = isDying s"
  "invincibleUntil (beforeScore env inp s) = invincibleUntil s"
  "timeScale (beforeScore env inp s) = timeScale s"
  "obstacles (beforeScore env inp s) = obstacles s"
  "collectibles (beforeScore env inp s) = collectibles s"
  "powerUps (beforeScore env inp s) = powerUps s"
  "nearMissedObstacles (beforeScore env inp s) = nearMissedObstacles s"
  "socialEvents (beforeScore env inp s) = socialEvents s"
  "pendingTimers (beforeScore env inp s) = pendingTimers s"
  "nextTimerId (beforeScore env inp s) = nextTimerId s"
  "deathTimeoutRef (beforeScore env inp s) = deathTimeoutRef s"
  "gameOverReports (beforeScore env inp s) = gameOverReports s"
  "keysPressed (beforeScore env inp s) = keysPressed s"
  "rng (beforeScore env inp s) = rng s"
  by (simp_all add: beforeScore_def Let_def)

lemma tickSpeed_eq [simp]: "tickSpeed env inp s = (6 + scoreRef s / 1200) * timeScale s"
  by (simp add: tickSpeed_def)

lemma afterObstacles_keeps [simp]:
  "isDying (afterObstacles env inp s) = isDying s"
  "timeScale (afterObstacles env inp s) = timeScale s"
  "collectibles (afterObstacles env inp s) = collectibles s"
  "powerUps (afterObstacles env inp s) = powerUps s"
  "pendingTimers (afterObstacles env inp s) = pendingTimers s"
  "nextTimerId (afterObstacles env inp s) = nextTimerId s"
  "deathTimeoutRef (afterObstacles env inp s) = deathTimeoutRef s"
  "gameOverReports (afterObstacles env inp s) = gameOverReports s"
  "keysPressed (afterObstacles env inp s) = keysPressed s"
  "rng (afterObstacles env inp s) = rng s"
  by (simp_all add: afterObstacles_def)

lemma afterObstacles_player [simp]:
  "playerPos (afterObstacles env inp s) = playerPos (beforeScore env inp s)"
  "playerVel (afterObstacles env inp s) = playerVel (beforeScore env inp s)"
  "isJumping (afterObstacles env inp s) = isJumping (beforeScore env inp s)"
  "activePowerUps (afterObstacles env inp s) = activePowerUps (beforeScore env inp s)"
  by (simp_all add: afterObstacles_def)

lemma beforeSpawn_same [simp]:
  "scoreRef (beforeSpawn env inp s) = scoreRef (afterObstacles env inp s)"
  "lastLevelRef (beforeSpawn env inp s) = lastLevelRef (afterObstacles env inp s)"
  "isDying (beforeSpawn env inp s) = isDying (afterObstacles env inp s)"
  "invincibleUntil (beforeSpawn env inp s) = invincibleUntil (afterObstacles env inp s)"
  "timeScale (beforeSpawn env inp s) = timeScale (afterObstacles env inp s)"
  "activePowerUps (beforeSpawn env inp s) = activePowerUps (afterObstacles env inp s)"
  "particles (beforeSpawn env inp s) = particles (afterObstacles env inp s)"
  "nearMissedObstacles (beforeSpawn env inp s) = nearMissedObstacles (afterObstacles env inp s)"
  "playerPos (beforeSpawn env inp s) = playerPos (afterObstacles env inp s)"
  "socialEvents (beforeSpawn env inp s) = socialEvents (afterObstacles env inp s)"
  "audioCues (beforeSpawn env inp s) = audioCues (afterObstacles env inp s)"
  "pendingTimers (beforeSpawn env inp s) = pendingTimers (afterObstacles env inp s)"
  "nextTimerId (beforeSpawn env inp s) = nextTimerId (afterObstacles env inp s)"
  "deathTimeoutRef (beforeSpawn env inp s) = deathTimeoutRef (afterObstacles env inp s)"
  "gameOverReports (beforeSpawn env inp s) = gameOverReports (afterObstacles env inp s)"
  "isJumping (beforeSpawn env inp s) = isJumping (afterObstacles env inp s)"
  "rngPos (beforeSpawn env inp s) = rngPos (afterObstacles env inp s)"
  "shakeTime (beforeSpawn env inp s) = shakeTime (afterObstacles env inp s)"
  "keysPressed (beforeSpawn env inp s) = keysPressed (afterObstacles env inp s)"
  "playerVel (beforeSpawn env inp s) = playerVel (afterObstacles env inp s)"
  "rng (beforeSpawn env inp s) = rng (afterObstacles env inp s)"
  "lastXDir (beforeSpawn env inp s) = lastXDir (afterObstacles env inp s)"
  "dashTrails (beforeSpawn env inp s) = dashTrails (afterObstacles env inp s)"
  by (simp_all add: beforeSpawn_def)

lemma beforeCollision_same [simp]:
  "scoreRef (beforeCollision env inp s) = scoreRef (beforeSpawn env inp s)"
  "lastLevelRef (beforeCollision env inp s) = lastLevelRef (beforeSpawn env inp s)"
  "isDying (beforeCollision env inp s) = isDying (beforeSpawn env inp s)"
  "invincibleUntil (beforeCollision env inp s) = invincibleUntil (beforeSpawn env inp s)"
  "timeScale (beforeCollision env inp s) = timeScale (beforeSpawn env inp s)"
  "activePowerUps (beforeCollision env inp s) = activePowerUps (beforeSpawn env inp s)"
  "nearMissedObstacles (beforeCollision env inp s) = nearMissedObstacles (beforeSpawn env inp s)"
  "playerPos (beforeCollision env inp s) = playerPos (beforeSpawn env inp s)"
  "socialEvents (beforeCollision env inp s) = socialEvents (beforeSpawn env inp s)"
  "pendingTimers (beforeCollision env inp s) = pendingTimers (beforeSpawn env inp s)"
  "nextTimerId (beforeCollision env inp s) = nextTimerId (beforeSpawn env inp s)"
  "deathTimeoutRef (beforeCollision env inp s) = deathTimeoutRef (beforeSpawn env inp s)"
  "gameOverReports (beforeCollision env inp s) = gameOverReports (beforeSpawn env inp s)"
  "isJumping (beforeCollision env inp s) = isJumping (beforeSpawn env inp s)"
  "shakeTime (beforeCollision env inp s) = shakeTime (beforeSpawn env inp s)"
  "keysPressed (beforeCollision env inp s) = keysPressed (beforeSpawn env inp s)"
  "playerVel (beforeCollision env inp s) = playerVel (beforeSpawn env inp s)"
  "rng (beforeCollision env inp s) = rng (beforeSpawn env inp s)"
  "lastXDir (beforeCollision env inp s) = lastXDir (beforeSpawn env inp s)"
  "dashTrails (beforeCollision env inp s) = dashTrails (beforeSpawn env inp s)"
  by (simp_all add: beforeCollision_def)

text \<open>The tick as its last stage followed by the collision phase and line 471.\<close>

lemma update_stages:
  "update PLAYING env inp s =
     (collisionPhase env (now inp) (has (activePowerUps s) MULTIPLIER) (beforeCollision env inp s))
       \<lparr>backgroundOffset :=
          backgroundOffset
            (collisionPhase env (now inp) (has (activePowerUps s) MULTIPLIER) (beforeCollision env inp s))
          - (6 + scoreRef s / 1200) * timeScale s * 0.5\<rparr>"
  by (simp add: update_def Let_def beforeCollision_def beforeSpawn_def afterObstacles_def
      beforeScore_def tickSpeed_def tickMult_def)

lemma collisionPhase_hazards:
  assumes "\<not> isDying s" and "\<not> now inp < invincibleUntil (beforeHazards env inp s)"
  shows "collisionPhase env (now inp) (has (activePowerUps s) MULTIPLIER) (beforeCollision env inp s) =
         hazardLoop env (now inp) (beforeHazards env inp s)"
  using assms by (simp add: collisionPhase_def Let_def beforeHazards_def)

lemma collisionPhase_skipped:
  assumes "\<not> isDying s" and "now inp < invincibleUntil (beforeHazards env inp s)"
  shows "collisionPhase env (now inp) (has (activePowerUps s) MULTIPLIER) (beforeCollision env inp s) =
         beforeHazards env inp s"
  using assms by (simp add: collisionPhase_def Let_def beforeHazards_def)

lemma update_PLAYING:
  "update PLAYING env inp s =
     (let dt = timeScale s; t = now inp; m = has (activePowerUps s) MULTIPLIER;
          g = (6 + scoreRef s / 1200) * dt;
          s5 = physicsPhase dt (dashPhase (inputPhase env inp dt (registryPhase t m (shakePhase dt s))));
          s11 = collisionPhase env t m
                  (particlesPhase dt (spawnPhase (scrollPhase g
                     (obstaclesPhase env t dt g (scorePhase t g m s5)))))
      in s11\<lparr>backgroundOffset := backgroundOffset s11 - g * 0.5\<rparr>)"
  by (simp add: update_def Let_def)

lemma beforeHazards_same [simp]:
  "lastLevelRef (beforeHazards env inp s) = lastLevelRef (beforeCollision env inp s)"
  "isDying (beforeHazards env inp s) = isDying (beforeCollision env inp s)"
  "invincibleUntil (beforeHazards env inp s) = invincibleUntil (beforeCollision env inp s)"
  "timeScale (beforeHazards env inp s) = timeScale (beforeCollision env inp s)"
  "obstacles (beforeHazards env inp s) = obstacles (beforeCollision env inp s)"
  "nearMissedObstacles (beforeHazards env inp s) = nearMissedObstacles (beforeCollision env inp s)"
  "playerPos (beforeHazards env inp s) = playerPos (beforeCollision env inp s)"
  "pendingTimers (beforeHazards env inp s) = pendingTimers (beforeCollision env inp s)"
  "nextTimerId (beforeHazards env inp s) = nextTimerId (beforeCollision env inp s)"
  "deathTimeoutRef (beforeHazards env inp s) = deathTimeoutRef (beforeCollision env inp s)"
  "gameOverReports (beforeHazards env inp s) = gameOverReports (beforeCollision env inp s)"
  "isJumping (beforeHazards env inp s) = isJumping (beforeCollision env inp s)"
  "shakeTime (beforeHazards env inp s) = shakeTime (beforeCollision env inp s)"
  "keysPressed (beforeHazards env inp s) = keysPressed (beforeCollision env inp s)"
  "playerVel (beforeHazards env inp s) = playerVel (beforeCollision env inp s)"
  "rng (beforeHazards env inp s) = rng (beforeCollision env inp s)"
  "lastXDir (beforeHazards env inp s) = lastXDir (beforeCollision env inp s)"
  "dashTrails (beforeHazards env inp s) = dashTrails (beforeCollision env inp s)"
  by (simp_all add: beforeHazards_def)


subsection \<open>The death sequence\<close>

lemma triggerDeathSequence_dying: "isDying s \<Longrightarrow> triggerDeathSequence env ix iy s = s"
  by (simp add: triggerDeathSequence_def)

lemma triggerDeathSequence_alive:
  assumes "\<not> isDying s"
  shows "isDying (triggerDeathSequence env ix iy s)"
    and "timeScale (triggerDeathSequence env ix iy s) = 0.15"
    and "audioCues (triggerDeathSequence env ix iy s) = audioCues s @ [GameOverSound]"
    and "pendingTimers (triggerDeathSequence env ix iy s) = pendingTimers s @ [Suc (nextTimerId s)]"
    and "deathTimeoutRef (triggerDeathSequence env ix iy s) = Some (Suc (nextTimerId s))"
    and "nextTimerId (triggerDeathSequence env ix iy s) = Suc (nextTimerId s)"
  using assms
  by (simp_all add: triggerDeathSequence_def setTimeout_def playSound_def split_def Let_def)

lemma triggerDeathSequence_isDying [simp]: "isDying (triggerDeathSequence env ix iy s)"
  by (cases "isDying s") (simp_all add: triggerDeathSequence_dying triggerDeathSequence_alive)

lemma triggerDeathSequence_idem:
  "triggerDeathSequence env ix iy (triggerDeathSequence env ix' iy' s) = triggerDeathSequence env ix' iy' s"
  by (simp add: triggerDeathSequence_dying)

lemma hazardStep_no_shield:
  "\<not> has (activePowerUps s) SHIELD \<Longrightarrow>
   hazardStep env t obs s =
     (obs, if hit (playerPos s) obs
           then triggerDeathSequence env (vec_x (playerPos s)) (vec_y (playerPos s)) s else s)"
  by (simp add: hazardStep_def)

lemma forEach_hazard_no_shield:
  "\<not> has (activePowerUps s) SHIELD \<Longrightarrow>
   forEach (hazardStep env t) os s =
     (os, if \<exists>obs \<in> set os. hit (playerPos s) obs
          then triggerDeathSequence env (vec_x (playerPos s)) (vec_y (playerPos s)) s else s)"
proof (induction os arbitrary: s)
  case Nil
  show ?case by simp
next
  case (Cons obs os)
  let ?d = "triggerDeathSequence env (vec_x (playerPos s)) (vec_y (playerPos s)) s"
  show ?case
  proof (cases "hit (playerPos s) obs")
    case True
    have "\<not> has (activePowerUps ?d) SHIELD" using Cons.prems by simp
    from Cons.IH [OF this] True Cons.prems show ?thesis
      by (simp add: hazardStep_no_shield triggerDeathSequence_idem Let_def)
  next
    case False
    with Cons.IH [OF Cons.prems] Cons.prems show ?thesis
      by (simp add: hazardStep_no_shield Let_def)
  qed
qed

lemma hazardLoop_no_shield:
  "\<not> has (activePowerUps s) SHIELD \<Longrightarrow>
   hazardLoop env t s =
     (if \<exists>obs \<in> set (obstacles s). hit (playerPos s) obs
      then triggerDeathSequence env (vec_x (playerPos s)) (vec_y (playerPos s)) s else s)"
  by (simp add: hazardLoop_def forEach_hazard_no_shield)

lemma hazardLoop_schedules:
  assumes "\<not> isDying s"
  shows "(\<not> isDying (hazardLoop env t s) \<and> pendingTimers (hazardLoop env t s) = pendingTimers s) \<or>
         (isDying (hazardLoop env t s) \<and>
          pendingTimers (hazardLoop env t s) = pendingTimers s @ [Suc (nextTimerId s)])"
proof -
  let ?P = "\<lambda>u::game.
     (\<not> isDying u \<and> pendingTimers u = pendingTimers s \<and> nextTimerId u = nextTimerId s) \<or>
     (isDying u \<and> pendingTimers u = pendingTimers s @ [Suc (nextTimerId s)])"
  have "?P (snd (forEach (hazardStep env t) (obstacles s) s))"
  proof (rule forEach_inv [where P = ?P])
    fix a and u :: game assume u: "?P u"
    show "?P (snd (hazardStep env t a u))"
    proof (cases "hit (playerPos u) a \<and> \<not> has (activePowerUps u) SHIELD")
      case False
      then have "isDying (snd (hazardStep env t a u)) = isDying u"
        "pendingTimers (snd (hazardStep env t a u)) = pendingTimers u"
        "nextTimerId (snd (hazardStep env t a u)) = nextTimerId u"
        by (auto simp: hazardStep_def Let_def)
      with u show ?thesis by simp
    next
      case True
      then have step: "snd (hazardStep env t a u) =
          triggerDeathSequence env (vec_x (playerPos u)) (vec_y (playerPos u)) u"
        by (simp add: hazardStep_def)
      show ?thesis
      proof (cases "isDying u")
        case True
        with u show ?thesis by (simp add: step triggerDeathSequence_dying)
      next
        case False
        with u show ?thesis by (simp add: step triggerDeathSequence_alive)
      qed
    qed
  qed (use assms in simp)
  then show ?thesis by (auto simp: hazardLoop_def split_def Let_def)
qed

lemma update_schedules:
  "pendingTimers (update gameState env inp s) = pendingTimers s \<or>
   pendingTimers (update gameState env inp s) = pendingTimers s @ [Suc (nextTimerId s)]"
proof (cases "gameState = PLAYING")
  case False
  then show ?thesis by (simp add: update_def)
next
  case True
  let ?m = "has (activePowerUps s) MULTIPLIER"
  let ?dt = "timeScale s"
  let ?t = "now inp"
  let ?g = "(6 + scoreRef s / 1200) * ?dt"
  let ?s10 = "particlesPhase ?dt (spawnPhase (scrollPhase ?g (obstaclesPhase env ?t ?dt ?g
     (scorePhase ?t ?g ?m (physicsPhase ?dt (dashPhase (inputPhase env inp ?dt
        (registryPhase ?t ?m (shakePhase ?dt s)))))))))"
  let ?p = "pickupLoops ?t ?m ?s10"
  have upd: "pendingTimers (update gameState env inp s) = pendingTimers (collisionPhase env ?t ?m ?s10)"
    by (simp add: True update_def Let_def)
  have keep: "pendingTimers ?p = pendingTimers s" "nextTimerId ?p = nextTimerId s"
    "isDying ?p = isDying ?s10"
    by simp_all
  show ?thesis
  proof (cases "\<not> isDying ?s10 \<and> \<not> ?t < invincibleUntil ?p")
    case False
    then have "collisionPhase env ?t ?m ?s10 = ?s10 \<or> collisionPhase env ?t ?m ?s10 = ?p"
      by (auto simp: collisionPhase_def Let_def)
    then have "pendingTimers (collisionPhase env ?t ?m ?s10) = pendingTimers s"
      using keep(1) by auto
    then show ?thesis unfolding upd by simp
  next
    case hz: True
    then have c: "collisionPhase env ?t ?m ?s10 = hazardLoop env ?t ?p"
      by (simp add: collisionPhase_def Let_def)
    from hz have "\<not> isDying ?p" unfolding keep by simp
    from hazardLoop_schedules [OF this, of env ?t] show ?thesis
      unfolding upd c keep by blast
  qed
qed

text \<open>The tick of a live player that reaches the hazard loop with no shield, outside the
  invincibility window, with an obstacle on the player.\<close>

lemma update_death:
  assumes alive: "\<not> isDying s"
    and shield: "\<not> has (activePowerUps (beforeHazards env inp s)) SHIELD"
    and window: "\<not> now inp < invincibleUntil (beforeHazards env inp s)"
    and struck: "\<exists>obs \<in> set (obstacles (beforeHazards env inp s)). hit (playerPos (beforeHazards env inp s)) obs"
  shows "isDying (update PLAYING env inp s)"
    and "timeScale (update PLAYING env inp s) = 0.15"
    and "pendingTimers (update PLAYING env inp s) = pendingTimers s @ [Suc (nextTimerId s)]"
    and "nextTimerId (update PLAYING env inp s) = Suc (nextTimerId s)"
    and "deathTimeoutRef (update PLAYING env inp s) = Some (Suc (nextTimerId s))"
proof -
  let ?u = "beforeHazards env inp s"
  let ?d = "triggerDeathSequence env (vec_x (playerPos ?u)) (vec_y (playerPos ?u)) ?u"
  have u: "\<not> isDying ?u" "pendingTimers ?u = pendingTimers s" "nextTimerId ?u = nextTimerId s"
    using alive by simp_all
  have "hazardLoop env (now inp) ?u = ?d"
    using struck by (simp add: hazardLoop_no_shield [OF shield])
  then have upd: "update PLAYING env inp s =
      ?d\<lparr>backgroundOffset := backgroundOffset ?d - (6 + scoreRef s / 1200) * timeScale s * 0.5\<rparr>"
    by (simp add: update_stages collisionPhase_hazards [OF alive window])
  note d = triggerDeathSequence_alive [OF u(1), of env "vec_x (playerPos ?u)" "vec_y (playerPos ?u)"]
  show "isDying (update PLAYING env inp s)" unfolding upd by simp
  show "timeScale (update PLAYING env inp s) = 0.15" unfolding upd using d(2) by simp
  show "pendingTimers (update PLAYING env inp s) = pendingTimers s @ [Suc (nextTimerId s)]"
    unfolding upd using d(4) u by simp
  show "nextTimerId (update PLAYING env inp s) = Suc (nextTimerId s)"
    unfolding upd using d(6) u by simp
  show "deathTimeoutRef (update PLAYING env inp s) = Some (Suc (nextTimerId s))"
    unfolding upd using d(5) u by simp
qed

text \<open>
  C3. A tick of a live player that reaches its hazard loop (line 455) with no SHIELD in
  the registry, outside any invincibility window, with at least one obstacle hitting:
  however many obstacles overlap the player, the tick ends dying with time scale 0.15
  and has called \<open>setTimeout\<close> exactly once, so exactly one game-over report is scheduled.
  The whole hazard loop is then one call of the death sequence, which plays the game-over
  cue once; a trigger while already dying returns the state unchanged. No tick at all
  schedules more than one report.
\<close>

theorem death_sequence_once:
  "(isDying s \<longrightarrow> triggerDeathSequence env ix iy s = s) \<and>
   (gameState = PLAYING \<and> \<not> isDying s \<and>
    \<not> has (activePowerUps (beforeHazards env inp s)) SHIELD \<and>
    \<not> now inp < invincibleUntil (beforeHazards env inp s) \<and>
    (\<exists>obs \<in> set (obstacles (beforeHazards env inp s)). hit (playerPos (beforeHazards env inp s)) obs) \<longrightarrow>
      isDying (update gameState env inp s) \<and>
      timeScale (update gameState env inp s) = 0.15 \<and>
      pendingTimers (update gameState env inp s) = pendingTimers s @ [Suc (nextTimerId s)] \<and>
      nextTimerId (update gameState env inp s) = Suc (nextTimerId s) \<and>
      deathTimeoutRef (update gameState env inp s) = Some (Suc (nextTimerId s))) \<and>
   (\<not> isDying s \<and> \<not> has (activePowerUps s) SHIELD \<and> (\<exists>obs \<in> set (obstacles s). hit (playerPos s) obs) \<longrightarrow>
      isDying (hazardLoop env t s) \<and>
      timeScale (hazardLoop env t s) = 0.15 \<and>
      audioCues (hazardLoop env t s) = audioCues s @ [GameOverSound] \<and>
      pendingTimers (hazardLoop env t s) = pendingTimers s @ [Suc (nextTimerId s)] \<and>
      hazardLoop env t s = triggerDeathSequence env (vec_x (playerPos s)) (vec_y (playerPos s)) s) \<and>
   (pendingTimers (update gameState env inp s) = pendingTimers s \<or>
    pendingTimers (update gameState env inp s) = pendingTimers s @ [Suc (nextTimerId s)])"
proof (intro conjI impI)
  assume "isDying s"
  then show "triggerDeathSequence env ix iy s = s" by (rule triggerDeathSequence_dying)
next
  assume a: "gameState = PLAYING \<and> \<not> isDying s \<and>
    \<not> has (activePowerUps (beforeHazards env inp s)) SHIELD \<and>
    \<not> now inp < invincibleUntil (beforeHazards env inp s) \<and>
    (\<exists>obs \<in> set (obstacles (beforeHazards env inp s)). hit (playerPos (beforeHazards env inp s)) obs)"
  then have g: "gameState = PLAYING" and alive: "\<not> isDying s"
    and sh: "\<not> has (activePowerUps (beforeHazards env inp s)) SHIELD"
    and w: "\<not> now inp < invincibleUntil (beforeHazards env inp s)"
    and h: "\<exists>obs \<in> set (obstacles (beforeHazards env inp s)). hit (playerPos (beforeHazards env inp s)) obs"
    by blast+
  note d = update_death [OF alive sh w h]
  show "isDying (update gameState env inp s)" unfolding g by (rule d)
  show "timeScale (update gameState env inp s) = 0.15" unfolding g by (rule d)
  show "pendingTimers (update gameState env inp s) = pendingTimers s @ [Suc (nextTimerId s)]"
    unfolding g by (rule d)
  show "nextTimerId (update gameState env inp s) = Suc (nextTimerId s)" unfolding g by (rule d)
  show "deathTimeoutRef (update gameState env inp s) = Some (Suc (nextTimerId s))"
    unfolding g by (rule d)
next
  assume a: "\<not> isDying s \<and> \<not> has (activePowerUps s) SHIELD \<and>
    (\<exists>obs \<in> set (obstacles s). hit (playerPos s) obs)"
  then have l: "hazardLoop env t s =
      triggerDeathSequence env (vec_x (playerPos s)) (vec_y (playerPos s)) s"
    by (simp add: hazardLoop_no_shield)
  from a have alive: "\<not> isDying s" by simp
  note d = triggerDeathSequence_alive [OF alive, of env "vec_x (playerPos s)" "vec_y (playerPos s)"]
  show "isDying (hazardLoop env t s)" unfolding l by simp
  show "timeScale (hazardLoop env t s) = 0.15" unfolding l by (rule d)
  show "audioCues (hazardLoop env t s) = audioCues s @ [GameOverSound]" unfolding l by (rule d)
  show "pendingTimers (hazardLoop env t s) = pendingTimers s @ [Suc (nextTimerId s)]"
    unfolding l by (rule d)
  show "hazardLoop env t s =
      triggerDeathSequence env (vec_x (playerPos s)) (vec_y (playerPos s)) s" by (rule l)
next
  show "pendingTimers (update gameState env inp s) = pendingTimers s \<or>
    pendingTimers (update gameState env inp s) = pendingTimers s @ [Suc (nextTimerId s)]"
    by (rule update_schedules)
qed

subsection \<open>Frames while dying\<close>

lemma nearMissCheck_dying: "isDying s \<Longrightarrow> nearMissCheck t obs s = s"
  by (simp add: nearMissCheck_def)

lemma obstaclesPhase_dying:
  assumes "isDying s"
  shows "scoreRef (obstaclesPhase env t dt g s) = scoreRef s"
    and "nearMissedObstacles (obstaclesPhase env t dt g s) = nearMissedObstacles s"
    and "socialEvents (obstaclesPhase env t dt g s) = socialEvents s"
proof -
  let ?P = "\<lambda>u::game. isDying u \<and> scoreRef u = scoreRef s \<and>
                  nearMissedObstacles u = nearMissedObstacles s \<and> socialEvents u = socialEvents s"
  have "?P (snd (forEach (obstacleStep env t dt g) (obstacles s) s))"
  proof (rule forEach_inv [where P = ?P])
    fix a and u :: game assume "?P u"
    then show "?P (snd (obstacleStep env t dt g a u))"
      by (simp add: obstacleStep_def split_def Let_def nearMissCheck_dying)
  qed (use assms in simp)
  then show "scoreRef (obstaclesPhase env t dt g s) = scoreRef s"
    and "nearMissedObstacles (obstaclesPhase env t dt g s) = nearMissedObstacles s"
    and "socialEvents (obstaclesPhase env t dt g s) = socialEvents s"
    by (simp_all add: obstaclesPhase_def split_def Let_def)
qed

lemma update_dying:
  assumes "isDying s"
  shows "isDying (update gs env inp s)"
    and "scoreRef (update gs env inp s) = scoreRef s"
    and "lastLevelRef (update gs env inp s) = lastLevelRef s"
    and "nearMissedObstacles (update gs env inp s) = nearMissedObstacles s"
    and "socialEvents (update gs env inp s) = socialEvents s"
    and "pendingTimers (update gs env inp s) = pendingTimers s"
    and "gameOverReports (update gs env inp s) = gameOverReports s"
    and "deathTimeoutRef (update gs env inp s) = deathTimeoutRef s"
  using assms
  by (simp_all add: update_def Let_def scorePhase_def collisionPhase_def obstaclesPhase_dying)

lemma frames_dying:
  assumes "isDying s"
  shows "isDying (frames fs s) \<and> scoreRef (frames fs s) = scoreRef s \<and>
         pendingTimers (frames fs s) = pendingTimers s \<and>
         gameOverReports (frames fs s) = gameOverReports s"
  using assms
proof (induction fs arbitrary: s)
  case Nil
  then show ?case by simp
next
  case (Cons f fs)
  obtain gs env inp where f: "f = (gs, env, inp)" by (cases f) auto
  from Cons.IH [OF update_dying(1) [OF Cons.prems]] Cons.prems show ?case
    by (simp add: f update_dying)
qed

text \<open>
  C9. A frame that starts with the dying flag set leaves the score, the last recorded
  level, the near-miss set and the social events as they were and stays dying. So when
  the death sequence is triggered at some score, then after any number of frames the
  timeout it scheduled reports the floor of that score to the host.
\<close>

theorem dying_frames_keep_score:
  "(isDying s \<longrightarrow>
      scoreRef (update gameState env inp s) = scoreRef s \<and>
      lastLevelRef (update gameState env inp s) = lastLevelRef s \<and>
      nearMissedObstacles (update gameState env inp s) = nearMissedObstacles s \<and>
      socialEvents (update gameState env inp s) = socialEvents s \<and>
      isDying (update gameState env inp s)) \<and>
   (\<not> isDying s \<longrightarrow>
      (\<exists>tid. deathTimeoutRef (triggerDeathSequence env ix iy s) = Some tid \<and>
         gameOverReports (deathTimeout tid (frames fs (triggerDeathSequence env ix iy s))) =
           gameOverReports s @ [\<lfloor>scoreRef s\<rfloor>]))"
proof (intro conjI impI)
  assume alive: "\<not> isDying s"
  let ?d = "triggerDeathSequence env ix iy s"
  have d: "isDying ?d" by simp
  note fr = frames_dying [OF d, of fs]
  have "Suc (nextTimerId s) \<in> set (pendingTimers (frames fs ?d))"
    using fr by (simp add: triggerDeathSequence_alive [OF alive])
  then have "gameOverReports (deathTimeout (Suc (nextTimerId s)) (frames fs ?d)) =
      gameOverReports s @ [\<lfloor>scoreRef s\<rfloor>]"
    using fr by (simp add: deathTimeout_def onGameOver_def Let_def)
  then show "\<exists>tid. deathTimeoutRef ?d = Some tid \<and>
      gameOverReports (deathTimeout tid (frames fs ?d)) = gameOverReports s @ [\<lfloor>scoreRef s\<rfloor>]"
    by (simp add: triggerDeathSequence_alive [OF alive])
qed (simp_all add: update_dying)

theorem dying_frames_keep_score_witness:
  "scoreRef (update PLAYING DEFAULT_ENVIRONMENT (idle 0)
      ((initialGame zeroStream)\<lparr>isDying := True, scoreRef := 2469 / 2\<rparr>)) = 2469 / 2 \<and>
   (\<exists>tid. deathTimeoutRef (triggerDeathSequence DEFAULT_ENVIRONMENT 100 290
              ((initialGame zeroStream)\<lparr>scoreRef := 2469 / 2\<rparr>)) = Some tid \<and>
      gameOverReports (deathTimeout tid
        (frames [(PLAYING, DEFAULT_ENVIRONMENT, idle 16), (PLAYING, DEFAULT_ENVIRONMENT, idle 32)]
          (triggerDeathSequence DEFAULT_ENVIRONMENT 100 290
              ((initialGame zeroStream)\<lparr>scoreRef := 2469 / 2\<rparr>)))) = [1234])"
proof -
  let ?dead = "(initialGame zeroStream)\<lparr>isDying := True, scoreRef := 2469 / 2\<rparr>"
  let ?s = "(initialGame zeroStream)\<lparr>scoreRef := 2469 / 2\<rparr>"
  let ?fs = "[(PLAYING, DEFAULT_ENVIRONMENT, idle 16), (PLAYING, DEFAULT_ENVIRONMENT, idle 32)]"
  have "isDying ?dead" by simp
  with dying_frames_keep_score [of ?dead PLAYING DEFAULT_ENVIRONMENT "idle 0" 100 290 "[]"]
  have a: "scoreRef (update PLAYING DEFAULT_ENVIRONMENT (idle 0) ?dead) = scoreRef ?dead"
    by blast
  have "\<not> isDying ?s" by simp
  with dying_frames_keep_score [of ?s PLAYING DEFAULT_ENVIRONMENT "idle 0" 100 290 ?fs]
  have b: "\<exists>tid. deathTimeoutRef (triggerDeathSequence DEFAULT_ENVIRONMENT 100 290 ?s) = Some tid \<and>
      gameOverReports (deathTimeout tid (frames ?fs (triggerDeathSequence DEFAULT_ENVIRONMENT 100 290 ?s)))
        = gameOverReports ?s @ [\<lfloor>scoreRef ?s\<rfloor>]"
    by blast
  have c: "\<lfloor>scoreRef ?s\<rfloor> = 1234" by simp
  from a b show ?thesis unfolding c by simp
qed


subsection \<open>Where the score comes from\<close>

lemma emitted_onSocialEvent [simp]:
  "emitted e (onSocialEvent e' s) = emitted e s + (if e' = e then 1 else 0)"
  by (simp add: emitted_def onSocialEvent_def)

lemma emitted_cong: "socialEvents s' = socialEvents s \<Longrightarrow> emitted e s' = emitted e s"
  by (simp add: emitted_def)

lemma passiveScore_cong:
  "scoreRef s' = scoreRef s \<Longrightarrow> socialEvents s' = socialEvents s \<Longrightarrow>
   passiveScore c s' = passiveScore c s"
  by (simp add: passiveScore_def emitted_def)

lemma nearMissCheck_passive: "passiveScore c (nearMissCheck t obs s) = passiveScore c s"
  by (simp add: nearMissCheck_def passiveScore_def Let_def emitted_def onSocialEvent_def)

lemma obstacleStep_passive: "passiveScore c (snd (obstacleStep env t dt g obs s)) = passiveScore c s"
proof -
  have "passiveScore c (snd (behave env t dt g obs s)) = passiveScore c s"
    by (rule passiveScore_cong) simp_all
  then show ?thesis
    by (simp add: obstacleStep_def split_def Let_def nearMissCheck_passive)
qed

lemma obstaclesPhase_passive: "passiveScore c (obstaclesPhase env t dt g s) = passiveScore c s"
proof -
  have "passiveScore c (snd (forEach (obstacleStep env t dt g) (obstacles s) s)) = passiveScore c s"
    by (rule forEach_keeps [where F = "passiveScore c"]) (rule obstacleStep_passive)
  then show ?thesis
    by (simp add: obstaclesPhase_def split_def Let_def passiveScore_def emitted_def)
qed

lemma pickupPowerUp_passive: "passiveScore c (snd (pickupPowerUp t pup s)) = passiveScore c s"
  by (simp add: pickupPowerUp_def Let_def passiveScore_def emitted_def onSocialEvent_def playSound_def)

lemma pickupCollectible_passive:
  "passiveScore (if m then 300 else 100) (snd (pickupCollectible m col s)) =
   passiveScore (if m then 300 else 100) s"
  by (simp add: pickupCollectible_def Let_def passiveScore_def emitted_def onSocialEvent_def
      playSound_def)

lemma pickupLoops_passive:
  "passiveScore (if m then 300 else 100) (pickupLoops t m s) = passiveScore (if m then 300 else 100) s"
proof -
  let ?c = "if m then 300 else 100 :: real"
  let ?s1 = "snd (forEach (pickupPowerUp t) (powerUps s) s)"
  let ?s2 = "?s1\<lparr>powerUps := fst (forEach (pickupPowerUp t) (powerUps s) s)\<rparr>"
  let ?s3 = "snd (forEach (pickupCollectible m) (collectibles ?s2) ?s2)"
  have 1: "passiveScore ?c ?s1 = passiveScore ?c s"
    by (rule forEach_keeps [where F = "passiveScore ?c"]) (rule pickupPowerUp_passive)
  have 2: "passiveScore ?c ?s2 = passiveScore ?c ?s1"
    by (simp add: passiveScore_def emitted_def)
  have 3: "passiveScore ?c ?s3 = passiveScore ?c ?s2"
    by (rule forEach_keeps [where F = "passiveScore ?c"]) (rule pickupCollectible_passive)
  have "passiveScore ?c (pickupLoops t m s) = passiveScore ?c ?s3"
    by (simp add: pickupLoops_def split_def Let_def passiveScore_def emitted_def)
  with 1 2 3 show ?thesis by simp
qed

lemma collisionPhase_passive:
  "passiveScore (if m then 300 else 100) (collisionPhase env t m s) =
   passiveScore (if m then 300 else 100) s"
proof -
  let ?c = "if m then 300 else 100 :: real"
  have hz: "passiveScore ?c (hazardLoop env t u) = passiveScore ?c u" for u
    by (rule passiveScore_cong) simp_all
  show ?thesis
  proof (cases "isDying s")
    case True
    then show ?thesis by (simp add: collisionPhase_def)
  next
    case False
    show ?thesis
    proof (cases "t < invincibleUntil (pickupLoops t m s)")
      case True
      with False have "collisionPhase env t m s = pickupLoops t m s"
        by (simp add: collisionPhase_def Let_def)
      then show ?thesis by (simp only: pickupLoops_passive)
    next
      case inv: False
      with False have "collisionPhase env t m s = hazardLoop env t (pickupLoops t m s)"
        by (simp add: collisionPhase_def Let_def)
      then show ?thesis by (simp only: hz pickupLoops_passive)
    qed
  qed
qed

lemma scorePhase_passive:
  "\<not> isDying s \<Longrightarrow>
   passiveScore c (scorePhase t g m s) = passiveScore c s + (g / 8) * (if m then 2.5 else 1)"
  by (simp add: scorePhase_def Let_def passiveScore_def emitted_def onSocialEvent_def playSound_def)

lemma update_passive:
  assumes "\<not> isDying s"
  shows "passiveScore (if has (activePowerUps s) MULTIPLIER then 300 else 100)
           (update PLAYING env inp s) =
         passiveScore (if has (activePowerUps s) MULTIPLIER then 300 else 100) s +
           (((6 + scoreRef s / 1200) * timeScale s) / 8) *
           (if has (activePowerUps s) MULTIPLIER then 2.5 else 1)"
proof -
  let ?m = "has (activePowerUps s) MULTIPLIER"
  let ?c = "if ?m then 300 else 100 :: real"
  let ?dt = "timeScale s"
  let ?t = "now inp"
  let ?g = "(6 + scoreRef s / 1200) * ?dt"
  let ?s5 = "physicsPhase ?dt (dashPhase (inputPhase env inp ?dt (registryPhase ?t ?m (shakePhase ?dt s))))"
  let ?s6 = "scorePhase ?t ?g ?m ?s5"
  let ?s10 = "particlesPhase ?dt (spawnPhase (scrollPhase ?g (obstaclesPhase env ?t ?dt ?g ?s6)))"
  let ?s11 = "collisionPhase env ?t ?m ?s10"
  have upd: "update PLAYING env inp s = ?s11\<lparr>backgroundOffset := backgroundOffset ?s11 - ?g * 0.5\<rparr>"
    by (simp add: update_def Let_def)
  have 5: "passiveScore ?c ?s5 = passiveScore ?c s"
    by (rule passiveScore_cong) simp_all
  have d5: "\<not> isDying ?s5" using assms by simp
  have 6: "passiveScore ?c ?s6 = passiveScore ?c ?s5 + (?g / 8) * (if ?m then 2.5 else 1)"
    by (rule scorePhase_passive [OF d5])
  have 10: "passiveScore ?c ?s10 = passiveScore ?c (obstaclesPhase env ?t ?dt ?g ?s6)"
    by (rule passiveScore_cong) simp_all
  have 11: "passiveScore ?c ?s11 = passiveScore ?c ?s10"
    by (rule collisionPhase_passive)
  have "passiveScore ?c (update PLAYING env inp s) = passiveScore ?c ?s11"
    unfolding upd by (rule passiveScore_cong) simp_all
  with 5 6 10 11 show ?thesis
    by (simp add: obstaclesPhase_passive)
qed


subsection \<open>Which phase emits which social event\<close>

lemma nearMissCheck_emitted: "e \<noteq> NEAR_MISS \<Longrightarrow> emitted e (nearMissCheck t obs s) = emitted e s"
  by (simp add: nearMissCheck_def Let_def emitted_def onSocialEvent_def)

lemma obstaclesPhase_emitted:
  assumes "e \<noteq> NEAR_MISS"
  shows "emitted e (obstaclesPhase env t dt g s) = emitted e s"
proof -
  have step: "emitted e (snd (obstacleStep env t dt g a u)) = emitted e u" for a u
  proof -
    have "emitted e (snd (behave env t dt g a u)) = emitted e u"
      by (rule emitted_cong) simp
    then show ?thesis
      by (simp add: obstacleStep_def split_def Let_def nearMissCheck_emitted [OF assms])
  qed
  have "emitted e (snd (forEach (obstacleStep env t dt g) (obstacles s) s)) = emitted e s"
    by (rule forEach_keeps [where F = "emitted e"]) (rule step)
  then show ?thesis
    by (simp add: obstaclesPhase_def split_def Let_def emitted_def)
qed

lemma pickupPowerUp_emitted:
  "e \<noteq> POWERUP \<Longrightarrow> emitted e (snd (pickupPowerUp t pup s)) = emitted e s"
  by (simp add: pickupPowerUp_def Let_def emitted_def onSocialEvent_def playSound_def)

lemma pickupCollectible_emitted:
  "e \<noteq> COLLECT \<Longrightarrow> emitted e (snd (pickupCollectible m col s)) = emitted e s"
  by (simp add: pickupCollectible_def Let_def emitted_def onSocialEvent_def playSound_def)

lemma pickupLoops_emitted:
  assumes "e \<noteq> POWERUP" and "e \<noteq> COLLECT"
  shows "emitted e (pickupLoops t m s) = emitted e s"
proof -
  let ?s1 = "snd (forEach (pickupPowerUp t) (powerUps s) s)"
  let ?s2 = "?s1\<lparr>powerUps := fst (forEach (pickupPowerUp t) (powerUps s) s)\<rparr>"
  let ?s3 = "snd (forEach (pickupCollectible m) (collectibles ?s2) ?s2)"
  have 1: "emitted e ?s1 = emitted e s"
    by (rule forEach_keeps [where F = "emitted e"]) (rule pickupPowerUp_emitted [OF assms(1)])
  have 2: "emitted e ?s2 = emitted e ?s1"
    by (simp add: emitted_def)
  have 3: "emitted e ?s3 = emitted e ?s2"
    by (rule forEach_keeps [where F = "emitted e"]) (rule pickupCollectible_emitted [OF assms(2)])
  have "emitted e (pickupLoops t m s) = emitted e ?s3"
    by (simp add: pickupLoops_def split_def Let_def emitted_def)
  with 1 2 3 show ?thesis by simp
qed

lemma collisionPhase_emitted:
  assumes "e \<noteq> POWERUP" and "e \<noteq> COLLECT"
  shows "emitted e (collisionPhase env t m s) = emitted e s"
proof -
  have hz: "emitted e (hazardLoop env t u) = emitted e u" for u
    by (rule emitted_cong) simp
  show ?thesis
    by (simp add: collisionPhase_def Let_def hz pickupLoops_emitted [OF assms])
qed

lemma scorePhase_emitted: "e \<noteq> LEVEL_UP \<Longrightarrow> emitted e (scorePhase t g m s) = emitted e s"
  by (simp add: scorePhase_def Let_def emitted_def onSocialEvent_def playSound_def)

lemma scorePhase_level:
  assumes "\<not> isDying s"
  shows "lastLevelRef (scorePhase t g m s) =
           max (lastLevelRef s) (\<lfloor>(scoreRef s + (g / 8) * (if m then 2.5 else 1)) / 1000\<rfloor> + 1)"
    and "emitted LEVEL_UP (scorePhase t g m s) =
           emitted LEVEL_UP s +
           (if \<lfloor>(scoreRef s + (g / 8) * (if m then 2.5 else 1)) / 1000\<rfloor> + 1 > lastLevelRef s
            then 1 else 0)"
  using assms
  by (simp_all add: scorePhase_def Let_def emitted_def onSocialEvent_def playSound_def)

lemma update_level:
  assumes "\<not> isDying s"
  shows "lastLevelRef (update PLAYING env inp s) =
           max (lastLevelRef s)
             (\<lfloor>(scoreRef s + (((6 + scoreRef s / 1200) * timeScale s) / 8) *
                  (if has (activePowerUps s) MULTIPLIER then 2.5 else 1)) / 1000\<rfloor> + 1)"
    and "emitted LEVEL_UP (update PLAYING env inp s) =
           emitted LEVEL_UP s +
           (if \<lfloor>(scoreRef s + (((6 + scoreRef s / 1200) * timeScale s) / 8) *
                  (if has (activePowerUps s) MULTIPLIER then 2.5 else 1)) / 1000\<rfloor> + 1
               > lastLevelRef s
            then 1 else 0)"
proof -
  let ?m = "has (activePowerUps s) MULTIPLIER"
  let ?dt = "timeScale s"
  let ?t = "now inp"
  let ?g = "(6 + scoreRef s / 1200) * ?dt"
  let ?s5 = "physicsPhase ?dt (dashPhase (inputPhase env inp ?dt (registryPhase ?t ?m (shakePhase ?dt s))))"
  let ?s6 = "scorePhase ?t ?g ?m ?s5"
  let ?s7 = "obstaclesPhase env ?t ?dt ?g ?s6"
  let ?s10 = "particlesPhase ?dt (spawnPhase (scrollPhase ?g ?s7))"
  let ?s11 = "collisionPhase env ?t ?m ?s10"
  have d5: "\<not> isDying ?s5" using assms by simp
  have f5: "scoreRef ?s5 = scoreRef s" "lastLevelRef ?s5 = lastLevelRef s"
    "emitted LEVEL_UP ?s5 = emitted LEVEL_UP s"
    by (simp_all add: emitted_def)
  have l11: "lastLevelRef (update PLAYING env inp s) = lastLevelRef ?s6"
    by (simp add: update_PLAYING Let_def)
  have "emitted LEVEL_UP (update PLAYING env inp s) = emitted LEVEL_UP ?s11"
    by (simp add: update_PLAYING Let_def emitted_def)
  also have "\<dots> = emitted LEVEL_UP ?s10"
    by (rule collisionPhase_emitted) simp_all
  also have "\<dots> = emitted LEVEL_UP ?s7"
    by (rule emitted_cong) simp
  also have "\<dots> = emitted LEVEL_UP ?s6"
    by (rule obstaclesPhase_emitted) simp
  finally have e11: "emitted LEVEL_UP (update PLAYING env inp s) = emitted LEVEL_UP ?s6" .
  show "lastLevelRef (update PLAYING env inp s) =
           max (lastLevelRef s)
             (\<lfloor>(scoreRef s + (((6 + scoreRef s / 1200) * timeScale s) / 8) *
                  (if has (activePowerUps s) MULTIPLIER then 2.5 else 1)) / 1000\<rfloor> + 1)"
    unfolding l11 scorePhase_level(1) [OF d5] f5 ..
  show "emitted LEVEL_UP (update PLAYING env inp s) =
           emitted LEVEL_UP s +
           (if \<lfloor>(scoreRef s + (((6 + scoreRef s / 1200) * timeScale s) / 8) *
                  (if has (activePowerUps s) MULTIPLIER then 2.5 else 1)) / 1000\<rfloor> + 1
               > lastLevelRef s
            then 1 else 0)"
    unfolding e11 scorePhase_level(2) [OF d5] f5 ..
qed

subsection \<open>Collectibles picked up in a tick\<close>

lemma pickupCollectible_count:
  "emitted COLLECT (snd (pickupCollectible m col s)) =
     emitted COLLECT s +
     (if \<not> col_collected col \<and> overlaps (playerPos s) (col_x col) (col_y col) (col_size col)
      then 1 else 0)"
  by (simp add: pickupCollectible_def Let_def emitted_def onSocialEvent_def playSound_def)

lemma collectibleLoop_count:
  "emitted COLLECT (snd (forEach (pickupCollectible m) cols s)) =
     emitted COLLECT s +
     length (filter (\<lambda>col. \<not> col_collected col \<and>
                            overlaps (playerPos s) (col_x col) (col_y col) (col_size col)) cols)"
proof (induction cols arbitrary: s)
  case Nil
  show ?case by simp
next
  case (Cons c cols)
  let ?u = "snd (pickupCollectible m c s)"
  have p: "playerPos ?u = playerPos s" by simp
  show ?case
    unfolding forEach.simps split_def Let_def snd_conv Cons.IH [of ?u] p pickupCollectible_count
    by simp
qed

lemma pickupLoops_count:
  "emitted COLLECT (pickupLoops t m s) =
     emitted COLLECT s +
     length (filter (\<lambda>col. \<not> col_collected col \<and>
                            overlaps (playerPos s) (col_x col) (col_y col) (col_size col))
               (collectibles s))"
proof -
  let ?s1 = "snd (forEach (pickupPowerUp t) (powerUps s) s)"
  let ?s2 = "?s1\<lparr>powerUps := fst (forEach (pickupPowerUp t) (powerUps s) s)\<rparr>"
  let ?s3 = "snd (forEach (pickupCollectible m) (collectibles ?s2) ?s2)"
  have 1: "emitted COLLECT ?s1 = emitted COLLECT s"
    by (rule forEach_keeps [where F = "emitted COLLECT"]) (rule pickupPowerUp_emitted, simp)
  have 2: "emitted COLLECT ?s2 = emitted COLLECT ?s1" by (simp add: emitted_def)
  have f2: "playerPos ?s2 = playerPos s" "collectibles ?s2 = collectibles s" by simp_all
  have "emitted COLLECT (pickupLoops t m s) = emitted COLLECT ?s3"
    by (simp add: pickupLoops_def split_def Let_def emitted_def)
  also have "\<dots> = emitted COLLECT ?s2 +
      length (filter (\<lambda>col. \<not> col_collected col \<and>
                             overlaps (playerPos ?s2) (col_x col) (col_y col) (col_size col))
                (collectibles ?s2))"
    by (rule collectibleLoop_count)
  finally show ?thesis unfolding f2 2 1 .
qed

lemma update_collect:
  assumes "\<not> isDying s"
  shows "emitted COLLECT (update PLAYING env inp s) =
     emitted COLLECT s +
     length (filter (\<lambda>col. \<not> col_collected col \<and>
                            overlaps (playerPos (beforeCollision env inp s))
                              (col_x col) (col_y col) (col_size col))
               (collectibles (beforeCollision env inp s)))"
proof -
  let ?m = "has (activePowerUps s) MULTIPLIER"
  let ?s10 = "beforeCollision env inp s"
  let ?s6 = "scorePhase (now inp) (tickSpeed env inp s) (tickMult s) (beforeScore env inp s)"
  have d: "\<not> isDying ?s10" using assms by simp
  have hz: "emitted COLLECT (hazardLoop env (now inp) u) = emitted COLLECT u" for u
    by (rule emitted_cong) simp
  have "emitted COLLECT (update PLAYING env inp s) =
      emitted COLLECT (collisionPhase env (now inp) ?m ?s10)"
    by (simp add: update_stages emitted_def)
  also have "\<dots> = emitted COLLECT (pickupLoops (now inp) ?m ?s10)"
    using d by (simp add: collisionPhase_def Let_def hz)
  finally have 1: "emitted COLLECT (update PLAYING env inp s) =
      emitted COLLECT (pickupLoops (now inp) ?m ?s10)" .
  have "emitted COLLECT ?s10 = emitted COLLECT (afterObstacles env inp s)"
    by (rule emitted_cong) simp
  also have "\<dots> = emitted COLLECT ?s6"
    unfolding afterObstacles_def by (rule obstaclesPhase_emitted) simp
  also have "\<dots> = emitted COLLECT (beforeScore env inp s)"
    by (rule scorePhase_emitted) simp
  also have "\<dots> = emitted COLLECT s"
    by (rule emitted_cong) simp
  finally have 2: "emitted COLLECT ?s10 = emitted COLLECT s" .
  show ?thesis unfolding 1 pickupLoops_count 2 ..
qed

text \<open>
  C7. In a tick of a running game (PLAYING, not dying) with MULTIPLIER in the registry
  when the tick starts, the score grows by the base accrual
  \<open>(6 + score / 1200) * timeScale / 8\<close> times 2.5, by 500 for every near miss credited and by
  a flat 300 for every collectible picked up in the tick; without MULTIPLIER it grows by
  the base accrual itself and by 100 for every collectible. The collectibles picked up,
  each emitting one COLLECT, are those that reach the pickup loop (line 443) uncollected
  and overlapping the player, with or without MULTIPLIER.
\<close>

theorem multiplier_scoring:
  assumes "gameState = PLAYING" and "\<not> isDying s"
  shows "scoreRef (update gameState env inp s) =
         scoreRef s
         + (((6 + scoreRef s / 1200) * timeScale s) / 8) *
             (if has (activePowerUps s) MULTIPLIER then 2.5 else 1)
         + 500 * (real (emitted NEAR_MISS (update gameState env inp s)) - real (emitted NEAR_MISS s))
         + (if has (activePowerUps s) MULTIPLIER then 300 else 100) *
             (real (emitted COLLECT (update gameState env inp s)) - real (emitted COLLECT s)) \<and>
         emitted COLLECT (update gameState env inp s) =
         emitted COLLECT s +
         length (filter (\<lambda>col. \<not> col_collected col \<and>
                                overlaps (playerPos (beforeCollision env inp s))
                                  (col_x col) (col_y col) (col_size col))
                   (collectibles (beforeCollision env inp s)))"
proof (rule conjI)
  show "scoreRef (update gameState env inp s) =
         scoreRef s
         + (((6 + scoreRef s / 1200) * timeScale s) / 8) *
             (if has (activePowerUps s) MULTIPLIER then 2.5 else 1)
         + 500 * (real (emitted NEAR_MISS (update gameState env inp s)) - real (emitted NEAR_MISS s))
         + (if has (activePowerUps s) MULTIPLIER then 300 else 100) *
             (real (emitted COLLECT (update gameState env inp s)) - real (emitted COLLECT s))"
    using update_passive [OF assms(2), of env inp] assms(1)
    by (simp add: passiveScore_def algebra_simps)
  show "emitted COLLECT (update gameState env inp s) =
         emitted COLLECT s +
         length (filter (\<lambda>col. \<not> col_collected col \<and>
                                overlaps (playerPos (beforeCollision env inp s))
                                  (col_x col) (col_y col) (col_size col))
                   (collectibles (beforeCollision env inp s)))"
    unfolding assms(1) by (rule update_collect [OF assms(2)])
qed


text \<open>
  C1 (as amended). A frame emits at most one LEVEL_UP event. In a frame of a running game
  (PLAYING, not dying) the level \<open>floor(score / 1000) + 1\<close> is derived from the score right
  after passive accrual; if it exceeds the last recorded level, one LEVEL_UP is emitted
  and the recorded level jumps to the derived level, however many boundaries lie in
  between; otherwise nothing is emitted and the recorded level stays. Any other frame
  emits no LEVEL_UP and keeps the recorded level. The recorded level never decreases, so
  no level is announced twice.
\<close>

theorem level_up_once_per_frame:
  "(gameState = PLAYING \<and> \<not> isDying s \<longrightarrow>
      (let level = \<lfloor>(scoreRef s + (((6 + scoreRef s / 1200) * timeScale s) / 8) *
                        (if has (activePowerUps s) MULTIPLIER then 2.5 else 1)) / 1000\<rfloor> + 1
       in (level > lastLevelRef s \<longrightarrow>
             emitted LEVEL_UP (update gameState env inp s) = emitted LEVEL_UP s + 1 \<and>
             lastLevelRef (update gameState env inp s) = level) \<and>
          (level \<le> lastLevelRef s \<longrightarrow>
             emitted LEVEL_UP (update gameState env inp s) = emitted LEVEL_UP s \<and>
             lastLevelRef (update gameState env inp s) = lastLevelRef s))) \<and>
   (gameState \<noteq> PLAYING \<or> isDying s \<longrightarrow>
      emitted LEVEL_UP (update gameState env inp s) = emitted LEVEL_UP s \<and>
      lastLevelRef (update gameState env inp s) = lastLevelRef s)"
proof (intro conjI impI)
  assume "gameState = PLAYING \<and> \<not> isDying s"
  then show "let level = \<lfloor>(scoreRef s + (((6 + scoreRef s / 1200) * timeScale s) / 8) *
                        (if has (activePowerUps s) MULTIPLIER then 2.5 else 1)) / 1000\<rfloor> + 1
       in (level > lastLevelRef s \<longrightarrow>
             emitted LEVEL_UP (update gameState env inp s) = emitted LEVEL_UP s + 1 \<and>
             lastLevelRef (update gameState env inp s) = level) \<and>
          (level \<le> lastLevelRef s \<longrightarrow>
             emitted LEVEL_UP (update gameState env inp s) = emitted LEVEL_UP s \<and>
             lastLevelRef (update gameState env inp s) = lastLevelRef s)"
    by (simp add: update_level Let_def)
next
  assume a: "gameState \<noteq> PLAYING \<or> isDying s"
  show "emitted LEVEL_UP (update gameState env inp s) = emitted LEVEL_UP s"
  proof (cases "gameState = PLAYING")
    case True
    with a show ?thesis by (simp add: emitted_def update_dying)
  next
    case False
    then show ?thesis by (simp add: update_def)
  qed
  show "lastLevelRef (update gameState env inp s) = lastLevelRef s"
  proof (cases "gameState = PLAYING")
    case True
    with a show ?thesis by (simp add: update_dying)
  next
    case False
    then show ?thesis by (simp add: update_def)
  qed
qed

theorem level_up_once_per_frame_witness:
  "emitted LEVEL_UP (update PLAYING DEFAULT_ENVIRONMENT (idle 0)
      ((initialGame zeroStream)\<lparr>scoreRef := 999.5\<rparr>)) = 1 \<and>
   lastLevelRef (update PLAYING DEFAULT_ENVIRONMENT (idle 0)
      ((initialGame zeroStream)\<lparr>scoreRef := 999.5\<rparr>)) = 2 \<and>
   emitted LEVEL_UP (update PLAYING DEFAULT_ENVIRONMENT (idle 0)
      ((initialGame zeroStream)\<lparr>scoreRef := 500\<rparr>)) = 0 \<and>
   emitted LEVEL_UP (update START DEFAULT_ENVIRONMENT (idle 0)
      ((initialGame zeroStream)\<lparr>scoreRef := 999.5\<rparr>)) = 0"
proof -
  let ?a = "(initialGame zeroStream)\<lparr>scoreRef := 999.5\<rparr>"
  let ?b = "(initialGame zeroStream)\<lparr>scoreRef := 500\<rparr>"
  have fl: "\<lfloor>(1999 / 2 + (6 + 1999 / 2 / 1200) / 8) / 1000 :: real\<rfloor> = 1"
    "\<lfloor>(500 + (6 + 500 / 1200) / 8) / 1000 :: real\<rfloor> = 0"
    by (simp_all add: floor_eq_iff)
  have a: "PLAYING = PLAYING \<and> \<not> isDying ?a" and b: "PLAYING = PLAYING \<and> \<not> isDying ?b"
    and c: "START \<noteq> PLAYING \<or> isDying ?a"
    by simp_all
  from level_up_once_per_frame [of PLAYING ?a DEFAULT_ENVIRONMENT "idle 0"] a
  have 1: "emitted LEVEL_UP (update PLAYING DEFAULT_ENVIRONMENT (idle 0) ?a) = 1 \<and>
      lastLevelRef (update PLAYING DEFAULT_ENVIRONMENT (idle 0) ?a) = 2"
    by (simp add: Let_def fl emitted_def)
  from level_up_once_per_frame [of PLAYING ?b DEFAULT_ENVIRONMENT "idle 0"] b
  have 2: "emitted LEVEL_UP (update PLAYING DEFAULT_ENVIRONMENT (idle 0) ?b) = 0"
    by (simp add: Let_def fl emitted_def)
  from level_up_once_per_frame [of START ?a DEFAULT_ENVIRONMENT "idle 0"] c
  have 3: "emitted LEVEL_UP (update START DEFAULT_ENVIRONMENT (idle 0) ?a) = 0"
    by (simp add: emitted_def)
  from 1 2 3 show ?thesis by simp
qed


subsection \<open>The score never goes down\<close>

lemma obstaclesPhase_mono: "scoreRef s \<le> scoreRef (obstaclesPhase env t dt g s)"
proof -
  have "scoreRef u \<le> scoreRef (snd (obstacleStep env t dt g a u))" for a u
    by (simp add: obstacleStep_def split_def Let_def nearMissCheck_def)
  then have "scoreRef s \<le> scoreRef (snd (forEach (obstacleStep env t dt g) (obstacles s) s))"
    by (rule forEach_mono)
  then show ?thesis by (simp add: obstaclesPhase_def split_def Let_def)
qed

lemma pickupLoops_mono: "scoreRef s \<le> scoreRef (pickupLoops t m s)"
proof -
  let ?s2 = "(snd (forEach (pickupPowerUp t) (powerUps s) s))
               \<lparr>powerUps := fst (forEach (pickupPowerUp t) (powerUps s) s)\<rparr>"
  have "scoreRef u \<le> scoreRef (snd (pickupCollectible m a u))" for a u
    by (simp add: pickupCollectible_def Let_def)
  then have "scoreRef ?s2 \<le> scoreRef (snd (forEach (pickupCollectible m) (collectibles ?s2) ?s2))"
    by (rule forEach_mono)
  then show ?thesis by (simp add: pickupLoops_def split_def Let_def)
qed

lemma collisionPhase_mono: "scoreRef s \<le> scoreRef (collisionPhase env t m s)"
  by (simp add: collisionPhase_def Let_def pickupLoops_mono)

lemma scorePhase_mono: "0 \<le> g \<Longrightarrow> scoreRef s \<le> scoreRef (scorePhase t g m s)"
  by (simp add: scorePhase_def Let_def)

lemma update_mono:
  assumes "0 \<le> scoreRef s" and "0 \<le> timeScale s"
  shows "scoreRef s \<le> scoreRef (update gameState env inp s)"
proof (cases "gameState = PLAYING")
  case False
  then show ?thesis by (simp add: update_def)
next
  case True
  let ?m = "has (activePowerUps s) MULTIPLIER"
  let ?dt = "timeScale s"
  let ?t = "now inp"
  let ?g = "(6 + scoreRef s / 1200) * ?dt"
  let ?s5 = "physicsPhase ?dt (dashPhase (inputPhase env inp ?dt (registryPhase ?t ?m (shakePhase ?dt s))))"
  let ?s6 = "scorePhase ?t ?g ?m ?s5"
  let ?s7 = "obstaclesPhase env ?t ?dt ?g ?s6"
  let ?s10 = "particlesPhase ?dt (spawnPhase (scrollPhase ?g ?s7))"
  have g: "0 \<le> ?g" using assms by simp
  have "scoreRef s = scoreRef ?s5" by simp
  also have "\<dots> \<le> scoreRef ?s6" by (rule scorePhase_mono [OF g])
  also have "\<dots> \<le> scoreRef ?s7" by (rule obstaclesPhase_mono)
  also have "\<dots> = scoreRef ?s10" by simp
  also have "\<dots> \<le> scoreRef (collisionPhase env ?t ?m ?s10)" by (rule collisionPhase_mono)
  also have "\<dots> = scoreRef (update gameState env inp s)"
    by (simp add: True update_PLAYING Let_def)
  finally show ?thesis .
qed

lemma hazardLoop_timeScale: "0 \<le> timeScale s \<Longrightarrow> 0 \<le> timeScale (hazardLoop env t s)"
proof -
  assume a: "0 \<le> timeScale s"
  have "0 \<le> timeScale (snd (forEach (hazardStep env t) (obstacles s) s))"
  proof (rule forEach_inv [where P = "\<lambda>u. 0 \<le> timeScale u"])
    fix a and u :: game assume "0 \<le> timeScale u"
    then show "0 \<le> timeScale (snd (hazardStep env t a u))"
      by (cases "isDying u")
        (simp_all add: hazardStep_def Let_def triggerDeathSequence_dying triggerDeathSequence_alive)
  qed (rule a)
  then show ?thesis by (simp add: hazardLoop_def split_def Let_def)
qed

lemma update_timeScale: "0 \<le> timeScale s \<Longrightarrow> 0 \<le> timeScale (update gameState env inp s)"
  by (cases "gameState = PLAYING")
    (simp_all add: update_def Let_def collisionPhase_def hazardLoop_timeScale)

lemma resetGame_sel [simp]:
  "scoreRef (resetGame s) = 0"
  "lastLevelRef (resetGame s) = 1"
  "obstacles (resetGame s) = []"
  "collectibles (resetGame s) = []"
  "powerUps (resetGame s) = []"
  "particles (resetGame s) = []"
  "dashTrails (resetGame s) = []"
  "nearMissedObstacles (resetGame s) = {}"
  "activePowerUps (resetGame s) = []"
  "playerPos (resetGame s) = \<lparr>vec_x = 100, vec_y = 290\<rparr>"
  "playerVel (resetGame s) = \<lparr>vec_x = 0, vec_y = 0\<rparr>"
  "isDying (resetGame s) = False"
  "invincibleUntil (resetGame s) = 0"
  "timeScale (resetGame s) = 1"
  "shakeTime (resetGame s) = 0"
  "deathTimeoutRef (resetGame s) = None"
  "keysPressed (resetGame s) = keysPressed s"
  "isJumping (resetGame s) = isJumping s"
  "socialEvents (resetGame s) = socialEvents s"
  by (simp_all add: resetGame_def clearTimeout_def Let_def consts_defs split: option.splits)

lemma reachable_invariant: "reachable s \<Longrightarrow> 0 \<le> scoreRef s \<and> 0 \<le> timeScale s"
proof (induction rule: reachable.induct)
  case (mount r)
  show ?case by simp
next
  case (frame s gameState env inp)
  then show ?case
    using update_mono [of s gameState env inp] update_timeScale [of s gameState env inp]
    by simp
next
  case (keyDown s gameState env code)
  then show ?case by (simp add: handleKeyDown_def Let_def)
next
  case (keyUp s code)
  then show ?case by (simp add: handleKeyUp_def)
next
  case (gameStateChange s gameState)
  then show ?case by (simp add: onGameState_def)
next
  case (timeout s tid)
  then show ?case by (simp add: deathTimeout_def onGameOver_def Let_def)
qed

text \<open>
  C8. In every state a session can reach (from the component's initial references, by
  frames, key events, game-state changes and timeouts), a frame run while PLAYING and not
  dying leaves the score at least as high as it found it.
\<close>

theorem score_non_decreasing:
  assumes "reachable s" and "gameState = PLAYING" and "\<not> isDying s"
  shows "scoreRef s \<le> scoreRef (update gameState env inp s)"
  using reachable_invariant [OF assms(1)] by (simp add: update_mono)

theorem score_non_decreasing_witness:
  "reachable (initialGame zeroStream) \<and> \<not> isDying (initialGame zeroStream) \<and>
   scoreRef (initialGame zeroStream)
     \<le> scoreRef (update PLAYING DEFAULT_ENVIRONMENT (idle 0) (initialGame zeroStream))"
proof -
  have r: "reachable (initialGame zeroStream)" by (rule reachable.mount)
  have d: "\<not> isDying (initialGame zeroStream)" by simp
  from score_non_decreasing [OF r refl d, of DEFAULT_ENVIRONMENT "idle 0"] r d
  show ?thesis by simp
qed


subsection \<open>Near misses\<close>

lemma sqrt_less_55: "sqrt x < 55 \<longleftrightarrow> x < 3025"
proof -
  have "sqrt x < sqrt 3025 \<longleftrightarrow> x < 3025" by (rule real_sqrt_less_iff)
  moreover have "sqrt 3025 = 55"
    by (rule real_sqrt_unique) simp_all
  ultimately show ?thesis by simp
qed

lemma nearMissCheck_credit:
  assumes "\<not> isDying s" and "obs_id obs \<notin> nearMissedObstacles s"
    and "nearMissDist (playerPos s) obs < PLAYER_SIZE + NEAR_MISS_THRESHOLD"
  shows "nearMissedObstacles (nearMissCheck t obs s) = insert (obs_id obs) (nearMissedObstacles s)"
    and "scoreRef (nearMissCheck t obs s) = scoreRef s + 500"
    and "socialEvents (nearMissCheck t obs s) = socialEvents s @ [NEAR_MISS]"
  using assms by (simp_all add: nearMissCheck_def Let_def onSocialEvent_def)

lemma nearMissCheck_known: "obs_id obs \<in> nearMissedObstacles s \<Longrightarrow> nearMissCheck t obs s = s"
  by (simp add: nearMissCheck_def)

text \<open>Relative to a starting state \<open>s\<close>: the set has only grown, by finitely many ids, and
  one NEAR_MISS has been emitted for each id that was added.\<close>

lemma nearMissCheck_tally:
  assumes "nearMissedObstacles s \<subseteq> nearMissedObstacles u"
    and "finite (nearMissedObstacles u - nearMissedObstacles s)"
    and "emitted NEAR_MISS u = n + card (nearMissedObstacles u - nearMissedObstacles s)"
  shows "nearMissedObstacles s \<subseteq> nearMissedObstacles (nearMissCheck t obs u) \<and>
         finite (nearMissedObstacles (nearMissCheck t obs u) - nearMissedObstacles s) \<and>
         emitted NEAR_MISS (nearMissCheck t obs u) =
           n + card (nearMissedObstacles (nearMissCheck t obs u) - nearMissedObstacles s)"
proof (cases "\<not> isDying u \<and> obs_id obs \<notin> nearMissedObstacles u \<and>
    nearMissDist (playerPos u) obs < PLAYER_SIZE + NEAR_MISS_THRESHOLD")
  case False
  then have "nearMissCheck t obs u = u" by (auto simp: nearMissCheck_def)
  with assms show ?thesis by simp
next
  case True
  then have new: "obs_id obs \<notin> nearMissedObstacles u" by simp
  with assms(1) have new': "obs_id obs \<notin> nearMissedObstacles s" by auto
  have set: "nearMissedObstacles (nearMissCheck t obs u) = insert (obs_id obs) (nearMissedObstacles u)"
    and ev: "emitted NEAR_MISS (nearMissCheck t obs u) = emitted NEAR_MISS u + 1"
    using True by (simp_all add: nearMissCheck_def Let_def emitted_def onSocialEvent_def)
  have diff: "insert (obs_id obs) (nearMissedObstacles u) - nearMissedObstacles s =
      insert (obs_id obs) (nearMissedObstacles u - nearMissedObstacles s)"
    using new' by auto
  have "card (insert (obs_id obs) (nearMissedObstacles u - nearMissedObstacles s)) =
      Suc (card (nearMissedObstacles u - nearMissedObstacles s))"
    using assms(2) new by simp
  with assms set ev diff show ?thesis by auto
qed

lemma obstaclesPhase_tally:
  "nearMissedObstacles s \<subseteq> nearMissedObstacles (obstaclesPhase env t dt g s) \<and>
   finite (nearMissedObstacles (obstaclesPhase env t dt g s) - nearMissedObstacles s) \<and>
   emitted NEAR_MISS (obstaclesPhase env t dt g s) =
     emitted NEAR_MISS s + card (nearMissedObstacles (obstaclesPhase env t dt g s) - nearMissedObstacles s)"
proof -
  let ?P = "\<lambda>u::game. nearMissedObstacles s \<subseteq> nearMissedObstacles u \<and>
     finite (nearMissedObstacles u - nearMissedObstacles s) \<and>
     emitted NEAR_MISS u = emitted NEAR_MISS s + card (nearMissedObstacles u - nearMissedObstacles s)"
  have "?P (snd (forEach (obstacleStep env t dt g) (obstacles s) s))"
  proof (rule forEach_inv [where P = ?P])
    fix a and u :: game assume u: "?P u"
    let ?b = "snd (behave env t dt g a u)"
    have "?P ?b" using u by (simp add: emitted_def)
    then have "?P (nearMissCheck t (fst (behave env t dt g a u)) ?b)"
      using nearMissCheck_tally [of s ?b "emitted NEAR_MISS s" t "fst (behave env t dt g a u)"]
      by blast
    then show "?P (snd (obstacleStep env t dt g a u))"
      by (simp add: obstacleStep_def split_def Let_def)
  qed simp
  then show ?thesis
    by (simp add: obstaclesPhase_def split_def Let_def emitted_def)
qed

lemma update_tally:
  "nearMissedObstacles s \<subseteq> nearMissedObstacles (update gameState env inp s) \<and>
   finite (nearMissedObstacles (update gameState env inp s) - nearMissedObstacles s) \<and>
   emitted NEAR_MISS (update gameState env inp s) =
     emitted NEAR_MISS s + card (nearMissedObstacles (update gameState env inp s) - nearMissedObstacles s)"
proof (cases "gameState = PLAYING")
  case False
  then show ?thesis by (simp add: update_def)
next
  case True
  let ?m = "has (activePowerUps s) MULTIPLIER"
  let ?dt = "timeScale s"
  let ?t = "now inp"
  let ?g = "(6 + scoreRef s / 1200) * ?dt"
  let ?s5 = "physicsPhase ?dt (dashPhase (inputPhase env inp ?dt (registryPhase ?t ?m (shakePhase ?dt s))))"
  let ?s6 = "scorePhase ?t ?g ?m ?s5"
  let ?s7 = "obstaclesPhase env ?t ?dt ?g ?s6"
  let ?s10 = "particlesPhase ?dt (spawnPhase (scrollPhase ?g ?s7))"
  have n6: "nearMissedObstacles ?s6 = nearMissedObstacles s" by simp
  have "emitted NEAR_MISS ?s6 = emitted NEAR_MISS ?s5"
    by (rule scorePhase_emitted) simp
  then have e6: "emitted NEAR_MISS ?s6 = emitted NEAR_MISS s" by (simp add: emitted_def)
  have n11: "nearMissedObstacles (update gameState env inp s) = nearMissedObstacles ?s7"
    by (simp add: True update_PLAYING Let_def)
  have "emitted NEAR_MISS (update gameState env inp s) = emitted NEAR_MISS (collisionPhase env ?t ?m ?s10)"
    by (simp add: True update_PLAYING Let_def emitted_def)
  also have "\<dots> = emitted NEAR_MISS ?s10" by (rule collisionPhase_emitted) simp_all
  also have "\<dots> = emitted NEAR_MISS ?s7" by (rule emitted_cong) simp
  finally have e11: "emitted NEAR_MISS (update gameState env inp s) = emitted NEAR_MISS ?s7" .
  from obstaclesPhase_tally [of ?s6 env ?t ?dt ?g] show ?thesis
    unfolding n11 e11 n6 e6 .
qed

lemma frames_tally:
  "nearMissedObstacles s \<subseteq> nearMissedObstacles (frames fs s) \<and>
   finite (nearMissedObstacles (frames fs s) - nearMissedObstacles s) \<and>
   emitted NEAR_MISS (frames fs s) =
     emitted NEAR_MISS s + card (nearMissedObstacles (frames fs s) - nearMissedObstacles s)"
proof (induction fs arbitrary: s)
  case Nil
  show ?case by simp
next
  case (Cons f fs)
  obtain gs env inp where f: "f = (gs, env, inp)" by (cases f) auto
  let ?u = "update gs env inp s"
  let ?A = "nearMissedObstacles s" and ?B = "nearMissedObstacles ?u"
    and ?C = "nearMissedObstacles (frames fs ?u)"
  note 1 = update_tally [of s gs env inp] and 2 = Cons.IH [of ?u]
  have sub: "?A \<subseteq> ?B" "?B \<subseteq> ?C" and fin: "finite (?B - ?A)" "finite (?C - ?B)"
    using 1 2 by simp_all
  have split: "?C - ?A = (?C - ?B) \<union> (?B - ?A)" and disj: "(?C - ?B) \<inter> (?B - ?A) = {}"
    using sub by auto
  have "card (?C - ?A) = card (?C - ?B) + card (?B - ?A)"
    unfolding split using fin disj by (simp add: card_Un_disjoint)
  with 1 2 sub fin split show ?case
    by (simp add: f)
qed

lemma near_groundSpike:
  "nearMissDist \<lparr>vec_x = px, vec_y = py\<rparr> (groundSpike i x) < PLAYER_SIZE + NEAR_MISS_THRESHOLD
     \<longleftrightarrow> (px - x) * (px - x) + (py - 290) * (py - 290) < 3025"
  by (simp add: nearMissDist_def groundSpike_def consts_defs Let_def sqrt_less_55)

text \<open>The obstacle loop, exactly: with the player alive, the ids it adds are those of the
  moved obstacles whose centre is within reach of the player's.\<close>

lemma nearMissCheck_set:
  "\<not> isDying s \<Longrightarrow>
   nearMissedObstacles (nearMissCheck t obs s) =
     nearMissedObstacles s \<union>
     (if nearMissDist (playerPos s) obs < PLAYER_SIZE + NEAR_MISS_THRESHOLD then {obs_id obs} else {})"
  by (auto simp: nearMissCheck_def Let_def onSocialEvent_def)

lemma obstacleStep_set:
  "\<not> isDying s \<Longrightarrow>
   nearMissedObstacles (snd (obstacleStep env t dt g a s)) =
     nearMissedObstacles s \<union>
     (if nearMissDist (playerPos s) (fst (obstacleStep env t dt g a s)) < PLAYER_SIZE + NEAR_MISS_THRESHOLD
      then {obs_id (fst (obstacleStep env t dt g a s))} else {})"
  by (simp add: obstacleStep_def split_def Let_def nearMissCheck_set)

lemma obstacleLoop_near:
  assumes "\<not> isDying s"
  shows "nearMissedObstacles (snd (forEach (obstacleStep env t dt g) xs s)) =
     nearMissedObstacles s \<union>
     set (map obs_id (filter (\<lambda>obs. nearMissDist (playerPos s) obs < PLAYER_SIZE + NEAR_MISS_THRESHOLD)
       (fst (forEach (obstacleStep env t dt g) xs s))))"
  using assms
proof (induction xs arbitrary: s)
  case Nil
  show ?case by simp
next
  case (Cons a xs)
  let ?u = "snd (obstacleStep env t dt g a s)"
  have u: "\<not> isDying ?u" "playerPos ?u = playerPos s" using Cons.prems by simp_all
  note ih = Cons.IH [OF u(1), unfolded u(2)]
  note st = obstacleStep_set [OF Cons.prems, of env t dt g a]
  show ?case
    unfolding forEach.simps split_def Let_def fst_conv snd_conv ih st
    by auto
qed

lemma obstaclesPhase_near:
  assumes "\<not> isDying s"
  shows "nearMissedObstacles (obstaclesPhase env t dt g s) =
     nearMissedObstacles s \<union>
     set (map obs_id (filter (\<lambda>obs. nearMissDist (playerPos s) obs < PLAYER_SIZE + NEAR_MISS_THRESHOLD)
       (obstacles (obstaclesPhase env t dt g s))))"
  using obstacleLoop_near [OF assms, of env t dt g "obstacles s"]
  by (simp add: obstaclesPhase_def split_def Let_def)

lemma update_near:
  assumes "\<not> isDying s"
  shows "nearMissedObstacles (update PLAYING env inp s) =
     nearMissedObstacles s \<union>
     set (map obs_id
       (filter (\<lambda>obs. nearMissDist (playerPos (afterObstacles env inp s)) obs
                        < PLAYER_SIZE + NEAR_MISS_THRESHOLD)
          (obstacles (afterObstacles env inp s))))"
proof -
  let ?s6 = "scorePhase (now inp) (tickSpeed env inp s) (tickMult s) (beforeScore env inp s)"
  have d: "\<not> isDying ?s6" using assms by simp
  have p: "playerPos ?s6 = playerPos (afterObstacles env inp s)" by simp
  have n: "nearMissedObstacles ?s6 = nearMissedObstacles s" by simp
  have a: "afterObstacles env inp s =
      obstaclesPhase env (now inp) (timeScale s) (tickSpeed env inp s) ?s6"
    by (simp only: afterObstacles_def)
  have "nearMissedObstacles (update PLAYING env inp s) =
      nearMissedObstacles (afterObstacles env inp s)"
    by (simp add: update_stages)
  also have "\<dots> = nearMissedObstacles s \<union>
     set (map obs_id
       (filter (\<lambda>obs. nearMissDist (playerPos (afterObstacles env inp s)) obs
                        < PLAYER_SIZE + NEAR_MISS_THRESHOLD)
          (obstacles (afterObstacles env inp s))))"
    using obstaclesPhase_near [OF d, of env "now inp" "timeScale s" "tickSpeed env inp s"]
    unfolding a [symmetric] p n .
  finally show ?thesis .
qed

text \<open>
  C5. A tick of a live player credits exactly the obstacles that, after moving, have their
  centre closer than \<open>PLAYER_SIZE + 25\<close> to the player's centre: their ids join the
  near-miss set; one NEAR_MISS is emitted and 500 is added to the score for every id that
  was not in the set before, and none for an id that was, however close the obstacle is.
  The check itself (lines 397-407), on an obstacle that has moved: with the id not yet in
  the set and the centres that close, it adds the id, adds exactly 500 and emits one
  NEAR_MISS; with the id already in the set it changes nothing. Over any run of frames
  the set only grows and the number of NEAR_MISS events emitted equals the number of ids
  added; only \<open>resetGame\<close> empties the set.
\<close>

theorem near_miss_once_per_id:
  "(gameState = PLAYING \<and> \<not> isDying s \<longrightarrow>
      nearMissedObstacles (update gameState env inp s) =
        nearMissedObstacles s \<union>
        set (map obs_id
          (filter (\<lambda>obs. nearMissDist (playerPos (afterObstacles env inp s)) obs
                           < PLAYER_SIZE + NEAR_MISS_THRESHOLD)
             (obstacles (afterObstacles env inp s)))) \<and>
      emitted NEAR_MISS (update gameState env inp s) =
        emitted NEAR_MISS s +
        card (nearMissedObstacles (update gameState env inp s) - nearMissedObstacles s) \<and>
      scoreRef (update gameState env inp s) =
        scoreRef s
        + (((6 + scoreRef s / 1200) * timeScale s) / 8) *
            (if has (activePowerUps s) MULTIPLIER then 2.5 else 1)
        + 500 * real (card (nearMissedObstacles (update gameState env inp s) - nearMissedObstacles s))
        + (if has (activePowerUps s) MULTIPLIER then 300 else 100) *
            (real (emitted COLLECT (update gameState env inp s)) - real (emitted COLLECT s))) \<and>
   (\<not> isDying s \<and> obs_id obs \<notin> nearMissedObstacles s \<and>
      nearMissDist (playerPos s) obs < PLAYER_SIZE + NEAR_MISS_THRESHOLD \<longrightarrow>
      nearMissedObstacles (nearMissCheck t obs s) = insert (obs_id obs) (nearMissedObstacles s) \<and>
      scoreRef (nearMissCheck t obs s) = scoreRef s + 500 \<and>
      socialEvents (nearMissCheck t obs s) = socialEvents s @ [NEAR_MISS]) \<and>
   (obs_id obs \<in> nearMissedObstacles s \<longrightarrow> nearMissCheck t obs s = s) \<and>
   nearMissedObstacles s \<subseteq> nearMissedObstacles (frames fs s) \<and>
   finite (nearMissedObstacles (frames fs s) - nearMissedObstacles s) \<and>
   emitted NEAR_MISS (frames fs s) =
     emitted NEAR_MISS s + card (nearMissedObstacles (frames fs s) - nearMissedObstacles s) \<and>
   nearMissedObstacles (resetGame s) = {}"
proof -
  have tick: "nearMissedObstacles (update gameState env inp s) =
        nearMissedObstacles s \<union>
        set (map obs_id
          (filter (\<lambda>obs. nearMissDist (playerPos (afterObstacles env inp s)) obs
                           < PLAYER_SIZE + NEAR_MISS_THRESHOLD)
             (obstacles (afterObstacles env inp s)))) \<and>
      emitted NEAR_MISS (update gameState env inp s) =
        emitted NEAR_MISS s +
        card (nearMissedObstacles (update gameState env inp s) - nearMissedObstacles s) \<and>
      scoreRef (update gameState env inp s) =
        scoreRef s
        + (((6 + scoreRef s / 1200) * timeScale s) / 8) *
            (if has (activePowerUps s) MULTIPLIER then 2.5 else 1)
        + 500 * real (card (nearMissedObstacles (update gameState env inp s) - nearMissedObstacles s))
        + (if has (activePowerUps s) MULTIPLIER then 300 else 100) *
            (real (emitted COLLECT (update gameState env inp s)) - real (emitted COLLECT s))"
    if g: "gameState = PLAYING" and alive: "\<not> isDying s"
  proof -
    note t = update_tally [of s PLAYING env inp]
    from t have e: "emitted NEAR_MISS (update PLAYING env inp s) =
        emitted NEAR_MISS s +
        card (nearMissedObstacles (update PLAYING env inp s) - nearMissedObstacles s)"
      by simp
    have sc: "scoreRef (update PLAYING env inp s) =
        scoreRef s
        + (((6 + scoreRef s / 1200) * timeScale s) / 8) *
            (if has (activePowerUps s) MULTIPLIER then 2.5 else 1)
        + 500 * real (card (nearMissedObstacles (update PLAYING env inp s) - nearMissedObstacles s))
        + (if has (activePowerUps s) MULTIPLIER then 300 else 100) *
            (real (emitted COLLECT (update PLAYING env inp s)) - real (emitted COLLECT s))"
      using update_passive [OF alive, of env inp] unfolding passiveScore_def e
      by (simp add: algebra_simps)
    show ?thesis unfolding g using update_near [OF alive, of env inp] e sc by simp
  qed
  have "nearMissedObstacles (resetGame s) = {}" by simp
  with tick frames_tally [of s fs] show ?thesis
    by (simp add: nearMissCheck_credit nearMissCheck_known)
qed


subsection \<open>Obstacles keep their identity and speed multiplier\<close>

lemma stompStep_tag:
  "obs_id (fst (stompStep env dt obs st tm pl s)) = obs_id obs"
  "speedMultiplier (fst (stompStep env dt obs st tm pl s)) = speedMultiplier obs"
  by (simp_all add: stompStep_def split_def Let_def split: StompStage.splits)

lemma behave_tag:
  "obs_id (fst (behave env t dt g obs s)) = obs_id obs"
  "speedMultiplier (fst (behave env t dt g obs s)) = speedMultiplier obs"
  by (simp_all add: behave_def Let_def stompStep_tag split: ObstacleKind.splits)

lemma obstacleStep_tag:
  "(\<lambda>obs. (obs_id obs, speedMultiplier obs)) (fst (obstacleStep env t dt g obs s)) =
   (\<lambda>obs. (obs_id obs, speedMultiplier obs)) obs"
  by (simp add: obstacleStep_def split_def Let_def behave_tag)

lemma hazardStep_tag:
  "(\<lambda>obs. (obs_id obs, speedMultiplier obs)) (fst (hazardStep env t obs s)) =
   (\<lambda>obs. (obs_id obs, speedMultiplier obs)) obs"
  by (simp add: hazardStep_def Let_def)

lemma obstaclesPhase_tags:
  "map (\<lambda>obs. (obs_id obs, speedMultiplier obs)) (obstacles (obstaclesPhase env t dt g s)) =
   map (\<lambda>obs. (obs_id obs, speedMultiplier obs)) (obstacles s)"
  unfolding obstaclesPhase_def split_def Let_def
  by (simp add: forEach_map [where P = "\<lambda>obs. (obs_id obs, speedMultiplier obs)", OF obstacleStep_tag])

lemma hazardLoop_tags:
  "map (\<lambda>obs. (obs_id obs, speedMultiplier obs)) (obstacles (hazardLoop env t s)) =
   map (\<lambda>obs. (obs_id obs, speedMultiplier obs)) (obstacles s)"
  unfolding hazardLoop_def split_def Let_def
  by (simp add: forEach_map [where P = "\<lambda>obs. (obs_id obs, speedMultiplier obs)", OF hazardStep_tag])

lemma collisionPhase_tags:
  "map (\<lambda>obs. (obs_id obs, speedMultiplier obs)) (obstacles (collisionPhase env t m s)) =
   map (\<lambda>obs. (obs_id obs, speedMultiplier obs)) (obstacles s)"
  by (simp add: collisionPhase_def Let_def hazardLoop_tags)

lemma spawnObstacle_appends:
  "\<exists>obs. obstacles (spawnObstacle s) = obstacles s @ [obs] \<and>
         speedMultiplier obs = 1 + scoreRef s / 1000 \<and> obs_x obs = CANVAS_WIDTH + 150"
  by (simp add: spawnObstacle_def split_def Let_def)

lemma spawnPhase_appends:
  "\<exists>new. obstacles (spawnPhase s) = obstacles s @ new \<and> length new \<le> 1 \<and>
          (\<forall>obs \<in> set new. speedMultiplier obs = 1 + scoreRef s / 1000)"
proof (cases "spawnPhase s = s")
  case True
  then have "obstacles (spawnPhase s) = obstacles s @ []" by simp
  then show ?thesis by (intro exI [of _ "[]"]) simp
next
  case False
  then have "spawnPhase s = spawnObstacle s" by (simp add: spawnPhase_def split: if_splits)
  with spawnObstacle_appends [of s] obtain obs where
    "obstacles (spawnPhase s) = obstacles s @ [obs]" "speedMultiplier obs = 1 + scoreRef s / 1000"
    by auto
  then show ?thesis by (intro exI [of _ "[obs]"]) simp
qed

lemma spawnPhase_exact:
  "\<exists>new :: Obstacle list. obstacles (spawnPhase s) = obstacles s @ new \<and>
     length new = (if \<not> isDying s \<and>
                      (length (obstacles s) = 0 \<or>
                       obs_x (last (obstacles s)) < CANVAS_WIDTH - (250 - min (scoreRef s / 30) 150))
                   then 1 else 0) \<and>
     (\<forall>obs \<in> set new. speedMultiplier obs = 1 + scoreRef s / 1000)"
proof (cases "\<not> isDying s \<and>
                      (length (obstacles s) = 0 \<or>
                       obs_x (last (obstacles s)) < CANVAS_WIDTH - (250 - min (scoreRef s / 30) 150))")
  case False
  then have "spawnPhase s = s" unfolding spawnPhase_def by (rule if_not_P)
  then have "obstacles (spawnPhase s) = obstacles s @ []" by simp
  with False show ?thesis by (intro exI [of _ "[]"]) simp
next
  case True
  then have "spawnPhase s = spawnObstacle s" unfolding spawnPhase_def by (rule if_P)
  with spawnObstacle_appends [of s] obtain obs where
    "obstacles (spawnPhase s) = obstacles s @ [obs]" "speedMultiplier obs = 1 + scoreRef s / 1000"
    by auto
  with True show ?thesis by (intro exI [of _ "[obs]"]) simp
qed

lemma afterObstacles_tags:
  "map (\<lambda>obs. (obs_id obs, speedMultiplier obs)) (obstacles (afterObstacles env inp s)) = map (\<lambda>obs. (obs_id obs, speedMultiplier obs)) (obstacles s)"
  by (simp add: afterObstacles_def obstaclesPhase_tags)

lemma beforeSpawn_obstacles:
  "obstacles (beforeSpawn env inp s) =
     filter (\<lambda>obs. obs_x obs + width obs > - 50) (obstacles (afterObstacles env inp s))"
  by (simp add: beforeSpawn_def scrollPhase_def onScoreUpdate_def Let_def)

lemma update_obstacles:
  "map (\<lambda>obs. (obs_id obs, speedMultiplier obs)) (obstacles (update PLAYING env inp s)) =
   map (\<lambda>obs. (obs_id obs, speedMultiplier obs)) (obstacles (spawnPhase (beforeSpawn env inp s)))"
  by (simp add: update_stages collisionPhase_tags beforeCollision_def)

lemma update_tags:
  "\<exists>new :: Obstacle list.
     map (\<lambda>obs. (obs_id obs, speedMultiplier obs)) (obstacles (update PLAYING env inp s)) =
       map (\<lambda>obs. (obs_id obs, speedMultiplier obs)) (obstacles (beforeSpawn env inp s)) @ map (\<lambda>obs. (obs_id obs, speedMultiplier obs)) new \<and>
     length new = (if \<not> isDying s \<and>
                          (length (obstacles (beforeSpawn env inp s)) = 0 \<or>
                           obs_x (last (obstacles (beforeSpawn env inp s)))
                             < CANVAS_WIDTH - (250 - min (scoreRef (beforeSpawn env inp s) / 30) 150))
                   then 1 else 0) \<and>
     (\<forall>obs \<in> set new. speedMultiplier obs = 1 + scoreRef (beforeSpawn env inp s) / 1000)"
proof -
  from spawnPhase_exact [of "beforeSpawn env inp s"] obtain new :: "Obstacle list" where
    new: "obstacles (spawnPhase (beforeSpawn env inp s)) = obstacles (beforeSpawn env inp s) @ new"
      "length new = (if \<not> isDying s \<and>
                          (length (obstacles (beforeSpawn env inp s)) = 0 \<or>
                           obs_x (last (obstacles (beforeSpawn env inp s)))
                             < CANVAS_WIDTH - (250 - min (scoreRef (beforeSpawn env inp s) / 30) 150))
                   then 1 else 0)"
      "\<forall>obs \<in> set new. speedMultiplier obs = 1 + scoreRef (beforeSpawn env inp s) / 1000"
    by auto
  show ?thesis
  proof (intro exI conjI)
    show "map (\<lambda>obs. (obs_id obs, speedMultiplier obs)) (obstacles (update PLAYING env inp s)) =
       map (\<lambda>obs. (obs_id obs, speedMultiplier obs)) (obstacles (beforeSpawn env inp s)) @ map (\<lambda>obs. (obs_id obs, speedMultiplier obs)) new"
      unfolding update_obstacles new(1) by simp
    show "length new = (if \<not> isDying s \<and>
                          (length (obstacles (beforeSpawn env inp s)) = 0 \<or>
                           obs_x (last (obstacles (beforeSpawn env inp s)))
                             < CANVAS_WIDTH - (250 - min (scoreRef (beforeSpawn env inp s) / 30) 150))
                   then 1 else 0)"
      by (rule new(2))
    show "\<forall>obs \<in> set new. speedMultiplier obs = 1 + scoreRef (beforeSpawn env inp s) / 1000"
      by (rule new(3))
  qed
qed

text \<open>
  C4. \<open>spawnObstacle\<close> appends one obstacle whose \<open>speedMultiplier\<close> is
  \<open>1 + score / 1000\<close> for the score at the moment of the call, which is 3 at score 2000.
  No tick changes it afterwards. A tick outside PLAYING leaves the obstacles alone. In a
  tick while PLAYING the obstacle loop keeps every obstacle's id and \<open>speedMultiplier\<close>,
  position by position; the scroll phase only drops the obstacles that have left the
  stage; and the obstacles at the end of the tick have, in order, the ids and
  \<open>speedMultiplier\<close>s of those survivors, followed by those of the one obstacle spawned
  if the spawn condition of lines 417-418 holds, whose \<open>speedMultiplier\<close> is
  \<open>1 + score / 1000\<close> for the score at that moment of the tick.
\<close>

theorem speed_multiplier_fixed_at_spawn:
  "(\<exists>obs. obstacles (spawnObstacle s) = obstacles s @ [obs] \<and>
          speedMultiplier obs = 1 + scoreRef s / 1000) \<and>
   (scoreRef s = 2000 \<longrightarrow> speedMultiplier (last (obstacles (spawnObstacle s))) = 3) \<and>
   (gameState \<noteq> PLAYING \<longrightarrow> obstacles (update gameState env inp s) = obstacles s) \<and>
   (gameState = PLAYING \<longrightarrow>
      map (\<lambda>obs. (obs_id obs, speedMultiplier obs)) (obstacles (afterObstacles env inp s)) = map (\<lambda>obs. (obs_id obs, speedMultiplier obs)) (obstacles s) \<and>
      obstacles (beforeSpawn env inp s) =
        filter (\<lambda>obs. obs_x obs + width obs > - 50) (obstacles (afterObstacles env inp s)) \<and>
      (\<exists>new :: Obstacle list.
         map (\<lambda>obs. (obs_id obs, speedMultiplier obs)) (obstacles (update gameState env inp s)) =
           map (\<lambda>obs. (obs_id obs, speedMultiplier obs)) (obstacles (beforeSpawn env inp s)) @ map (\<lambda>obs. (obs_id obs, speedMultiplier obs)) new \<and>
         length new = (if \<not> isDying s \<and>
                          (length (obstacles (beforeSpawn env inp s)) = 0 \<or>
                           obs_x (last (obstacles (beforeSpawn env inp s)))
                             < CANVAS_WIDTH - (250 - min (scoreRef (beforeSpawn env inp s) / 30) 150))
                       then 1 else 0) \<and>
         (\<forall>obs \<in> set new. speedMultiplier obs = 1 + scoreRef (beforeSpawn env inp s) / 1000)))"
proof (intro conjI impI)
  from spawnObstacle_appends [of s]
  show "\<exists>obs. obstacles (spawnObstacle s) = obstacles s @ [obs] \<and>
          speedMultiplier obs = 1 + scoreRef s / 1000"
    by blast
next
  assume "scoreRef s = 2000"
  with spawnObstacle_appends [of s] show "speedMultiplier (last (obstacles (spawnObstacle s))) = 3"
    by auto
next
  assume "gameState \<noteq> PLAYING"
  then show "obstacles (update gameState env inp s) = obstacles s" by (simp add: update_def)
next
  show "map (\<lambda>obs. (obs_id obs, speedMultiplier obs)) (obstacles (afterObstacles env inp s)) = map (\<lambda>obs. (obs_id obs, speedMultiplier obs)) (obstacles s)"
    by (rule afterObstacles_tags)
next
  show "obstacles (beforeSpawn env inp s) =
        filter (\<lambda>obs. obs_x obs + width obs > - 50) (obstacles (afterObstacles env inp s))"
    by (rule beforeSpawn_obstacles)
next
  assume g: "gameState = PLAYING"
  show "\<exists>new :: Obstacle list.
         map (\<lambda>obs. (obs_id obs, speedMultiplier obs)) (obstacles (update gameState env inp s)) =
           map (\<lambda>obs. (obs_id obs, speedMultiplier obs)) (obstacles (beforeSpawn env inp s)) @ map (\<lambda>obs. (obs_id obs, speedMultiplier obs)) new \<and>
         length new = (if \<not> isDying s \<and>
                          (length (obstacles (beforeSpawn env inp s)) = 0 \<or>
                           obs_x (last (obstacles (beforeSpawn env inp s)))
                             < CANVAS_WIDTH - (250 - min (scoreRef (beforeSpawn env inp s) / 30) 150))
                       then 1 else 0) \<and>
         (\<forall>obs \<in> set new. speedMultiplier obs = 1 + scoreRef (beforeSpawn env inp s) / 1000)"
    unfolding g by (rule update_tags)
qed


subsection \<open>The laser band\<close>

text \<open>
  C10. For a laser the hazard test is: the laser is active and the player's horizontal
  extent \<open>(x, x + PLAYER_SIZE)\<close> overlaps the band \<open>(obs.x + 5, obs.x + width - 5)\<close>. The
  player's \<open>y\<close> does not occur in it, so two positions that differ only in \<open>y\<close> get the
  same outcome.
\<close>

theorem laser_hit_ignores_height:
  assumes "isLaser obs"
  shows "(hit p obs \<longleftrightarrow>
            laserActive obs \<and> vec_x p + PLAYER_SIZE > obs_x obs + 5 \<and>
            vec_x p < obs_x obs + width obs - 5) \<and>
         hit (p\<lparr>vec_y := y1\<rparr>) obs = hit (p\<lparr>vec_y := y2\<rparr>) obs"
  using assms by (simp add: hit_def)

theorem laser_hit_ignores_height_witness:
  "isLaser (beam ''l'' 110 0 True) \<and>
   hit \<lparr>vec_x = 100, vec_y = 290\<rparr> (beam ''l'' 110 0 True) \<and>
   hit \<lparr>vec_x = 100, vec_y = 40\<rparr> (beam ''l'' 110 0 True) \<and>
   \<not> hit \<lparr>vec_x = 100, vec_y = 290\<rparr> (beam ''l'' 110 0 False) \<and>
   \<not> hit \<lparr>vec_x = 60, vec_y = 40\<rparr> (beam ''l'' 110 0 True)"
proof -
  have l: "isLaser (beam ''l'' 110 t a)" for t a
    by (simp add: isLaser_def beam_def)
  have a: "laserActive (beam ''l'' 110 0 True)" "\<not> laserActive (beam ''l'' 110 0 False)"
    by (simp_all add: laserActive_def beam_def)
  have g: "obs_x (beam ''l'' 110 t b) = 110" "width (beam ''l'' 110 t b) = 20" for t b
    by (simp_all add: beam_def)
  note T = laser_hit_ignores_height [OF l]
  have 1: "hit \<lparr>vec_x = 100, vec_y = 290\<rparr> (beam ''l'' 110 0 True)"
    using T [of "\<lparr>vec_x = 100, vec_y = 290\<rparr>" 0 True 290 40] a by (simp add: g consts_defs)
  have "hit (\<lparr>vec_x = 100, vec_y = 290\<rparr>\<lparr>vec_y := 290\<rparr>) (beam ''l'' 110 0 True) =
      hit (\<lparr>vec_x = 100, vec_y = 290\<rparr>\<lparr>vec_y := 40\<rparr>) (beam ''l'' 110 0 True)"
    using T [of "\<lparr>vec_x = 100, vec_y = 290\<rparr>" 0 True 290 40] by (rule conjunct2)
  with 1 have 2: "hit \<lparr>vec_x = 100, vec_y = 40\<rparr> (beam ''l'' 110 0 True)" by simp
  have 3: "\<not> hit \<lparr>vec_x = 100, vec_y = 290\<rparr> (beam ''l'' 110 0 False)"
    using T [of "\<lparr>vec_x = 100, vec_y = 290\<rparr>" 0 False 290 40] a by simp
  have 4: "\<not> hit \<lparr>vec_x = 60, vec_y = 40\<rparr> (beam ''l'' 110 0 True)"
    using T [of "\<lparr>vec_x = 60, vec_y = 40\<rparr>" 0 True 290 40] by (simp add: g consts_defs)
  from l 1 2 3 4 show ?thesis by simp
qed

subsection \<open>The shield\<close>

lemma has_delete [simp]: "has (AList.delete t m) t' = (t' \<noteq> t \<and> has m t')"
  by (simp add: has_def delete_conv')

text \<open>One hit with SHIELD in the registry (lines 460-465): the entry goes, the
  invincibility expiry becomes \<open>now + 1000\<close>, the obstacle is moved to \<open>x = -1000\<close> unless it
  is a laser, and the death sequence is not entered.\<close>

lemma hazardStep_shield:
  assumes "hit (playerPos s) obs" and "has (activePowerUps s) SHIELD"
  shows "activePowerUps (snd (hazardStep env t obs s)) = AList.delete SHIELD (activePowerUps s)"
    and "invincibleUntil (snd (hazardStep env t obs s)) = t + 1000"
    and "fst (hazardStep env t obs s) = (if isLaser obs then obs else obs\<lparr>obs_x := - 1000\<rparr>)"
    and "isDying (snd (hazardStep env t obs s)) = isDying s"
    and "timeScale (snd (hazardStep env t obs s)) = timeScale s"
    and "pendingTimers (snd (hazardStep env t obs s)) = pendingTimers s"
    and "playerPos (snd (hazardStep env t obs s)) = playerPos s"
    and "audioCues (snd (hazardStep env t obs s)) = audioCues s @ [ShieldBreakSound]"
  using assms by (simp_all add: hazardStep_def Let_def playSound_def)

text \<open>The defect in general: the first obstacle that hits is absorbed by the shield, and
  any later obstacle of the same loop that also overlaps the player kills.\<close>

lemma hazardLoop_shield_then_hit:
  assumes obs: "obstacles s = pre @ a # rest"
    and pre: "\<forall>obs \<in> set pre. \<not> hit (playerPos s) obs"
    and a: "hit (playerPos s) a"
    and shield: "has (activePowerUps s) SHIELD"
    and rest: "\<exists>b \<in> set rest. hit (playerPos s) b"
  shows "isDying (hazardLoop env t s)"
    and "activePowerUps (hazardLoop env t s) = AList.delete SHIELD (activePowerUps s)"
    and "invincibleUntil (hazardLoop env t s) = t + 1000"
proof -
  let ?s1 = "snd (hazardStep env t a s)"
  let ?d = "triggerDeathSequence env (vec_x (playerPos ?s1)) (vec_y (playerPos ?s1)) ?s1"
  note 1 = hazardStep_shield [OF a shield, of env t]
  have p: "forEach (hazardStep env t) pre s = (pre, s)"
    by (rule forEach_id) (use pre in \<open>simp add: hazardStep_def\<close>)
  have no: "\<not> has (activePowerUps ?s1) SHIELD" by (simp add: 1)
  have r: "\<exists>b \<in> set rest. hit (playerPos ?s1) b" using rest by (simp add: 1)
  have "snd (forEach (hazardStep env t) rest ?s1) = ?d"
    using r by (simp add: forEach_hazard_no_shield [OF no])
  then have "snd (forEach (hazardStep env t) (obstacles s) s) = ?d"
    by (simp add: obs forEach_append p split_def Let_def)
  then have loop: "hazardLoop env t s = ?d\<lparr>obstacles := fst (forEach (hazardStep env t) (obstacles s) s)\<rparr>"
    by (simp add: hazardLoop_def split_def Let_def)
  show "isDying (hazardLoop env t s)" unfolding loop by simp
  show "activePowerUps (hazardLoop env t s) = AList.delete SHIELD (activePowerUps s)"
    unfolding loop by (simp add: 1)
  show "invincibleUntil (hazardLoop env t s) = t + 1000"
    unfolding loop by (simp add: 1)
qed


subsection \<open>The frame after a reset\<close>

lemma physicsPhase_clamps:
  "0 \<le> vec_x (playerPos (physicsPhase dt s))"
  "vec_x (playerPos (physicsPhase dt s)) \<le> 770"
  by (simp_all add: physicsPhase_def Let_def consts_defs)

lemma spawnShape_inactive: "snd (snd (snd (fst (spawnShape ty s)))) \<noteq> laser t True"
  by (cases ty) (simp_all add: spawnShape_def split_def Let_def)

lemma spawnObstacle_obstacle:
  "\<exists>obs. obstacles (spawnObstacle s) = obstacles s @ [obs] \<and> obs_x obs = 950 \<and> \<not> laserActive obs"
proof -
  have "laserActive obs \<longleftrightarrow> (\<exists>t. kind obs = laser t True)" for obs
    by (cases "kind obs") (simp_all add: laserActive_def)
  then show ?thesis
    by (simp add: spawnObstacle_def split_def Let_def consts_defs spawnShape_inactive)
qed

lemma spawnObstacle_pickups:
  "\<forall>pup \<in> set (powerUps (spawnObstacle s)). pup \<in> set (powerUps s) \<or> pup_x pup = 1000"
  "\<forall>col \<in> set (collectibles (spawnObstacle s)). col \<in> set (collectibles s) \<or> col_x col = 1000"
  by (auto simp: spawnObstacle_def spawnPowerUp_def spawnCollectible_def split_def Let_def consts_defs)

lemma far_right_no_hit:
  assumes "obs_x obs = 950" and "\<not> laserActive obs" and "vec_x p \<le> 770"
  shows "\<not> hit p obs"
  using assms by (simp add: hit_def consts_defs)

lemma far_right_no_overlap: "vec_x p \<le> 770 \<Longrightarrow> \<not> overlaps p 1000 ey esize"
  by (simp add: overlaps_def consts_defs)

lemma pickupLoops_none:
  assumes "\<forall>pup \<in> set (powerUps s). \<not> overlaps (playerPos s) (pup_x pup) (pup_y pup) (pup_size pup)"
    and "\<forall>col \<in> set (collectibles s). \<not> overlaps (playerPos s) (col_x col) (col_y col) (col_size col)"
  shows "pickupLoops t m s = s"
proof -
  have 1: "forEach (pickupPowerUp t) (powerUps s) s = (powerUps s, s)"
    by (rule forEach_id) (use assms(1) in \<open>simp add: pickupPowerUp_def\<close>)
  have 2: "forEach (pickupCollectible m) (collectibles s) s = (collectibles s, s)"
    by (rule forEach_id) (use assms(2) in \<open>simp add: pickupCollectible_def\<close>)
  show ?thesis by (simp add: pickupLoops_def 1 2)
qed

lemma hazardLoop_none:
  assumes "\<forall>obs \<in> set (obstacles s). \<not> hit (playerPos s) obs"
  shows "hazardLoop env t s = s"
proof -
  have "forEach (hazardStep env t) (obstacles s) s = (obstacles s, s)"
    by (rule forEach_id) (use assms in \<open>simp add: hazardStep_def\<close>)
  then show ?thesis by (simp add: hazardLoop_def)
qed

lemma update_after_reset:
  "scoreRef (update PLAYING env inp (resetGame s)) = 3 / 4"
  "length (obstacles (update PLAYING env inp (resetGame s))) = 1"
  "nearMissedObstacles (update PLAYING env inp (resetGame s)) = {}"
  "activePowerUps (update PLAYING env inp (resetGame s)) = []"
  "timeScale (update PLAYING env inp (resetGame s)) = 1"
  "\<not> isDying (update PLAYING env inp (resetGame s))"
proof -
  let ?r = "resetGame s"
  let ?t = "now inp"
  let ?s5 = "physicsPhase 1 (dashPhase (inputPhase env inp 1 (registryPhase ?t False (shakePhase 1 ?r))))"
  let ?s6 = "scorePhase ?t 6 False ?s5"
  let ?s7 = "obstaclesPhase env ?t 1 6 ?s6"
  let ?s8 = "scrollPhase 6 ?s7"
  let ?s9 = "spawnPhase ?s8"
  let ?s10 = "particlesPhase 1 ?s9"
  let ?s11 = "collisionPhase env ?t False ?s10"
  have upd: "update PLAYING env inp ?r = ?s11\<lparr>backgroundOffset := backgroundOffset ?s11 - 6 * 0.5\<rparr>"
    by (simp add: update_PLAYING Let_def)
  have a5: "activePowerUps (registryPhase ?t False (shakePhase 1 ?r)) = []"
    by (simp add: registryPhase_def)
  have s6: "?s6 = ?s5\<lparr>scoreRef := 3 / 4\<rparr>"
    by (simp add: scorePhase_def Let_def)
  have s7: "obstaclesPhase env ?t 1 6 (?s5\<lparr>scoreRef := 3 / 4\<rparr>) = ?s5\<lparr>scoreRef := 3 / 4\<rparr>"
    by (simp add: obstaclesPhase_def)
  have l8: "obstacles ?s8 = []" "collectibles ?s8 = []" "powerUps ?s8 = []"
    by (simp_all add: s6 s7) (simp_all add: scrollPhase_def onScoreUpdate_def Let_def)
  have s9: "?s9 = spawnObstacle ?s8"
    by (simp add: spawnPhase_def l8)
  from spawnObstacle_obstacle [of ?s8] obtain obs where
    obs: "obstacles ?s9 = [obs]" "obs_x obs = 950" "\<not> laserActive obs"
    unfolding s9 l8 by auto
  have p10: "vec_x (playerPos ?s10) \<le> 770"
    using physicsPhase_clamps(2) [of 1 "dashPhase (inputPhase env inp 1 (registryPhase ?t False (shakePhase 1 ?r)))"]
    by (simp add: s6 s7)
  have pups: "\<forall>pup \<in> set (powerUps ?s10). pup_x pup = 1000"
    and cols: "\<forall>col \<in> set (collectibles ?s10). col_x col = 1000"
    using spawnObstacle_pickups [of ?s8] unfolding s9 l8 by simp_all
  have pick: "pickupLoops ?t False ?s10 = ?s10"
  proof (rule pickupLoops_none)
    show "\<forall>pup \<in> set (powerUps ?s10).
        \<not> overlaps (playerPos ?s10) (pup_x pup) (pup_y pup) (pup_size pup)"
      using pups far_right_no_overlap [OF p10] by simp
    show "\<forall>col \<in> set (collectibles ?s10).
        \<not> overlaps (playerPos ?s10) (col_x col) (col_y col) (col_size col)"
      using cols far_right_no_overlap [OF p10] by simp
  qed
  have haz: "hazardLoop env ?t ?s10 = ?s10"
  proof (rule hazardLoop_none)
    show "\<forall>o' \<in> set (obstacles ?s10). \<not> hit (playerPos ?s10) o'"
      using obs far_right_no_hit [OF obs(2,3) p10] by simp
  qed
  have s11: "?s11 = ?s10"
    by (simp add: collisionPhase_def Let_def pick haz)
  show "scoreRef (update PLAYING env inp (resetGame s)) = 3 / 4"
    unfolding upd s11 by (simp add: s6 s7)
  show "length (obstacles (update PLAYING env inp (resetGame s))) = 1"
    unfolding upd s11 using obs(1) by simp
  show "nearMissedObstacles (update PLAYING env inp (resetGame s)) = {}"
    unfolding upd s11 by (simp add: s6 s7)
  show "activePowerUps (update PLAYING env inp (resetGame s)) = []"
    unfolding upd s11 by (simp add: s6 s7 a5)
  show "timeScale (update PLAYING env inp (resetGame s)) = 1"
    unfolding upd s11 by (simp add: s6 s7)
  show "\<not> isDying (update PLAYING env inp (resetGame s))"
    unfolding upd s11 by (simp add: s6 s7)
qed


text \<open>
  C6 (as amended). Whatever the state before, \<open>resetGame\<close> leaves the obstacle,
  collectible, power-up and particle lists empty, the score zero, the near-miss set and
  the registry empty, the time scale 1.0 and the dying flag cleared. A frame that follows
  while the game state is not PLAYING changes nothing. A frame that follows while PLAYING
  keeps the near-miss set and the registry empty, the time scale 1.0 and the dying flag
  cleared, but it accrues the passive score of one frame, 0.75, and spawns one obstacle.
\<close>

theorem reset_then_frame:
  "(obstacles (resetGame s) = [] \<and> collectibles (resetGame s) = [] \<and> powerUps (resetGame s) = [] \<and>
    particles (resetGame s) = [] \<and> scoreRef (resetGame s) = 0 \<and>
    nearMissedObstacles (resetGame s) = {} \<and> activePowerUps (resetGame s) = [] \<and>
    timeScale (resetGame s) = 1 \<and> \<not> isDying (resetGame s)) \<and>
   (gameState \<noteq> PLAYING \<longrightarrow> update gameState env inp (resetGame s) = resetGame s) \<and>
   (gameState = PLAYING \<longrightarrow>
      scoreRef (update gameState env inp (resetGame s)) = 3 / 4 \<and>
      length (obstacles (update gameState env inp (resetGame s))) = 1 \<and>
      nearMissedObstacles (update gameState env inp (resetGame s)) = {} \<and>
      activePowerUps (update gameState env inp (resetGame s)) = [] \<and>
      timeScale (update gameState env inp (resetGame s)) = 1 \<and>
      \<not> isDying (update gameState env inp (resetGame s)))"
  by (simp add: update_after_reset) (simp add: update_def)

theorem reset_then_frame_witness:
  "update START DEFAULT_ENVIRONMENT (idle 0)
     (resetGame ((initialGame zeroStream)\<lparr>isDying := True, scoreRef := 1234\<rparr>))
     = resetGame ((initialGame zeroStream)\<lparr>isDying := True, scoreRef := 1234\<rparr>) \<and>
   scoreRef (update PLAYING DEFAULT_ENVIRONMENT (idle 0)
     (resetGame ((initialGame zeroStream)\<lparr>isDying := True, scoreRef := 1234\<rparr>))) = 3 / 4 \<and>
   nearMissedObstacles (update PLAYING DEFAULT_ENVIRONMENT (idle 0)
     (resetGame ((initialGame zeroStream)\<lparr>isDying := True, scoreRef := 1234\<rparr>))) = {}"
proof -
  let ?s = "(initialGame zeroStream)\<lparr>isDying := True, scoreRef := 1234\<rparr>"
  have a: "START \<noteq> PLAYING" by simp
  from reset_then_frame [of ?s START DEFAULT_ENVIRONMENT "idle 0"] a
  have 1: "update START DEFAULT_ENVIRONMENT (idle 0) (resetGame ?s) = resetGame ?s"
    by blast
  from reset_then_frame [of ?s PLAYING DEFAULT_ENVIRONMENT "idle 0"]
  have 2: "scoreRef (update PLAYING DEFAULT_ENVIRONMENT (idle 0) (resetGame ?s)) = 3 / 4 \<and>
      nearMissedObstacles (update PLAYING DEFAULT_ENVIRONMENT (idle 0) (resetGame ?s)) = {}"
    by blast
  from 1 2 show ?thesis by blast
qed

text \<open>
  The claim as stated fails in the very case the component resets for: the host goes back
  to PLAYING while the previous run is dying, the game-state effect resets, and the first
  frame of the new run ends with score 0.75 and one obstacle on stage.
\<close>

theorem reset_round_trip_counterexample:
  "onGameState PLAYING ((initialGame zeroStream)\<lparr>isDying := True, scoreRef := 1234\<rparr>)
     = resetGame ((initialGame zeroStream)\<lparr>isDying := True, scoreRef := 1234\<rparr>) \<and>
   scoreRef (update PLAYING DEFAULT_ENVIRONMENT (idle 0)
     (onGameState PLAYING ((initialGame zeroStream)\<lparr>isDying := True, scoreRef := 1234\<rparr>))) \<noteq> 0 \<and>
   obstacles (update PLAYING DEFAULT_ENVIRONMENT (idle 0)
     (onGameState PLAYING ((initialGame zeroStream)\<lparr>isDying := True, scoreRef := 1234\<rparr>))) \<noteq> []"
proof -
  let ?s = "(initialGame zeroStream)\<lparr>isDying := True, scoreRef := 1234\<rparr>"
  have r: "onGameState PLAYING ?s = resetGame ?s" by (simp add: onGameState_def)
  have "length (obstacles (update PLAYING DEFAULT_ENVIRONMENT (idle 0) (resetGame ?s))) = 1"
    by (rule update_after_reset)
  then have "obstacles (update PLAYING DEFAULT_ENVIRONMENT (idle 0) (resetGame ?s)) \<noteq> []"
    by auto
  then show ?thesis unfolding r by (simp add: update_after_reset)
qed


subsection \<open>A frame with no input, seen phase by phase\<close>

lemma registryPhase_active:
  "activePowerUps (registryPhase t m s) = filter (\<lambda>(type, expiry). \<not> t > expiry) (activePowerUps s)"
  by (simp add: registryPhase_def)

lemma inputPhase_idle:
  assumes "keysPressed s = (\<lambda>code. False)" and "gamepads inp = []"
  shows "playerPos (inputPhase env inp dt s) = playerPos s"
    and "playerVel (inputPhase env inp dt s) = playerVel s"
  using assms by (simp_all add: inputPhase_def Let_def)

lemma physicsPhase_pos:
  "playerPos (physicsPhase dt s) =
     \<lparr>vec_x = max 0 (min (vec_x (playerPos s)) 770),
      vec_y = min 290 (vec_y (playerPos s) + (vec_y (playerVel s) + 0.8 * dt) * dt)\<rparr>"
  by (simp add: physicsPhase_def Let_def consts_defs min_def)

lemma idle_frame_pos:
  assumes "keysPressed s = (\<lambda>code. False)" and "gamepads inp = []"
  shows "playerPos (physicsPhase dt (dashPhase (inputPhase env inp dt (registryPhase t m (shakePhase dt s))))) =
     \<lparr>vec_x = max 0 (min (vec_x (playerPos s)) 770),
      vec_y = min 290 (vec_y (playerPos s) + (vec_y (playerVel s) + 0.8 * dt) * dt)\<rparr>"
proof -
  have "keysPressed (registryPhase t m (shakePhase dt s)) = (\<lambda>code. False)"
    using assms(1) by simp
  from inputPhase_idle [OF this assms(2), of env dt] show ?thesis
    by (simp add: physicsPhase_pos)
qed

lemma obstacleStep_spike:
  "kind obs = spike \<Longrightarrow>
   fst (obstacleStep env t dt g obs s) = obs\<lparr>obs_x := obs_x obs - g\<rparr>"
  by (simp add: obstacleStep_def behave_def split_def Let_def)

lemma obstacleStep_missile:
  "kind obs = missile speed \<Longrightarrow>
   fst (obstacleStep env t dt g obs s) = obs\<lparr>obs_x := obs_x obs - (g + speed * dt)\<rparr>"
  by (simp add: obstacleStep_def behave_def split_def Let_def)

lemma obstaclesPhase_two:
  "obstacles s = [a, b] \<Longrightarrow>
   obstacles (obstaclesPhase env t dt g s) =
     [fst (obstacleStep env t dt g a s),
      fst (obstacleStep env t dt g b (snd (obstacleStep env t dt g a s)))]"
  by (simp add: obstaclesPhase_def split_def Let_def)

lemma scrollPhase_obstacles:
  "obstacles (scrollPhase g s) = filter (\<lambda>obs. obs_x obs + width obs > - 50) (obstacles s)"
  by (simp add: scrollPhase_def onScoreUpdate_def Let_def)

lemma scrollPhase_pickups:
  "collectibles (scrollPhase g s) =
     filter (\<lambda>col. col_x col + col_size col > - 50 \<and> \<not> col_collected col)
       (map (\<lambda>col. col\<lparr>col_x := col_x col - g\<rparr>) (collectibles s))"
  "powerUps (scrollPhase g s) =
     filter (\<lambda>pup. pup_x pup + pup_size pup > - 50 \<and> \<not> pup_collected pup)
       (map (\<lambda>pup. pup\<lparr>pup_x := pup_x pup - g\<rparr>) (powerUps s))"
  by (simp_all add: scrollPhase_def onScoreUpdate_def Let_def)

lemma spawnPhase_behind:
  assumes "\<not> isDying s" and "obstacles s \<noteq> []" and "obs_x (last (obstacles s)) < 550" and "0 \<le> scoreRef s"
  shows "spawnPhase s = spawnObstacle s"
  using assms by (simp add: spawnPhase_def consts_defs min_def)

text \<open>
  C2. A frame in which the claim fails: SHIELD is active, the player stands at
  \<open>(100, 290)\<close> outside any invincibility window, and a spike and a missile that has caught
  up with it both overlap the player after scrolling. The spike's hit consumes the shield
  and sets the invincibility expiry to \<open>now + 1000\<close>; the loop still uses the
  \<open>isInvincible\<close> it read before, so the missile's hit finds no shield and enters the death
  sequence.
\<close>

theorem shield_second_hit_kills:
  "\<not> isDying shieldScene \<and>
   isDying (update PLAYING DEFAULT_ENVIRONMENT (idle 16) shieldScene) \<and>
   activePowerUps (update PLAYING DEFAULT_ENVIRONMENT (idle 16) shieldScene) = [] \<and>
   invincibleUntil (update PLAYING DEFAULT_ENVIRONMENT (idle 16) shieldScene) = 1016"
proof -
  let ?s = shieldScene
  let ?env = DEFAULT_ENVIRONMENT
  let ?s5 = "physicsPhase 1 (dashPhase (inputPhase ?env (idle 16) 1 (registryPhase 16 False (shakePhase 1 ?s))))"
  let ?s6 = "scorePhase 16 6 False ?s5"
  let ?s7 = "obstaclesPhase ?env 16 1 6 ?s6"
  let ?s8 = "scrollPhase 6 ?s7"
  let ?s9 = "spawnPhase ?s8"
  let ?s10 = "particlesPhase 1 ?s9"
  let ?s11 = "collisionPhase ?env 16 False ?s10"
  let ?a = "groundSpike ''a'' 100" and ?b = "cruise ''b'' 116 290 8"
  have upd: "update PLAYING ?env (idle 16) ?s = ?s11\<lparr>backgroundOffset := backgroundOffset ?s11 - 6 * 0.5\<rparr>"
    by (simp add: update_PLAYING Let_def idle_def)
  have p5: "playerPos ?s5 = \<lparr>vec_x = 100, vec_y = 290\<rparr>"
    by (subst idle_frame_pos) (simp_all add: idle_def)
  have a5: "activePowerUps ?s5 = [(SHIELD, 8000)]"
    by (simp add: registryPhase_active)
  have s6: "?s6 = ?s5\<lparr>scoreRef := 3 / 4\<rparr>"
    by (simp add: scorePhase_def Let_def)
  have o7: "obstacles ?s7 = [?a, ?b]"
    by (subst obstaclesPhase_two [of _ "groundSpike ''a'' 106" "cruise ''b'' 130 290 8"])
      (simp_all add: obstacleStep_spike obstacleStep_missile groundSpike_def cruise_def)
  have o8: "obstacles ?s8 = [?a, ?b]"
    unfolding scrollPhase_obstacles o7 by (simp add: groundSpike_def cruise_def)
  have l8: "collectibles ?s8 = []" "powerUps ?s8 = []"
    by (simp_all add: scrollPhase_pickups)
  have sc7: "0 \<le> scoreRef ?s7"
    using obstaclesPhase_mono [of ?s6 ?env 16 1 6] by (simp add: s6)
  have s9: "?s9 = spawnObstacle ?s8"
  proof (rule spawnPhase_behind)
    show "\<not> isDying ?s8" by simp
    show "obstacles ?s8 \<noteq> []" by (simp add: o8)
    show "obs_x (last (obstacles ?s8)) < 550" unfolding o8 by (simp add: cruise_def)
    show "0 \<le> scoreRef ?s8" using sc7 by simp
  qed
  from spawnObstacle_obstacle [of ?s8] obtain new where
    new: "obstacles ?s9 = [?a, ?b, new]" "obs_x new = 950" "\<not> laserActive new"
    unfolding s9 o8 by auto
  have p10: "playerPos ?s10 = \<lparr>vec_x = 100, vec_y = 290\<rparr>"
    using p5 by simp
  have pups: "\<forall>pup \<in> set (powerUps ?s10). pup_x pup = 1000"
    and cols: "\<forall>col \<in> set (collectibles ?s10). col_x col = 1000"
    using spawnObstacle_pickups [of ?s8] unfolding s9 l8 by simp_all
  have pick: "pickupLoops 16 False ?s10 = ?s10"
  proof (rule pickupLoops_none)
    show "\<forall>pup \<in> set (powerUps ?s10).
        \<not> overlaps (playerPos ?s10) (pup_x pup) (pup_y pup) (pup_size pup)"
      using pups by (simp add: p5 far_right_no_overlap)
    show "\<forall>col \<in> set (collectibles ?s10).
        \<not> overlaps (playerPos ?s10) (col_x col) (col_y col) (col_size col)"
      using cols by (simp add: p5 far_right_no_overlap)
  qed
  have i6: "invincibleUntil ?s6 = 0" by (simp add: s6)
  have s11: "?s11 = hazardLoop ?env 16 ?s10"
    by (simp add: collisionPhase_def Let_def pick i6)
  have o10: "obstacles ?s10 = [] @ ?a # [?b, new]"
    using new(1) by simp
  have ha: "hit (playerPos ?s10) ?a"
    by (simp add: p5 hit_groundSpike)
  have hb: "hit (playerPos ?s10) ?b"
    by (simp add: p5 hit_cruise)
  have sh: "has (activePowerUps ?s10) SHIELD"
    by (simp add: registryPhase_active)
  note bug = hazardLoop_shield_then_hit [OF o10 _ ha sh, of ?env 16]
  have r: "\<exists>b \<in> set [?b, new]. hit (playerPos ?s10) b" using hb by simp
  have 1: "isDying (hazardLoop ?env 16 ?s10)" by (rule bug(1)) (use hb in simp_all)
  have 2: "activePowerUps (hazardLoop ?env 16 ?s10) = AList.delete SHIELD (activePowerUps ?s10)"
    by (rule bug(2)) (use hb in simp_all)
  have 3: "invincibleUntil (hazardLoop ?env 16 ?s10) = 16 + 1000"
    by (rule bug(3)) (use hb in simp_all)
  have "isDying (update PLAYING ?env (idle 16) ?s)"
    unfolding upd s11 using 1 by simp
  moreover have "activePowerUps (update PLAYING ?env (idle 16) ?s) = []"
    unfolding upd s11 using 2 by (simp add: registryPhase_active AList.delete_eq)
  moreover have "invincibleUntil (update PLAYING ?env (idle 16) ?s) = 1016"
    unfolding upd s11 using 3 by simp
  ultimately show ?thesis by simp
qed


subsection \<open>The leap scene, frame by frame\<close>

lemma random_id_zero: "random_id 0 = []"
  by (simp add: random_id_def digits36_def digit36_def upt_rec)

lemma spawnObstacle_zeroStream:
  assumes "rng s = zeroStream"
  shows "spawnObstacle s =
     s\<lparr>rngPos := Suc (Suc (Suc (rngPos s))),
       obstacles := obstacles s @
         [\<lparr>obs_id = [], obs_x = 950, obs_y = 290, baseY = 290, width = 30, height = 30,
           kind = spike, speedMultiplier = 1 + scoreRef s / 1000\<rparr>]\<rparr>"
  using assms
  by (simp add: spawnObstacle_def Math_random_def zeroStream_def pick_def obstacleTypes_def
      spawnShape_def random_id_zero consts_defs Let_def)

lemma obstacleStep_groundSpike:
  "obstacleStep env t dt g (groundSpike i x) s =
     (groundSpike i (x - g), nearMissCheck t (groundSpike i (x - g)) s)"
  by (simp add: obstacleStep_def behave_def groundSpike_def Let_def)

lemma obstacleStep_cruise:
  "obstacleStep env t dt g (cruise i x y speed) s =
     (cruise i (x - (g + speed * dt)) y speed,
      nearMissCheck t (cruise i (x - (g + speed * dt)) y speed) s)"
  by (simp add: obstacleStep_def behave_def cruise_def Let_def)

lemma near_cruise:
  "nearMissDist \<lparr>vec_x = px, vec_y = py\<rparr> (cruise i x y speed) < PLAYER_SIZE + NEAR_MISS_THRESHOLD
     \<longleftrightarrow> (px - x - 5) * (px - x - 5) + (py + 5 - y) * (py + 5 - y) < 3025"
  by (simp add: nearMissDist_def cruise_def consts_defs Let_def sqrt_less_55 algebra_simps)

lemma tag_sel [simp]:
  "obs_id (groundSpike i x) = i" "obs_id (cruise i x y speed) = i"
  "obs_x (groundSpike i x) = x" "obs_x (cruise i x y speed) = x"
  "width (groundSpike i x) = 30" "width (cruise i x y speed) = 40"
  by (simp_all add: groundSpike_def cruise_def)

lemma pickupLoops_one:
  assumes "powerUps s = []" and "collectibles s = [c]"
  shows "pickupLoops t m s =
     (snd (pickupCollectible m c s))\<lparr>collectibles := [fst (pickupCollectible m c s)]\<rparr>"
proof -
  have "s\<lparr>powerUps := powerUps s\<rparr> = s" by simp
  then have e: "s\<lparr>powerUps := []\<rparr> = s" unfolding assms(1) .
  show ?thesis
    by (simp add: pickupLoops_def assms Let_def split_def e)
qed

lemma collisionPhase_steps:
  assumes "\<not> isDying s" and "pickupLoops t m s = u" and "\<not> t < invincibleUntil u"
    and "hazardLoop env t u = v"
  shows "collisionPhase env t m s = v"
  using assms by (simp add: collisionPhase_def Let_def)

lemma leap_first_frame:
  "scoreRef (update PLAYING DEFAULT_ENVIRONMENT (idle 16) leapScene) = 2050 + 163 / 192"
  "\<not> isDying (update PLAYING DEFAULT_ENVIRONMENT (idle 16) leapScene)"
  "timeScale (update PLAYING DEFAULT_ENVIRONMENT (idle 16) leapScene) = 1"
  "activePowerUps (update PLAYING DEFAULT_ENVIRONMENT (idle 16) leapScene) = []"
proof -
  let ?env = DEFAULT_ENVIRONMENT
  let ?g = "163 / 24 :: real"
  let ?s5 = "physicsPhase 1 (dashPhase (inputPhase ?env (idle 16) 1 (registryPhase 16 False (shakePhase 1 leapScene))))"
  let ?s6 = "scorePhase 16 ?g False ?s5"
  let ?s7 = "obstaclesPhase ?env 16 1 ?g ?s6"
  let ?s8 = "scrollPhase ?g ?s7"
  let ?s9 = "spawnPhase ?s8"
  let ?s10 = "particlesPhase 1 ?s9"
  let ?s11 = "collisionPhase ?env 16 False ?s10"
  let ?a = "groundSpike ''a'' (107 - ?g)" and ?b = "cruise ''b'' (120 - (?g + 8)) 290 8"
  let ?new = "\<lparr>obs_id = [], obs_x = 950, obs_y = 290, baseY = 290, width = 30, height = 30,
           kind = spike, speedMultiplier = 1 + scoreRef ?s8 / 1000\<rparr>"
  let ?c = "(coin ''c'' 115 265)\<lparr>col_x := 115 - ?g\<rparr>"
  let ?p = "\<lparr>vec_x = 100, vec_y = 1254 / 5\<rparr>"
  have upd: "update PLAYING ?env (idle 16) leapScene =
      ?s11\<lparr>backgroundOffset := backgroundOffset ?s11 - ?g * 0.5\<rparr>"
    by (simp add: update_PLAYING Let_def idle_def)
  have p5: "playerPos ?s5 = ?p"
    by (subst idle_frame_pos) (simp_all add: idle_def)
  have a5: "activePowerUps (registryPhase 16 False (shakePhase 1 leapScene)) = []"
    by (simp add: registryPhase_active)
  have fl: "\<lfloor>(950 + 163 / 24 / 8) / 1000 :: real\<rfloor> = 0"
    by (simp add: floor_eq_iff)
  have s6: "?s6 = ?s5\<lparr>scoreRef := 950 + 163 / 192\<rparr>"
    using fl by (simp add: scorePhase_def Let_def)
  have f6: "\<not> isDying ?s6" "nearMissedObstacles ?s6 = {}" "playerPos ?s6 = ?p"
    "scoreRef ?s6 = 950 + 163 / 192" "obstacles ?s6 = [groundSpike ''a'' 107, cruise ''b'' 120 290 8]"
    using p5 by (simp_all add: s6)
  let ?n1 = "nearMissCheck 16 ?a ?s6"
  let ?n2 = "nearMissCheck 16 ?b ?n1"
  have na: "nearMissDist (playerPos ?s6) ?a < PLAYER_SIZE + NEAR_MISS_THRESHOLD"
    unfolding f6 by (simp add: near_groundSpike)
  note c1 = nearMissCheck_credit [OF f6(1) _ na, of 16]
  have n1: "nearMissedObstacles ?n1 = {''a''}" "scoreRef ?n1 = 1450 + 163 / 192"
    "\<not> isDying ?n1" "playerPos ?n1 = ?p"
    using c1 f6 by simp_all
  have nb: "nearMissDist (playerPos ?n1) ?b < PLAYER_SIZE + NEAR_MISS_THRESHOLD"
    unfolding n1 by (simp add: near_cruise)
  note c2 = nearMissCheck_credit [OF n1(3) _ nb, of 16]
  have n2: "scoreRef ?n2 = 1950 + 163 / 192"
    using c2 n1 by simp
  have loop7: "forEach (obstacleStep ?env 16 1 ?g) (obstacles ?s6) ?s6 = ([?a, ?b], ?n2)"
    unfolding f6 by (simp add: obstacleStep_groundSpike obstacleStep_cruise Let_def)
  have s7: "?s7 = ?n2\<lparr>obstacles := [?a, ?b]\<rparr>"
    unfolding obstaclesPhase_def loop7 by simp
  have f7: "scoreRef ?s7 = 1950 + 163 / 192" "obstacles ?s7 = [?a, ?b]"
    unfolding s7 using n2 by simp_all
  have o8: "obstacles ?s8 = [?a, ?b]"
    unfolding scrollPhase_obstacles f7 by simp
  have c8: "collectibles ?s8 = [?c]" "powerUps ?s8 = []"
    by (simp_all add: scrollPhase_pickups coin_def)
  have sc8: "scoreRef ?s8 = 1950 + 163 / 192" using f7 by simp
  have s9: "?s9 = spawnObstacle ?s8"
  proof (rule spawnPhase_behind)
    show "\<not> isDying ?s8" by simp
    show "obstacles ?s8 \<noteq> []" by (simp add: o8)
    show "obs_x (last (obstacles ?s8)) < 550" unfolding o8 by simp
    show "0 \<le> scoreRef ?s8" unfolding sc8 by simp
  qed
  have r8: "rng ?s8 = zeroStream" by simp
  have s9': "?s9 = ?s8\<lparr>rngPos := Suc (Suc (Suc (rngPos ?s8))), obstacles := obstacles ?s8 @ [?new]\<rparr>"
    unfolding s9 by (rule spawnObstacle_zeroStream [OF r8])
  have f10: "obstacles ?s10 = [?a, ?b, ?new]" "collectibles ?s10 = [?c]" "powerUps ?s10 = []"
    "playerPos ?s10 = ?p" "scoreRef ?s10 = 1950 + 163 / 192" "\<not> isDying ?s10"
    "invincibleUntil ?s10 = 0" "timeScale ?s10 = 1" "activePowerUps ?s10 = []"
    unfolding s9' using o8 c8 sc8 p5 a5 by (simp_all add: s6)
  let ?s3 = "snd (pickupCollectible False ?c ?s10)"
  have ov: "overlaps (playerPos ?s10) (col_x ?c) (col_y ?c) (col_size ?c)"
    unfolding f10 by (simp add: overlaps_def coin_def consts_defs)
  have pc: "scoreRef ?s3 = 2050 + 163 / 192"
    using ov f10(5) by (simp add: pickupCollectible_def Let_def coin_def)
  have pl: "pickupLoops 16 False ?s10 =
      ?s3\<lparr>collectibles := [fst (pickupCollectible False ?c ?s10)]\<rparr>"
    by (rule pickupLoops_one [OF f10(3) f10(2)])
  let ?s4 = "?s3\<lparr>collectibles := [fst (pickupCollectible False ?c ?s10)]\<rparr>"
  have f4: "playerPos ?s4 = ?p" "obstacles ?s4 = [?a, ?b, ?new]" "invincibleUntil ?s4 = 0"
    "scoreRef ?s4 = 2050 + 163 / 192" "\<not> isDying ?s4" "timeScale ?s4 = 1" "activePowerUps ?s4 = []"
    using f10 pc by simp_all
  have haz: "hazardLoop ?env 16 ?s4 = ?s4"
  proof (rule hazardLoop_none)
    show "\<forall>obs \<in> set (obstacles ?s4). \<not> hit (playerPos ?s4) obs"
      unfolding f4 by (simp add: hit_groundSpike hit_cruise) (simp add: hit_def isLaser_def consts_defs)
  qed
  have i4: "\<not> 16 < invincibleUntil ?s4" unfolding f4(3) by simp
  have s11: "?s11 = ?s4"
    by (rule collisionPhase_steps [OF f10(6) pl i4 haz])
  show "scoreRef (update PLAYING ?env (idle 16) leapScene) = 2050 + 163 / 192"
    unfolding upd s11 using f4 by simp
  show "\<not> isDying (update PLAYING ?env (idle 16) leapScene)"
    unfolding upd s11 using f4 by simp
  show "timeScale (update PLAYING ?env (idle 16) leapScene) = 1"
    unfolding upd s11 using f4 by simp
  show "activePowerUps (update PLAYING ?env (idle 16) leapScene) = []"
    unfolding upd s11 using f4 by simp
qed


text \<open>
  C1, the claim as stated, fails in the leap scene. In the first frame the score goes from
  950 to 2050.85 (passive accrual, two near misses and a collectible), across the
  boundaries at 1000 and 2000; these awards are added after the frame's level check, so
  no LEVEL_UP is emitted and the recorded level stays 1. The second frame emits a single
  LEVEL_UP and records level 3: level 2 never gets an event of its own.
\<close>

theorem level_up_per_boundary_counterexample:
  "scoreRef leapScene = 950 \<and> lastLevelRef leapScene = 1 \<and> emitted LEVEL_UP leapScene = 0 \<and>
   scoreRef (update PLAYING DEFAULT_ENVIRONMENT (idle 16) leapScene) = 2050 + 163 / 192 \<and>
   lastLevelRef (update PLAYING DEFAULT_ENVIRONMENT (idle 16) leapScene) = 1 \<and>
   emitted LEVEL_UP (update PLAYING DEFAULT_ENVIRONMENT (idle 16) leapScene) = 0 \<and>
   lastLevelRef (update PLAYING DEFAULT_ENVIRONMENT (idle 32)
      (update PLAYING DEFAULT_ENVIRONMENT (idle 16) leapScene)) = 3 \<and>
   emitted LEVEL_UP (update PLAYING DEFAULT_ENVIRONMENT (idle 32)
      (update PLAYING DEFAULT_ENVIRONMENT (idle 16) leapScene)) = 1"
proof -
  let ?env = DEFAULT_ENVIRONMENT
  let ?u = "update PLAYING ?env (idle 16) leapScene"
  have d0: "\<not> isDying leapScene" by simp
  have fl0: "\<lfloor>(950 + (6 + 950 / 1200) / 8) / 1000 :: real\<rfloor> = 0"
    by (simp add: floor_eq_iff)
  have e0: "emitted LEVEL_UP leapScene = 0" by (simp add: emitted_def)
  have l1: "lastLevelRef ?u = 1" and e1: "emitted LEVEL_UP ?u = 0"
    using update_level [OF d0, of ?env "idle 16"] fl0 e0 by simp_all
  note u = leap_first_frame
  have fl1: "\<lfloor>(2050 + 163 / 192 + (6 + (2050 + 163 / 192) / 1200) / 8) / 1000 :: real\<rfloor> = 2"
    by (simp add: floor_eq_iff)
  have mult: "\<not> has (activePowerUps ?u) MULTIPLIER" unfolding u by simp
  have l2: "lastLevelRef (update PLAYING ?env (idle 32) ?u) = 3"
    unfolding update_level(1) [OF u(2), of ?env "idle 32"] u(1,3) l1 using mult fl1 by simp
  have e2: "emitted LEVEL_UP (update PLAYING ?env (idle 32) ?u) = 1"
    unfolding update_level(2) [OF u(2), of ?env "idle 32"] u(1,3) l1 e1 using mult fl1 by simp
  from e0 u(1) l1 e1 l2 e2 show ?thesis by simp
qed


subsection \<open>A tick with no input, stage by stage\<close>

lemma beforeScore_idle:
  assumes "keysPressed s = (\<lambda>code. False)" and "gamepads inp = []"
  shows "playerPos (beforeScore env inp s) =
     \<lparr>vec_x = max 0 (min (vec_x (playerPos s)) 770),
      vec_y = min 290 (vec_y (playerPos s) + (vec_y (playerVel s) + 0.8 * timeScale s) * timeScale s)\<rparr>"
  unfolding beforeScore_def Let_def by (rule idle_frame_pos [OF assms])

lemma beforeScore_active:
  "activePowerUps (beforeScore env inp s) =
     filter (\<lambda>(type, expiry). \<not> now inp > expiry) (activePowerUps s)"
  by (simp add: beforeScore_def Let_def registryPhase_active)

text \<open>A tick whose level check finds no new level.\<close>

lemma scorePhase_quiet:
  assumes "\<not> isDying s"
    and "\<lfloor>(scoreRef s + (g / 8) * (if m then 2.5 else 1)) / 1000\<rfloor> + 1 \<le> lastLevelRef s"
  shows "scorePhase t g m s = s\<lparr>scoreRef := scoreRef s + (g / 8) * (if m then 2.5 else 1)\<rparr>"
  using assms by (simp add: scorePhase_def Let_def)

lemma afterObstacles_quiet:
  assumes "\<not> isDying s"
    and "\<lfloor>(scoreRef s + (((6 + scoreRef s / 1200) * timeScale s) / 8) *
            (if has (activePowerUps s) MULTIPLIER then 2.5 else 1)) / 1000\<rfloor> + 1 \<le> lastLevelRef s"
  shows "invincibleUntil (afterObstacles env inp s) = invincibleUntil s"
proof -
  have d: "\<not> isDying (beforeScore env inp s)" using assms(1) by simp
  have l: "\<lfloor>(scoreRef (beforeScore env inp s) + (((6 + scoreRef s / 1200) * timeScale s) / 8) *
            (if has (activePowerUps s) MULTIPLIER then 2.5 else 1)) / 1000\<rfloor> + 1
          \<le> lastLevelRef (beforeScore env inp s)"
    using assms(2) by simp
  show ?thesis
    unfolding afterObstacles_def tickSpeed_eq tickMult_eq
    by (simp add: scorePhase_quiet [OF d l])
qed

lemma afterObstacles_score:
  assumes "\<not> isDying s"
  shows "scoreRef (afterObstacles env inp s) =
     scoreRef s
     + (((6 + scoreRef s / 1200) * timeScale s) / 8) *
         (if has (activePowerUps s) MULTIPLIER then 2.5 else 1)
     + 500 * real (card (nearMissedObstacles (afterObstacles env inp s) - nearMissedObstacles s))"
proof -
  let ?g = "(6 + scoreRef s / 1200) * timeScale s"
  let ?m = "has (activePowerUps s) MULTIPLIER"
  let ?s5 = "beforeScore env inp s"
  let ?s6 = "scorePhase (now inp) ?g ?m ?s5"
  have a: "afterObstacles env inp s = obstaclesPhase env (now inp) (timeScale s) ?g ?s6"
    by (simp add: afterObstacles_def)
  have d: "\<not> isDying ?s5" using assms by simp
  have 5: "passiveScore 0 ?s5 = passiveScore 0 s"
    by (rule passiveScore_cong) simp_all
  have 6: "passiveScore 0 ?s6 = passiveScore 0 ?s5 + (?g / 8) * (if ?m then 2.5 else 1)"
    by (rule scorePhase_passive [OF d])
  have 7: "passiveScore 0 (afterObstacles env inp s) = passiveScore 0 ?s6"
    unfolding a by (rule obstaclesPhase_passive)
  have "emitted NEAR_MISS ?s6 = emitted NEAR_MISS ?s5"
    by (rule scorePhase_emitted) simp
  also have "\<dots> = emitted NEAR_MISS s" by (rule emitted_cong) simp
  finally have e6: "emitted NEAR_MISS ?s6 = emitted NEAR_MISS s" .
  have n6: "nearMissedObstacles ?s6 = nearMissedObstacles s" by simp
  from obstaclesPhase_tally [of ?s6 env "now inp" "timeScale s" ?g]
  have e7: "emitted NEAR_MISS (afterObstacles env inp s) =
      emitted NEAR_MISS s + card (nearMissedObstacles (afterObstacles env inp s) - nearMissedObstacles s)"
    unfolding a [symmetric] e6 n6 by simp
  from 5 6 7 show ?thesis
    unfolding passiveScore_def e7 by (simp add: algebra_simps)
qed

lemma afterObstacles_near:
  assumes "\<not> isDying s"
  shows "nearMissedObstacles (afterObstacles env inp s) =
     nearMissedObstacles s \<union>
     set (map obs_id
       (filter (\<lambda>obs. nearMissDist (playerPos (afterObstacles env inp s)) obs
                        < PLAYER_SIZE + NEAR_MISS_THRESHOLD)
          (obstacles (afterObstacles env inp s))))"
proof -
  have "nearMissedObstacles (update PLAYING env inp s) =
      nearMissedObstacles (afterObstacles env inp s)"
    by (simp add: update_stages)
  with update_near [OF assms, of env inp] show ?thesis by simp
qed

lemma afterObstacles_pair:
  assumes "obstacles s = [groundSpike i x, cruise j x' y v]"
  shows "obstacles (afterObstacles env inp s) =
     [groundSpike i (x - (6 + scoreRef s / 1200) * timeScale s),
      cruise j (x' - ((6 + scoreRef s / 1200) * timeScale s + v * timeScale s)) y v]"
proof -
  let ?g = "(6 + scoreRef s / 1200) * timeScale s"
  let ?s6 = "scorePhase (now inp) ?g (has (activePowerUps s) MULTIPLIER) (beforeScore env inp s)"
  have o: "obstacles ?s6 = [groundSpike i x, cruise j x' y v]" using assms by simp
  show ?thesis
    unfolding afterObstacles_def tickSpeed_eq tickMult_eq obstaclesPhase_def o
    by (simp add: obstacleStep_groundSpike obstacleStep_cruise Let_def)
qed

lemma beforeSpawn_pickups:
  "collectibles (beforeSpawn env inp s) =
     filter (\<lambda>col. col_x col + col_size col > - 50 \<and> \<not> col_collected col)
       (map (\<lambda>col. col\<lparr>col_x := col_x col - (6 + scoreRef s / 1200) * timeScale s\<rparr>) (collectibles s))"
  "powerUps (beforeSpawn env inp s) =
     filter (\<lambda>pup. pup_x pup + pup_size pup > - 50 \<and> \<not> pup_collected pup)
       (map (\<lambda>pup. pup\<lparr>pup_x := pup_x pup - (6 + scoreRef s / 1200) * timeScale s\<rparr>) (powerUps s))"
  by (simp_all add: beforeSpawn_def scrollPhase_pickups)

text \<open>The spawn of a tick whose random stream is constantly 0: a spike, and no pickup.\<close>

lemma beforeCollision_zeroStream:
  assumes "rng s = zeroStream" and "\<not> isDying s"
    and "obstacles (beforeSpawn env inp s) \<noteq> []"
    and "obs_x (last (obstacles (beforeSpawn env inp s))) < 550"
    and "0 \<le> scoreRef (beforeSpawn env inp s)"
  shows "obstacles (beforeCollision env inp s) =
           obstacles (beforeSpawn env inp s) @
             [\<lparr>obs_id = [], obs_x = 950, obs_y = 290, baseY = 290, width = 30, height = 30,
               kind = spike, speedMultiplier = 1 + scoreRef (beforeSpawn env inp s) / 1000\<rparr>]"
    and "collectibles (beforeCollision env inp s) = collectibles (beforeSpawn env inp s)"
    and "powerUps (beforeCollision env inp s) = powerUps (beforeSpawn env inp s)"
proof -
  let ?s8 = "beforeSpawn env inp s"
  have d: "\<not> isDying ?s8" using assms(2) by simp
  have r: "rng ?s8 = zeroStream" using assms(1) by simp
  have s9: "spawnPhase ?s8 = spawnObstacle ?s8"
    by (rule spawnPhase_behind [OF d assms(3) assms(4) assms(5)])
  note z = spawnObstacle_zeroStream [OF r]
  show "obstacles (beforeCollision env inp s) =
           obstacles ?s8 @
             [\<lparr>obs_id = [], obs_x = 950, obs_y = 290, baseY = 290, width = 30, height = 30,
               kind = spike, speedMultiplier = 1 + scoreRef ?s8 / 1000\<rparr>]"
    unfolding beforeCollision_def s9 by (subst z) simp
  show "collectibles (beforeCollision env inp s) = collectibles ?s8"
    unfolding beforeCollision_def s9 by (subst z) simp
  show "powerUps (beforeCollision env inp s) = powerUps ?s8"
    unfolding beforeCollision_def s9 by (subst z) simp
qed

subsection \<open>The first tick of the leap scene and of the bonus scene\<close>

lemma leap_stages:
  assumes pos: "playerPos s = \<lparr>vec_x = 100, vec_y = 250\<rparr>"
    and vel: "playerVel s = \<lparr>vec_x = 0, vec_y = 0\<rparr>"
    and score: "scoreRef s = 950" and scale: "timeScale s = 1" and alive: "\<not> isDying s"
    and obs: "obstacles s = [groundSpike ''a'' 107, cruise ''b'' 120 290 8]"
    and cols: "collectibles s = [coin ''c'' 115 265]" and pups: "powerUps s = []"
    and none: "nearMissedObstacles s = {}" and stream: "rng s = zeroStream"
    and keys: "keysPressed s = (\<lambda>code. False)"
  shows "playerPos (beforeScore env (idle t) s) = \<lparr>vec_x = 100, vec_y = 1254 / 5\<rparr>"
    and "obstacles (afterObstacles env (idle t) s) =
           [groundSpike ''a'' (2405 / 24), cruise ''b'' (2525 / 24) 290 8]"
    and "nearMissedObstacles (afterObstacles env (idle t) s) = {''a'', ''b''}"
    and "scoreRef (afterObstacles env (idle t) s) =
           1950 + 163 / 192 * (if has (activePowerUps s) MULTIPLIER then 2.5 else 1)"
    and "obstacles (beforeSpawn env (idle t) s) =
           [groundSpike ''a'' (2405 / 24), cruise ''b'' (2525 / 24) 290 8]"
    and "obstacles (beforeCollision env (idle t) s) =
           [groundSpike ''a'' (2405 / 24), cruise ''b'' (2525 / 24) 290 8,
            \<lparr>obs_id = [], obs_x = 950, obs_y = 290, baseY = 290, width = 30, height = 30,
              kind = spike,
              speedMultiplier = 1 + (1950 + 163 / 192 *
                (if has (activePowerUps s) MULTIPLIER then 2.5 else 1)) / 1000\<rparr>]"
    and "collectibles (beforeCollision env (idle t) s) = [(coin ''c'' 115 265)\<lparr>col_x := 2597 / 24\<rparr>]"
    and "powerUps (beforeCollision env (idle t) s) = []"
proof -
  let ?inp = "idle t"
  let ?a = "groundSpike ''a'' (2405 / 24)" and ?b = "cruise ''b'' (2525 / 24) 290 8"
  let ?k = "if has (activePowerUps s) MULTIPLIER then 2.5 else 1 :: real"
  have pad: "gamepads ?inp = []" by (simp add: idle_def)
  show p5: "playerPos (beforeScore env ?inp s) = \<lparr>vec_x = 100, vec_y = 1254 / 5\<rparr>"
    unfolding beforeScore_idle [OF keys pad] pos vel scale by simp
  show o7: "obstacles (afterObstacles env ?inp s) = [?a, ?b]"
    unfolding afterObstacles_pair [OF obs] score scale by simp
  have p7: "playerPos (afterObstacles env ?inp s) = \<lparr>vec_x = 100, vec_y = 1254 / 5\<rparr>"
    using p5 by simp
  show n7: "nearMissedObstacles (afterObstacles env ?inp s) = {''a'', ''b''}"
    unfolding afterObstacles_near [OF alive] o7 p7 none
    by (auto simp: near_groundSpike near_cruise)
  have card: "card ({''a'', ''b''} :: string set) = 2" by simp
  show s7: "scoreRef (afterObstacles env ?inp s) = 1950 + 163 / 192 * ?k"
    unfolding afterObstacles_score [OF alive] n7 none score scale Diff_empty card by simp
  show o8: "obstacles (beforeSpawn env ?inp s) = [?a, ?b]"
    unfolding beforeSpawn_obstacles o7 by simp
  have s8: "scoreRef (beforeSpawn env ?inp s) = 1950 + 163 / 192 * ?k"
    using s7 by simp
  have ne: "obstacles (beforeSpawn env ?inp s) \<noteq> []" unfolding o8 by simp
  have far: "obs_x (last (obstacles (beforeSpawn env ?inp s))) < 550" unfolding o8 by simp
  have pos8: "0 \<le> scoreRef (beforeSpawn env ?inp s)" unfolding s8 by simp
  note z = beforeCollision_zeroStream [OF stream alive ne far pos8]
  show "obstacles (beforeCollision env ?inp s) =
           [?a, ?b,
            \<lparr>obs_id = [], obs_x = 950, obs_y = 290, baseY = 290, width = 30, height = 30,
              kind = spike, speedMultiplier = 1 + (1950 + 163 / 192 * ?k) / 1000\<rparr>]"
    unfolding z(1) o8 s8 by simp
  show "collectibles (beforeCollision env ?inp s) = [(coin ''c'' 115 265)\<lparr>col_x := 2597 / 24\<rparr>]"
    unfolding z(2) beforeSpawn_pickups cols score scale by (simp add: coin_def)
  show "powerUps (beforeCollision env ?inp s) = []"
    unfolding z(3) beforeSpawn_pickups pups by simp
qed

lemma leapScene_stages:
  "playerPos (beforeScore env (idle t) leapScene) = \<lparr>vec_x = 100, vec_y = 1254 / 5\<rparr>"
  "obstacles (afterObstacles env (idle t) leapScene) =
     [groundSpike ''a'' (2405 / 24), cruise ''b'' (2525 / 24) 290 8]"
  "nearMissedObstacles (afterObstacles env (idle t) leapScene) = {''a'', ''b''}"
  "scoreRef (afterObstacles env (idle t) leapScene) = 1950 + 163 / 192"
  "obstacles (beforeSpawn env (idle t) leapScene) =
     [groundSpike ''a'' (2405 / 24), cruise ''b'' (2525 / 24) 290 8]"
  "obstacles (beforeCollision env (idle t) leapScene) =
     [groundSpike ''a'' (2405 / 24), cruise ''b'' (2525 / 24) 290 8,
      \<lparr>obs_id = [], obs_x = 950, obs_y = 290, baseY = 290, width = 30, height = 30,
        kind = spike, speedMultiplier = 1 + (1950 + 163 / 192) / 1000\<rparr>]"
  "collectibles (beforeCollision env (idle t) leapScene) = [(coin ''c'' 115 265)\<lparr>col_x := 2597 / 24\<rparr>]"
  "powerUps (beforeCollision env (idle t) leapScene) = []"
  using leap_stages [of leapScene env t] by simp_all

lemma bonusScene_stages:
  "playerPos (beforeScore env (idle t) bonusScene) = \<lparr>vec_x = 100, vec_y = 1254 / 5\<rparr>"
  "obstacles (afterObstacles env (idle t) bonusScene) =
     [groundSpike ''a'' (2405 / 24), cruise ''b'' (2525 / 24) 290 8]"
  "nearMissedObstacles (afterObstacles env (idle t) bonusScene) = {''a'', ''b''}"
  "scoreRef (afterObstacles env (idle t) bonusScene) = 1950 + 815 / 384"
  "obstacles (beforeSpawn env (idle t) bonusScene) =
     [groundSpike ''a'' (2405 / 24), cruise ''b'' (2525 / 24) 290 8]"
  "obstacles (beforeCollision env (idle t) bonusScene) =
     [groundSpike ''a'' (2405 / 24), cruise ''b'' (2525 / 24) 290 8,
      \<lparr>obs_id = [], obs_x = 950, obs_y = 290, baseY = 290, width = 30, height = 30,
        kind = spike, speedMultiplier = 1 + (1950 + 815 / 384) / 1000\<rparr>]"
  "collectibles (beforeCollision env (idle t) bonusScene) = [(coin ''c'' 115 265)\<lparr>col_x := 2597 / 24\<rparr>]"
  "powerUps (beforeCollision env (idle t) bonusScene) = []"
  using leap_stages [of bonusScene env t] by simp_all

lemma leap_tick_events:
  assumes pos: "playerPos s = \<lparr>vec_x = 100, vec_y = 250\<rparr>"
    and vel: "playerVel s = \<lparr>vec_x = 0, vec_y = 0\<rparr>"
    and score: "scoreRef s = 950" and scale: "timeScale s = 1" and alive: "\<not> isDying s"
    and obs: "obstacles s = [groundSpike ''a'' 107, cruise ''b'' 120 290 8]"
    and cols: "collectibles s = [coin ''c'' 115 265]" and pups: "powerUps s = []"
    and none: "nearMissedObstacles s = {}" and stream: "rng s = zeroStream"
    and keys: "keysPressed s = (\<lambda>code. False)"
  shows "emitted NEAR_MISS (update PLAYING env (idle t) s) = emitted NEAR_MISS s + 2"
    and "emitted COLLECT (update PLAYING env (idle t) s) = emitted COLLECT s + 1"
proof -
  note st = leap_stages [OF assms, of env t]
  have n: "nearMissedObstacles (update PLAYING env (idle t) s) = {''a'', ''b''}"
    using st(3) by (simp add: update_stages)
  have card: "card ({''a'', ''b''} :: string set) = 2" by simp
  from update_tally [of s PLAYING env "idle t"]
  show "emitted NEAR_MISS (update PLAYING env (idle t) s) = emitted NEAR_MISS s + 2"
    unfolding n none Diff_empty card by simp
  have p: "playerPos (beforeCollision env (idle t) s) = \<lparr>vec_x = 100, vec_y = 1254 / 5\<rparr>"
    using st(1) by simp
  show "emitted COLLECT (update PLAYING env (idle t) s) = emitted COLLECT s + 1"
    unfolding update_collect [OF alive] st(7) p
    by (simp add: overlaps_def coin_def consts_defs)
qed

lemma bonusScene_near:
  "emitted NEAR_MISS (update PLAYING env (idle t) bonusScene) = 2"
  using leap_tick_events(1) [of bonusScene env t] by (simp add: emitted_def)

lemma leapScene_near:
  "emitted NEAR_MISS (update PLAYING env (idle t) leapScene) = 2"
  using leap_tick_events(1) [of leapScene env t] by (simp add: emitted_def)

lemma leapScene_collect:
  "emitted COLLECT (update PLAYING env (idle t) leapScene) = 1"
  using leap_tick_events(2) [of leapScene env t] by (simp add: emitted_def)

subsection \<open>The tick of the crash scene\<close>

lemma crashScene_stages:
  "playerPos (beforeHazards env (idle 16) crashScene) = \<lparr>vec_x = 100, vec_y = 290\<rparr>"
  "obstacles (beforeHazards env (idle 16) crashScene) =
     [groundSpike ''a'' 100, cruise ''b'' 116 290 8,
      \<lparr>obs_id = [], obs_x = 950, obs_y = 290, baseY = 290, width = 30, height = 30,
        kind = spike, speedMultiplier = 1 + (1000 + 3 / 4) / 1000\<rparr>]"
  "activePowerUps (beforeHazards env (idle 16) crashScene) = []"
  "invincibleUntil (beforeHazards env (idle 16) crashScene) = 0"
proof -
  let ?inp = "idle 16"
  let ?a = "groundSpike ''a'' 100" and ?b = "cruise ''b'' 116 290 8"
  have alive: "\<not> isDying crashScene" by simp
  have p5: "playerPos (beforeScore env ?inp crashScene) = \<lparr>vec_x = 100, vec_y = 290\<rparr>"
    by (subst beforeScore_idle) (simp_all add: idle_def)
  have o7: "obstacles (afterObstacles env ?inp crashScene) = [?a, ?b]"
    by (subst afterObstacles_pair [of _ "''a''" 106 "''b''" 130 290 8]) simp_all
  have p7: "playerPos (afterObstacles env ?inp crashScene) = \<lparr>vec_x = 100, vec_y = 290\<rparr>"
    using p5 by simp
  have n7: "nearMissedObstacles (afterObstacles env ?inp crashScene) = {''a'', ''b''}"
    unfolding afterObstacles_near [OF alive] o7 p7
    by (auto simp: near_groundSpike near_cruise)
  have card: "card ({''a'', ''b''} :: string set) = 2" by simp
  have s7: "scoreRef (afterObstacles env ?inp crashScene) = 1000 + 3 / 4"
    unfolding afterObstacles_score [OF alive] n7 by (simp add: card)
  have o8: "obstacles (beforeSpawn env ?inp crashScene) = [?a, ?b]"
    unfolding beforeSpawn_obstacles o7 by simp
  have s8: "scoreRef (beforeSpawn env ?inp crashScene) = 1000 + 3 / 4"
    using s7 by simp
  have stream: "rng crashScene = zeroStream" by simp
  have ne: "obstacles (beforeSpawn env ?inp crashScene) \<noteq> []" unfolding o8 by simp
  have far: "obs_x (last (obstacles (beforeSpawn env ?inp crashScene))) < 550" unfolding o8 by simp
  have pos8: "0 \<le> scoreRef (beforeSpawn env ?inp crashScene)" unfolding s8 by simp
  note z = beforeCollision_zeroStream [OF stream alive ne far pos8]
  have c10: "collectibles (beforeCollision env ?inp crashScene) = []"
    "powerUps (beforeCollision env ?inp crashScene) = []"
    unfolding z beforeSpawn_pickups by simp_all
  have same: "beforeHazards env ?inp crashScene = beforeCollision env ?inp crashScene"
    unfolding beforeHazards_def by (rule pickupLoops_none) (simp_all add: c10)
  show "playerPos (beforeHazards env ?inp crashScene) = \<lparr>vec_x = 100, vec_y = 290\<rparr>"
    using p5 by simp
  show "obstacles (beforeHazards env ?inp crashScene) =
     [?a, ?b,
      \<lparr>obs_id = [], obs_x = 950, obs_y = 290, baseY = 290, width = 30, height = 30,
        kind = spike, speedMultiplier = 1 + (1000 + 3 / 4) / 1000\<rparr>]"
    unfolding same z(1) o8 s8 by simp
  show "activePowerUps (beforeHazards env ?inp crashScene) = []"
    unfolding same by (simp add: beforeScore_active)
  have "invincibleUntil (afterObstacles env ?inp crashScene) = invincibleUntil crashScene"
    by (rule afterObstacles_quiet) simp_all
  then show "invincibleUntil (beforeHazards env ?inp crashScene) = 0"
    by simp
qed

subsection \<open>The second tick of the leap scene\<close>

lemma forEach_fst_map:
  assumes "\<And>a s. a \<in> set as \<Longrightarrow> fst (f a s) = h a"
  shows "fst (forEach f as s) = map h as"
  using assms by (induction as arbitrary: s) (simp_all add: split_def Let_def)

text \<open>Spikes and missiles only scroll.\<close>

lemma afterObstacles_moves:
  assumes "\<forall>obs \<in> set (obstacles s). kind obs = spike \<or> (\<exists>v. kind obs = missile v)"
  shows "obstacles (afterObstacles env inp s) =
     map (\<lambda>obs. obs\<lparr>obs_x := obs_x obs -
            ((6 + scoreRef s / 1200) * timeScale s +
             (case kind obs of missile v \<Rightarrow> v * timeScale s | _ \<Rightarrow> 0))\<rparr>)
       (obstacles s)"
proof -
  let ?g = "(6 + scoreRef s / 1200) * timeScale s"
  let ?s6 = "scorePhase (now inp) ?g (has (activePowerUps s) MULTIPLIER) (beforeScore env inp s)"
  let ?h = "\<lambda>obs. obs\<lparr>obs_x := obs_x obs -
            (?g + (case kind obs of missile v \<Rightarrow> v * timeScale s | _ \<Rightarrow> 0))\<rparr>"
  have o: "obstacles ?s6 = obstacles s" by simp
  have "fst (forEach (obstacleStep env (now inp) (timeScale s) ?g) (obstacles s) ?s6) =
      map ?h (obstacles s)"
  proof (rule forEach_fst_map)
    fix a and u :: game
    assume "a \<in> set (obstacles s)"
    with assms have "kind a = spike \<or> (\<exists>v. kind a = missile v)" by blast
    then show "fst (obstacleStep env (now inp) (timeScale s) ?g a u) = ?h a"
      by (auto simp: obstacleStep_spike obstacleStep_missile)
  qed
  then show ?thesis
    unfolding afterObstacles_def tickSpeed_eq tickMult_eq obstaclesPhase_def o
    by (simp add: split_def Let_def)
qed

lemma physicsPhase_vel:
  "playerVel (physicsPhase dt s) =
     (playerVel s)\<lparr>vec_y := (if vec_y (playerPos s) + (vec_y (playerVel s) + 0.8 * dt) * dt > 290
                             then 0 else vec_y (playerVel s) + 0.8 * dt)\<rparr>"
  by (simp add: physicsPhase_def Let_def consts_defs)

lemma beforeScore_idle_vel:
  assumes "keysPressed s = (\<lambda>code. False)" and "gamepads inp = []"
  shows "playerVel (beforeScore env inp s) =
     (playerVel s)\<lparr>vec_y :=
        (if vec_y (playerPos s) + (vec_y (playerVel s) + 0.8 * timeScale s) * timeScale s > 290
         then 0 else vec_y (playerVel s) + 0.8 * timeScale s)\<rparr>"
proof -
  let ?r = "registryPhase (now inp) (tickMult s) (shakePhase (timeScale s) s)"
  have "keysPressed ?r = (\<lambda>code. False)" using assms(1) by simp
  from inputPhase_idle [OF this assms(2), of env "timeScale s"] show ?thesis
    by (simp add: beforeScore_def Let_def physicsPhase_vel)
qed

text \<open>A tick of a live player whose hazard loop runs and finds no obstacle on the player.\<close>

lemma update_no_hit:
  assumes "\<not> isDying s" and "\<not> now inp < invincibleUntil (beforeHazards env inp s)"
    and "\<forall>obs \<in> set (obstacles (beforeHazards env inp s)).
           \<not> hit (playerPos (beforeHazards env inp s)) obs"
  shows "update PLAYING env inp s =
     (beforeHazards env inp s)
       \<lparr>backgroundOffset := backgroundOffset (beforeHazards env inp s)
          - (6 + scoreRef s / 1200) * timeScale s * 0.5\<rparr>"
  by (simp add: update_stages collisionPhase_hazards [OF assms(1) assms(2)]
      hazardLoop_none [OF assms(3)])

lemma leap_after_first:
  "obstacles (update PLAYING env (idle 16) leapScene) =
     [groundSpike ''a'' (2405 / 24), cruise ''b'' (2525 / 24) 290 8,
      \<lparr>obs_id = [], obs_x = 950, obs_y = 290, baseY = 290, width = 30, height = 30,
        kind = spike, speedMultiplier = 1 + (1950 + 163 / 192) / 1000\<rparr>]"
  "playerPos (update PLAYING env (idle 16) leapScene) = \<lparr>vec_x = 100, vec_y = 1254 / 5\<rparr>"
  "playerVel (update PLAYING env (idle 16) leapScene) = \<lparr>vec_x = 0, vec_y = 4 / 5\<rparr>"
  "keysPressed (update PLAYING env (idle 16) leapScene) = (\<lambda>code. False)"
proof -
  let ?inp = "idle 16"
  let ?h = "beforeHazards env ?inp leapScene"
  note st = leapScene_stages [of env 16]
  have alive: "\<not> isDying leapScene" by simp
  have pad: "gamepads ?inp = []" by (simp add: idle_def)
  have keys: "keysPressed leapScene = (\<lambda>code. False)" by simp
  have fl: "\<lfloor>(950 + 163 / 24 / 8) / 1000 :: real\<rfloor> = 0"
    by (simp add: floor_eq_iff)
  have "invincibleUntil (afterObstacles env ?inp leapScene) = invincibleUntil leapScene"
    by (rule afterObstacles_quiet) (simp_all add: fl)
  then have window: "\<not> now ?inp < invincibleUntil ?h" by (simp add: idle_def)
  have p: "playerPos ?h = \<lparr>vec_x = 100, vec_y = 1254 / 5\<rparr>" using st(1) by simp
  have o: "obstacles ?h =
     [groundSpike ''a'' (2405 / 24), cruise ''b'' (2525 / 24) 290 8,
      \<lparr>obs_id = [], obs_x = 950, obs_y = 290, baseY = 290, width = 30, height = 30,
        kind = spike, speedMultiplier = 1 + (1950 + 163 / 192) / 1000\<rparr>]"
    using st(6) by simp
  have clear: "\<forall>obs \<in> set (obstacles ?h). \<not> hit (playerPos ?h) obs"
    unfolding o p by (simp add: hit_groundSpike hit_cruise) (simp add: hit_def isLaser_def consts_defs)
  note u = update_no_hit [OF alive window clear]
  have v: "playerVel (beforeScore env ?inp leapScene) = \<lparr>vec_x = 0, vec_y = 4 / 5\<rparr>"
    unfolding beforeScore_idle_vel [OF keys pad] by simp
  show "obstacles (update PLAYING env ?inp leapScene) =
     [groundSpike ''a'' (2405 / 24), cruise ''b'' (2525 / 24) 290 8,
      \<lparr>obs_id = [], obs_x = 950, obs_y = 290, baseY = 290, width = 30, height = 30,
        kind = spike, speedMultiplier = 1 + (1950 + 163 / 192) / 1000\<rparr>]"
    unfolding u using o by simp
  show "playerPos (update PLAYING env ?inp leapScene) = \<lparr>vec_x = 100, vec_y = 1254 / 5\<rparr>"
    unfolding u using p by simp
  show "playerVel (update PLAYING env ?inp leapScene) = \<lparr>vec_x = 0, vec_y = 4 / 5\<rparr>"
    unfolding u using v by simp
  show "keysPressed (update PLAYING env ?inp leapScene) = (\<lambda>code. False)"
    unfolding u by simp
qed

text \<open>In the second tick the spike and the missile are within reach again.\<close>

lemma leap_second_stage:
  "playerPos (afterObstacles DEFAULT_ENVIRONMENT (idle 32)
      (update PLAYING DEFAULT_ENVIRONMENT (idle 16) leapScene)) =
     \<lparr>vec_x = 100, vec_y = 1262 / 5\<rparr>"
  "map obs_id (filter (\<lambda>obs. nearMissDist \<lparr>vec_x = 100, vec_y = 1262 / 5\<rparr> obs
                              < PLAYER_SIZE + NEAR_MISS_THRESHOLD)
     (obstacles (afterObstacles DEFAULT_ENVIRONMENT (idle 32)
        (update PLAYING DEFAULT_ENVIRONMENT (idle 16) leapScene)))) =
   [''a'', ''b'']"
proof -
  let ?env = DEFAULT_ENVIRONMENT
  let ?u = "update PLAYING ?env (idle 16) leapScene"
  note u = leap_after_first [of ?env] leap_first_frame
  have pad: "gamepads (idle 32) = []" by (simp add: idle_def)
  have "playerPos (beforeScore ?env (idle 32) ?u) = \<lparr>vec_x = 100, vec_y = 1262 / 5\<rparr>"
    unfolding beforeScore_idle [OF u(4) pad] u by simp
  then show "playerPos (afterObstacles ?env (idle 32) ?u) = \<lparr>vec_x = 100, vec_y = 1262 / 5\<rparr>"
    by simp
  have kinds: "\<forall>obs \<in> set (obstacles ?u). kind obs = spike \<or> (\<exists>v. kind obs = missile v)"
    unfolding u by (simp add: groundSpike_def cruise_def)
  show "map obs_id (filter (\<lambda>obs. nearMissDist \<lparr>vec_x = 100, vec_y = 1262 / 5\<rparr> obs
                              < PLAYER_SIZE + NEAR_MISS_THRESHOLD)
     (obstacles (afterObstacles ?env (idle 32) ?u))) = [''a'', ''b'']"
    unfolding afterObstacles_moves [OF kinds] u
    by (simp add: nearMissDist_def groundSpike_def cruise_def consts_defs Let_def sqrt_less_55)
qed

subsection \<open>The theorems on the scenes\<close>

text \<open>The crash scene (for C3): the tick reaches its hazard loop with no shield, outside any
  invincibility window, with the spike and the missile both on the player, and ends dying
  with one game-over report scheduled; a further trigger on that state changes nothing.\<close>

theorem death_sequence_once_witness:
  "\<not> isDying crashScene \<and>
   \<not> has (activePowerUps (beforeHazards DEFAULT_ENVIRONMENT (idle 16) crashScene)) SHIELD \<and>
   \<not> now (idle 16) < invincibleUntil (beforeHazards DEFAULT_ENVIRONMENT (idle 16) crashScene) \<and>
   take 2 (obstacles (beforeHazards DEFAULT_ENVIRONMENT (idle 16) crashScene)) =
     [groundSpike ''a'' 100, cruise ''b'' 116 290 8] \<and>
   hit (playerPos (beforeHazards DEFAULT_ENVIRONMENT (idle 16) crashScene)) (groundSpike ''a'' 100) \<and>
   hit (playerPos (beforeHazards DEFAULT_ENVIRONMENT (idle 16) crashScene)) (cruise ''b'' 116 290 8) \<and>
   isDying (update PLAYING DEFAULT_ENVIRONMENT (idle 16) crashScene) \<and>
   timeScale (update PLAYING DEFAULT_ENVIRONMENT (idle 16) crashScene) = 0.15 \<and>
   pendingTimers (update PLAYING DEFAULT_ENVIRONMENT (idle 16) crashScene) = [1] \<and>
   nextTimerId (update PLAYING DEFAULT_ENVIRONMENT (idle 16) crashScene) = 1 \<and>
   deathTimeoutRef (update PLAYING DEFAULT_ENVIRONMENT (idle 16) crashScene) = Some 1 \<and>
   triggerDeathSequence DEFAULT_ENVIRONMENT 100 290 (update PLAYING DEFAULT_ENVIRONMENT (idle 16) crashScene)
     = update PLAYING DEFAULT_ENVIRONMENT (idle 16) crashScene \<and>
   audioCues (hazardLoop DEFAULT_ENVIRONMENT 0
      ((initialGame zeroStream)\<lparr>obstacles := [groundSpike ''a'' 100, cruise ''b'' 116 290 8]\<rparr>))
     = [GameOverSound]"
proof -
  let ?env = DEFAULT_ENVIRONMENT
  let ?u = "beforeHazards ?env (idle 16) crashScene"
  let ?d = "update PLAYING ?env (idle 16) crashScene"
  let ?s = "(initialGame zeroStream)\<lparr>obstacles := [groundSpike ''a'' 100, cruise ''b'' 116 290 8]\<rparr>"
  note st = crashScene_stages [of ?env]
  have alive: "\<not> isDying crashScene" by simp
  have shield: "\<not> has (activePowerUps ?u) SHIELD" unfolding st by simp
  have window: "\<not> now (idle 16) < invincibleUntil ?u" unfolding st by (simp add: idle_def)
  have two: "take 2 (obstacles ?u) = [groundSpike ''a'' 100, cruise ''b'' 116 290 8]"
    unfolding st by simp
  have ha: "hit (playerPos ?u) (groundSpike ''a'' 100)" unfolding st by (simp add: hit_groundSpike)
  have hb: "hit (playerPos ?u) (cruise ''b'' 116 290 8)" unfolding st by (simp add: hit_cruise)
  have struck: "\<exists>obs \<in> set (obstacles ?u). hit (playerPos ?u) obs"
  proof
    show "groundSpike ''a'' 100 \<in> set (obstacles ?u)" unfolding st(2) by simp
    show "hit (playerPos ?u) (groundSpike ''a'' 100)" by (rule ha)
  qed
  have pre: "PLAYING = PLAYING \<and> \<not> isDying crashScene \<and> \<not> has (activePowerUps ?u) SHIELD \<and>
      \<not> now (idle 16) < invincibleUntil ?u \<and> (\<exists>obs \<in> set (obstacles ?u). hit (playerPos ?u) obs)"
    using alive shield window struck by simp
  note tick = death_sequence_once [where s = crashScene and gameState = PLAYING and env = ?env
      and inp = "idle 16" and ix = 0 and iy = 0 and t = 0,
      THEN conjunct2, THEN conjunct1, THEN mp, OF pre]
  from tick have dead: "isDying ?d" by (rule conjunct1)
  note again = death_sequence_once [where s = ?d and gameState = PLAYING and env = ?env
      and inp = "idle 16" and ix = 100 and iy = 290 and t = 0,
      THEN conjunct1, THEN mp, OF dead]
  have pre': "\<not> isDying ?s \<and> \<not> has (activePowerUps ?s) SHIELD \<and>
      (\<exists>obs \<in> set (obstacles ?s). hit (playerPos ?s) obs)"
    by (simp add: hit_groundSpike)
  note loop = death_sequence_once [where s = ?s and gameState = PLAYING and env = ?env
      and inp = "idle 0" and ix = 0 and iy = 0 and t = 0,
      THEN conjunct2, THEN conjunct2, THEN conjunct1, THEN mp, OF pre']
  from loop have cue: "audioCues (hazardLoop ?env 0 ?s) = audioCues ?s @ [GameOverSound]"
    by (elim conjE)
  have t0: "pendingTimers crashScene = []" "nextTimerId crashScene = 0" by simp_all
  from tick have
    "timeScale ?d = 0.15" "pendingTimers ?d = pendingTimers crashScene @ [Suc (nextTimerId crashScene)]"
    "nextTimerId ?d = Suc (nextTimerId crashScene)"
    "deathTimeoutRef ?d = Some (Suc (nextTimerId crashScene))"
    by blast+
  then have res: "timeScale ?d = 0.15" "pendingTimers ?d = [1]" "nextTimerId ?d = 1"
    "deathTimeoutRef ?d = Some 1"
    unfolding t0 by simp_all
  have cue': "audioCues (hazardLoop ?env 0 ?s) = [GameOverSound]"
    unfolding cue by simp
  show ?thesis
    using alive shield window two ha hb dead res again cue' by (intro conjI)
qed

text \<open>The leap scene (for C4): its two obstacles keep the \<open>speedMultiplier\<close> 1 through the tick
  and the spike spawned behind them gets \<open>1 + 1950.85 / 1000\<close>, the score when it is
  spawned; a tick outside PLAYING leaves the list alone.\<close>

theorem speed_multiplier_fixed_at_spawn_witness:
  "scoreRef ((initialGame zeroStream)\<lparr>scoreRef := 2000\<rparr>) = 2000 \<and>
   speedMultiplier (last (obstacles (spawnObstacle ((initialGame zeroStream)\<lparr>scoreRef := 2000\<rparr>)))) = 3 \<and>
   obstacles (update START DEFAULT_ENVIRONMENT (idle 16) leapScene) = obstacles leapScene \<and>
   map speedMultiplier (obstacles leapScene) = [1, 1] \<and>
   scoreRef (beforeSpawn DEFAULT_ENVIRONMENT (idle 16) leapScene) = 1950 + 163 / 192 \<and>
   map obs_id (take 2 (obstacles (update PLAYING DEFAULT_ENVIRONMENT (idle 16) leapScene))) =
     [''a'', ''b''] \<and>
   map speedMultiplier (obstacles (update PLAYING DEFAULT_ENVIRONMENT (idle 16) leapScene)) =
     [1, 1, 1 + (1950 + 163 / 192) / 1000]"
proof -
  let ?env = DEFAULT_ENVIRONMENT
  let ?s = "(initialGame zeroStream)\<lparr>scoreRef := 2000\<rparr>"
  let ?tag = "\<lambda>obs :: Obstacle. (obs_id obs, speedMultiplier obs)"
  let ?u = "update PLAYING ?env (idle 16) leapScene"
  let ?s8 = "beforeSpawn ?env (idle 16) leapScene"
  note st = leapScene_stages [of ?env 16]
  have sc: "scoreRef ?s = 2000" by simp
  note spawn = speed_multiplier_fixed_at_spawn [where s = ?s and gameState = PLAYING and env = ?env
      and inp = "idle 0", THEN conjunct2, THEN conjunct1, THEN mp, OF sc]
  have ns: "START \<noteq> PLAYING" by simp
  note still = speed_multiplier_fixed_at_spawn [where s = leapScene and gameState = START
      and env = ?env and inp = "idle 16",
      THEN conjunct2, THEN conjunct2, THEN conjunct1, THEN mp, OF ns]
  note tick = speed_multiplier_fixed_at_spawn [where s = leapScene and gameState = PLAYING
      and env = ?env and inp = "idle 16",
      THEN conjunct2, THEN conjunct2, THEN conjunct2, THEN mp, OF refl]
  have s8: "scoreRef ?s8 = 1950 + 163 / 192" using st(4) by simp
  have cond: "\<not> isDying leapScene \<and>
      (length (obstacles ?s8) = 0 \<or>
       obs_x (last (obstacles ?s8)) < CANVAS_WIDTH - (250 - min (scoreRef ?s8 / 30) 150))"
    unfolding st(5) s8 by (simp add: consts_defs)
  from tick obtain new :: "Obstacle list" where
    new: "map ?tag (obstacles ?u) = map ?tag (obstacles ?s8) @ map ?tag new"
      "length new = (if \<not> isDying leapScene \<and>
          (length (obstacles ?s8) = 0 \<or>
           obs_x (last (obstacles ?s8)) < CANVAS_WIDTH - (250 - min (scoreRef ?s8 / 30) 150))
        then 1 else 0)"
      "\<forall>obs \<in> set new. speedMultiplier obs = 1 + scoreRef ?s8 / 1000"
    by blast
  from new(2) cond have "length new = 1" by simp
  then obtain n where n: "new = [n]" by (cases new) simp_all
  have mult: "speedMultiplier n = 1 + (1950 + 163 / 192) / 1000"
    using new(3) unfolding n s8 by simp
  have tags: "map ?tag (obstacles ?u) =
      [(''a'', 1), (''b'', 1), (obs_id n, 1 + (1950 + 163 / 192) / 1000)]"
    unfolding new(1) st(5) n using mult by (simp add: groundSpike_def cruise_def)
  have "map speedMultiplier (obstacles ?u) = map snd (map ?tag (obstacles ?u))"
    by (simp add: comp_def)
  then have mults: "map speedMultiplier (obstacles ?u) = [1, 1, 1 + (1950 + 163 / 192) / 1000]"
    unfolding tags by simp
  have "map obs_id (take 2 (obstacles ?u)) = take 2 (map fst (map ?tag (obstacles ?u)))"
    by (simp add: comp_def take_map)
  then have ids: "map obs_id (take 2 (obstacles ?u)) = [''a'', ''b'']"
    unfolding tags by simp
  have before: "map speedMultiplier (obstacles leapScene) = [1, 1]"
    by (simp add: groundSpike_def cruise_def)
  show ?thesis
    using sc spawn still before s8 ids mults by (intro conjI)
qed

text \<open>The leap scene (for C5): the spike and the missile pass within reach of the player; the
  tick adds both ids, emits two NEAR_MISS and adds 1000 (the score goes from 950 to
  2050.85 with the accrual and the collectible). In the next tick both are within reach
  again, and neither is credited: the set and the number of NEAR_MISS emitted stay as
  they are. The check on an id already in the set changes nothing.\<close>

theorem near_miss_once_per_id_witness:
  "\<not> isDying leapScene \<and> nearMissedObstacles leapScene = {} \<and>
   nearMissedObstacles (update PLAYING DEFAULT_ENVIRONMENT (idle 16) leapScene) = {''a'', ''b''} \<and>
   emitted NEAR_MISS (update PLAYING DEFAULT_ENVIRONMENT (idle 16) leapScene) = 2 \<and>
   scoreRef (update PLAYING DEFAULT_ENVIRONMENT (idle 16) leapScene) =
     950 + 163 / 192 + 500 * 2 + 100 \<and>
   map obs_id
     (filter (\<lambda>obs. nearMissDist
                (playerPos (afterObstacles DEFAULT_ENVIRONMENT (idle 32)
                   (update PLAYING DEFAULT_ENVIRONMENT (idle 16) leapScene))) obs
              < PLAYER_SIZE + NEAR_MISS_THRESHOLD)
        (obstacles (afterObstacles DEFAULT_ENVIRONMENT (idle 32)
           (update PLAYING DEFAULT_ENVIRONMENT (idle 16) leapScene)))) = [''a'', ''b''] \<and>
   nearMissedObstacles (update PLAYING DEFAULT_ENVIRONMENT (idle 32)
      (update PLAYING DEFAULT_ENVIRONMENT (idle 16) leapScene)) = {''a'', ''b''} \<and>
   emitted NEAR_MISS (update PLAYING DEFAULT_ENVIRONMENT (idle 32)
      (update PLAYING DEFAULT_ENVIRONMENT (idle 16) leapScene)) = 2 \<and>
   nearMissDist (playerPos (initialGame zeroStream)) (groundSpike ''a'' 140)
     < PLAYER_SIZE + NEAR_MISS_THRESHOLD \<and>
   nearMissedObstacles (nearMissCheck 0 (groundSpike ''a'' 140) (initialGame zeroStream)) = {''a''} \<and>
   scoreRef (nearMissCheck 0 (groundSpike ''a'' 140) (initialGame zeroStream)) = 500 \<and>
   socialEvents (nearMissCheck 0 (groundSpike ''a'' 140) (initialGame zeroStream)) = [NEAR_MISS] \<and>
   nearMissCheck 16 (groundSpike ''a'' 134)
       (nearMissCheck 0 (groundSpike ''a'' 140) (initialGame zeroStream))
     = nearMissCheck 0 (groundSpike ''a'' 140) (initialGame zeroStream)"
proof -
  let ?env = DEFAULT_ENVIRONMENT
  let ?u = "update PLAYING ?env (idle 16) leapScene"
  let ?s = "initialGame zeroStream"
  let ?o = "groundSpike ''a'' 140"
  note st = leapScene_stages [of ?env 16]
  have alive: "\<not> isDying leapScene" and none: "nearMissedObstacles leapScene = {}" by simp_all
  have pre: "PLAYING = PLAYING \<and> \<not> isDying leapScene" by simp
  note tick = near_miss_once_per_id [where gameState = PLAYING and s = leapScene and env = ?env
      and inp = "idle 16" and obs = ?o and t = 0 and fs = "[]",
      THEN conjunct1, THEN mp, OF pre]
  have p7: "playerPos (afterObstacles ?env (idle 16) leapScene) = \<lparr>vec_x = 100, vec_y = 1254 / 5\<rparr>"
    using st(1) by simp
  from tick have "nearMissedObstacles ?u =
        nearMissedObstacles leapScene \<union>
        set (map obs_id
          (filter (\<lambda>obs. nearMissDist (playerPos (afterObstacles ?env (idle 16) leapScene)) obs
                           < PLAYER_SIZE + NEAR_MISS_THRESHOLD)
             (obstacles (afterObstacles ?env (idle 16) leapScene))))"
    by (rule conjunct1)
  then have n: "nearMissedObstacles ?u = {''a'', ''b''}"
    unfolding st(2) p7 none by (auto simp: near_groundSpike near_cruise)
  have card: "card ({''a'', ''b''} :: string set) = 2" by simp
  from tick have "emitted NEAR_MISS ?u =
      emitted NEAR_MISS leapScene + card (nearMissedObstacles ?u - nearMissedObstacles leapScene)"
    by (elim conjE)
  then have e: "emitted NEAR_MISS ?u = 2"
    unfolding n none Diff_empty card by (simp add: emitted_def)
  from tick have "scoreRef ?u =
        scoreRef leapScene
        + (((6 + scoreRef leapScene / 1200) * timeScale leapScene) / 8) *
            (if has (activePowerUps leapScene) MULTIPLIER then 2.5 else 1)
        + 500 * real (card (nearMissedObstacles ?u - nearMissedObstacles leapScene))
        + (if has (activePowerUps leapScene) MULTIPLIER then 300 else 100) *
            (real (emitted COLLECT ?u) - real (emitted COLLECT leapScene))"
    by (elim conjE)
  then have sc: "scoreRef ?u = 950 + 163 / 192 + 500 * 2 + 100"
    unfolding n none Diff_empty card leapScene_collect by (simp add: emitted_def)
  let ?v = "update PLAYING ?env (idle 32) ?u"
  have pre2: "PLAYING = PLAYING \<and> \<not> isDying ?u" using leap_first_frame(2) by simp
  note tick2 = near_miss_once_per_id [where gameState = PLAYING and s = ?u and env = ?env
      and inp = "idle 32" and obs = ?o and t = 0 and fs = "[]",
      THEN conjunct1, THEN mp, OF pre2]
  have again2: "map obs_id
     (filter (\<lambda>obs. nearMissDist (playerPos (afterObstacles ?env (idle 32) ?u)) obs
              < PLAYER_SIZE + NEAR_MISS_THRESHOLD)
        (obstacles (afterObstacles ?env (idle 32) ?u))) = [''a'', ''b'']"
    unfolding leap_second_stage(1) by (rule leap_second_stage(2))
  from tick2 have "nearMissedObstacles ?v =
        nearMissedObstacles ?u \<union>
        set (map obs_id
          (filter (\<lambda>obs. nearMissDist (playerPos (afterObstacles ?env (idle 32) ?u)) obs
                           < PLAYER_SIZE + NEAR_MISS_THRESHOLD)
             (obstacles (afterObstacles ?env (idle 32) ?u))))"
    by (rule conjunct1)
  then have n2: "nearMissedObstacles ?v = {''a'', ''b''}"
    unfolding again2 n by simp
  from tick2 have "emitted NEAR_MISS ?v =
      emitted NEAR_MISS ?u + card (nearMissedObstacles ?v - nearMissedObstacles ?u)"
    by (elim conjE)
  then have e2: "emitted NEAR_MISS ?v = 2"
    unfolding n2 n e by simp
  have near: "nearMissDist (playerPos ?s) ?o < PLAYER_SIZE + NEAR_MISS_THRESHOLD"
    by (simp add: near_groundSpike)
  have pre1: "\<not> isDying ?s \<and> obs_id ?o \<notin> nearMissedObstacles ?s \<and>
      nearMissDist (playerPos ?s) ?o < PLAYER_SIZE + NEAR_MISS_THRESHOLD"
    using near by simp
  note first = near_miss_once_per_id [where gameState = PLAYING and s = ?s and env = ?env
      and inp = "idle 0" and obs = ?o and t = 0 and fs = "[]",
      THEN conjunct2, THEN conjunct1, THEN mp, OF pre1]
  from first have f: "nearMissedObstacles (nearMissCheck 0 ?o ?s) = {''a''}"
    "scoreRef (nearMissCheck 0 ?o ?s) = 500" "socialEvents (nearMissCheck 0 ?o ?s) = [NEAR_MISS]"
    by simp_all
  have known: "obs_id (groundSpike ''a'' 134) \<in> nearMissedObstacles (nearMissCheck 0 ?o ?s)"
    unfolding f by simp
  note again = near_miss_once_per_id [where gameState = PLAYING and s = "nearMissCheck 0 ?o ?s"
      and env = ?env and inp = "idle 0" and obs = "groundSpike ''a'' 134" and t = 16 and fs = "[]",
      THEN conjunct2, THEN conjunct2, THEN conjunct1, THEN mp, OF known]
  show ?thesis
    using alive none n e sc again2 n2 e2 near f again by (intro conjI)
qed

text \<open>The bonus scene and the leap scene (for C7), which differ only in MULTIPLIER: the
  one collectible in reach is picked up in both; with MULTIPLIER the tick adds
  \<open>2.5 * 163 / 192\<close>, 1000 for the two near misses and 300 for the collectible, without it
  \<open>163 / 192\<close>, 1000 and 100.\<close>

theorem multiplier_scoring_witness:
  "\<not> isDying bonusScene \<and> has (activePowerUps bonusScene) MULTIPLIER \<and> scoreRef bonusScene = 950 \<and>
   emitted COLLECT (update PLAYING DEFAULT_ENVIRONMENT (idle 16) bonusScene) = 1 \<and>
   scoreRef (update PLAYING DEFAULT_ENVIRONMENT (idle 16) bonusScene) =
     950 + 2.5 * (163 / 192) + 500 * 2 + 300 \<and>
   \<not> isDying leapScene \<and> \<not> has (activePowerUps leapScene) MULTIPLIER \<and> scoreRef leapScene = 950 \<and>
   emitted COLLECT (update PLAYING DEFAULT_ENVIRONMENT (idle 16) leapScene) = 1 \<and>
   scoreRef (update PLAYING DEFAULT_ENVIRONMENT (idle 16) leapScene) =
     950 + 163 / 192 + 500 * 2 + 100"
proof -
  let ?env = DEFAULT_ENVIRONMENT
  let ?b = "update PLAYING ?env (idle 16) bonusScene"
  let ?l = "update PLAYING ?env (idle 16) leapScene"
  let ?p = "\<lparr>vec_x = 100, vec_y = 1254 / 5\<rparr>"
  note sb = bonusScene_stages [of ?env 16] and sl = leapScene_stages [of ?env 16]
  have b0: "\<not> isDying bonusScene" "has (activePowerUps bonusScene) MULTIPLIER" "scoreRef bonusScene = 950"
    and l0: "\<not> isDying leapScene" "\<not> has (activePowerUps leapScene) MULTIPLIER" "scoreRef leapScene = 950"
    by simp_all
  note tb = multiplier_scoring [where gameState = PLAYING and s = bonusScene and env = ?env
      and inp = "idle 16", OF refl b0(1)]
  note tl = multiplier_scoring [where gameState = PLAYING and s = leapScene and env = ?env
      and inp = "idle 16", OF refl l0(1)]
  have pb: "playerPos (beforeCollision ?env (idle 16) bonusScene) = ?p" using sb(1) by simp
  have pl: "playerPos (beforeCollision ?env (idle 16) leapScene) = ?p" using sl(1) by simp
  have cb: "emitted COLLECT ?b = 1"
    unfolding tb [THEN conjunct2] sb(7) pb
    by (simp add: overlaps_def coin_def consts_defs emitted_def)
  have cl: "emitted COLLECT ?l = 1"
    unfolding tl [THEN conjunct2] sl(7) pl
    by (simp add: overlaps_def coin_def consts_defs emitted_def)
  have scb: "scoreRef ?b = 950 + 2.5 * (163 / 192) + 500 * 2 + 300"
    unfolding tb [THEN conjunct1] cb bonusScene_near by (simp add: emitted_def)
  have scl: "scoreRef ?l = 950 + 163 / 192 + 500 * 2 + 100"
    unfolding tl [THEN conjunct1] cl leapScene_near by (simp add: emitted_def)
  show ?thesis
    using b0 cb scb l0 cl scl by (intro conjI)
qed


end
